theory Spec2Isabelle
  imports Main "HOL-Library.Word" "HOL-Library.AList"
begin

section \<open>JavaScript values and errors\<close>

text \<open>
  The handlers of \<^verbatim>\<open>vault-manager.ts\<close>, \<^verbatim>\<open>db-manager.ts\<close> and \<^verbatim>\<open>git-manager.ts\<close> pass
  around values of TypeScript type \<^verbatim>\<open>any\<close> that come out of \<^verbatim>\<open>JSON.parse\<close>. They are
  modelled by the datatype \<open>json\<close>; an object is the association list of its own
  properties, numbers are integers. A property read that finds no own property goes on
  to the prototype of the value; what it finds there is a function or an object of the
  runtime, \<open>JNative name\<close>, which is not JSON data: no parser yields it. A thrown
  exception is a value \<open>Error code message\<close>.
\<close>

datatype json =
    JNull
  | JBool bool
  | JNum int
  | JStr string
  | JArr "json list"
  | JObj "(string \<times> json) list"
  | JNative string

datatype js_error = Error (err_code: string) (err_message: string)

text \<open>What a handler returns: \<^verbatim>\<open>{ success: true, ... }\<close> or \<^verbatim>\<open>{ success: false, error }\<close>.\<close>

datatype 'a reply = Success 'a | Failure string

type_synonym bytes = "8 word list"

text \<open>Truthiness, as \<^verbatim>\<open>if (x)\<close>, \<^verbatim>\<open>!x\<close>, \<^verbatim>\<open>x || y\<close> and \<^verbatim>\<open>x && y\<close> test it.\<close>

fun truthy :: "json \<Rightarrow> bool" where
  "truthy JNull = False"
| "truthy (JBool b) = b"
| "truthy (JNum n) = (n \<noteq> 0)"
| "truthy (JStr s) = (s \<noteq> [])"
| "truthy (JArr xs) = True"
| "truthy (JObj ps) = True"
| "truthy (JNative n) = True"

text \<open>\<^verbatim>\<open>undefined\<close> is \<open>None\<close>: it is falsy.\<close>

fun truthy_opt :: "json option \<Rightarrow> bool" where
  "truthy_opt None = False"
| "truthy_opt (Some v) = truthy v"

fun is_string :: "json option \<Rightarrow> bool" where
  "is_string (Some (JStr s)) = True"
| "is_string v = False"

text \<open>
  The prototype objects are named \<^verbatim>\<open>Object.prototype\<close>, \<^verbatim>\<open>Array.prototype\<close> and so on; every
  other native value is a function. \<^verbatim>\<open>Array.prototype\<close> is itself an array.
\<close>

definition prototype_names :: "string list" where
  "prototype_names =
     [''Object.prototype'', ''Array.prototype'', ''String.prototype'', ''Number.prototype'',
      ''Boolean.prototype'']"

fun is_array :: "json \<Rightarrow> bool" where
  "is_array (JArr xs) = True"
| "is_array (JNative n) = (n = ''Array.prototype'')"
| "is_array v = False"

text \<open>\<^verbatim>\<open>typeof v === 'object'\<close> holds of objects, arrays and \<^verbatim>\<open>null\<close>, not of functions.\<close>

fun typeof_object :: "json \<Rightarrow> bool" where
  "typeof_object JNull = True"
| "typeof_object (JArr xs) = True"
| "typeof_object (JObj ps) = True"
| "typeof_object (JNative n) = (n \<in> set prototype_names)"
| "typeof_object v = False"

text \<open>
  Canonical array indices: the decimal numerals without a leading zero. A property name
  of this form addresses an element of an array or a character of a string.
\<close>

definition digit_val :: "char \<Rightarrow> nat option" where
  "digit_val c = (let n = of_char c :: nat in if 48 \<le> n \<and> n \<le> 57 then Some (n - 48) else None)"

fun decimal :: "nat \<Rightarrow> string \<Rightarrow> nat option" where
  "decimal acc [] = Some acc"
| "decimal acc (c # cs) =
     (case digit_val c of None \<Rightarrow> None | Some d \<Rightarrow> decimal (10 * acc + d) cs)"

definition array_index :: "string \<Rightarrow> nat option" where
  "array_index k =
     (if k = [] then None
      else if hd k = CHR ''0'' \<and> tl k \<noteq> [] then None
      else decimal 0 k)"

text \<open>A number as a property name: \<^verbatim>\<open>String(n)\<close>.\<close>

function show_nat :: "nat \<Rightarrow> string" where
  "show_nat n =
     (if n < 10 then [char_of (48 + n)]
      else show_nat (n div 10) @ [char_of (48 + n mod 10)])"
  by pat_completeness auto
termination
  by (relation "measure id") auto

text \<open>
  The properties with a string name that the built-in prototypes define (ECMAScript
  2023, with the accessors of its annex B). Every value inherits those of
  \<^verbatim>\<open>Object.prototype\<close>; an array, a string, a number and a boolean find those of their own
  prototype first.
\<close>

definition object_members :: "string list" where
  "object_members =
     [''constructor'', ''__defineGetter__'', ''__defineSetter__'', ''hasOwnProperty'',
      ''__lookupGetter__'', ''__lookupSetter__'', ''isPrototypeOf'', ''propertyIsEnumerable'',
      ''toString'', ''valueOf'', ''toLocaleString'']"

definition array_members :: "string list" where
  "array_members =
     [''constructor'', ''at'', ''concat'', ''copyWithin'', ''fill'', ''find'', ''findIndex'',
      ''findLast'', ''findLastIndex'', ''lastIndexOf'', ''pop'', ''push'', ''reverse'', ''shift'',
      ''unshift'', ''slice'', ''sort'', ''splice'', ''includes'', ''indexOf'', ''join'', ''keys'',
      ''entries'', ''values'', ''forEach'', ''filter'', ''flat'', ''flatMap'', ''map'', ''every'',
      ''some'', ''reduce'', ''reduceRight'', ''toLocaleString'', ''toString'', ''toReversed'',
      ''toSorted'', ''toSpliced'', ''with'']"

definition string_members :: "string list" where
  "string_members =
     [''constructor'', ''anchor'', ''at'', ''big'', ''blink'', ''bold'', ''charAt'', ''charCodeAt'',
      ''codePointAt'', ''concat'', ''endsWith'', ''fontcolor'', ''fontsize'', ''fixed'',
      ''includes'', ''indexOf'', ''isWellFormed'', ''italics'', ''lastIndexOf'', ''link'',
      ''localeCompare'', ''match'', ''matchAll'', ''normalize'', ''padEnd'', ''padStart'',
      ''repeat'', ''replace'', ''replaceAll'', ''search'', ''slice'', ''small'', ''split'',
      ''strike'', ''sub'', ''substr'', ''substring'', ''sup'', ''startsWith'', ''toString'',
      ''toWellFormed'', ''trim'', ''trimStart'', ''trimLeft'', ''trimEnd'', ''trimRight'',
      ''toLocaleLowerCase'', ''toLocaleUpperCase'', ''toLowerCase'', ''toUpperCase'',
      ''valueOf'']"

definition number_members :: "string list" where
  "number_members =
     [''constructor'', ''toExponential'', ''toFixed'', ''toPrecision'', ''toString'', ''valueOf'',
      ''toLocaleString'']"

definition boolean_members :: "string list" where
  "boolean_members = [''constructor'', ''toString'', ''valueOf'']"

definition inherited_name :: "string \<Rightarrow> bool" where
  \<comment> \<open>the names that every object inherits\<close>
  "inherited_name k = (k = ''__proto__'' \<or> k \<in> set object_members)"

text \<open>
  \<open>inherited proto members k\<close>: the read of \<open>k\<close> that reaches the prototype \<open>proto\<close>.
  The accessor \<^verbatim>\<open>__proto__\<close> answers with the prototype of the value itself.
\<close>

definition object_prototype :: "string \<Rightarrow> json option" where
  "object_prototype k =
     (if k \<in> set object_members then Some (JNative (''Object.prototype.'' @ k)) else None)"

definition inherited :: "string \<Rightarrow> string list \<Rightarrow> string \<Rightarrow> json option" where
  "inherited proto members k =
     (if k = ''__proto__'' then Some (JNative proto)
      else if k \<in> set members then Some (JNative (proto @ ''.'' @ k))
      else object_prototype k)"

text \<open>
  Property read \<^verbatim>\<open>v[k]\<close> on a value that is neither \<^verbatim>\<open>null\<close> nor \<^verbatim>\<open>undefined\<close>: the own
  property when there is one, the inherited one otherwise. No read of the sources has a
  native value as its receiver.
\<close>

fun get_prop :: "json \<Rightarrow> string \<Rightarrow> json option" where
  "get_prop (JObj ps) k =
     (case map_of ps k of
        Some v \<Rightarrow> Some v
      | None \<Rightarrow> inherited ''Object.prototype'' [] k)"
| "get_prop (JArr xs) k =
     (if k = ''length'' then Some (JNum (int (length xs)))
      else case array_index k of
             None \<Rightarrow> inherited ''Array.prototype'' array_members k
           | Some i \<Rightarrow>
               if i < length xs then Some (xs ! i)
               else inherited ''Array.prototype'' array_members k)"
| "get_prop (JStr s) k =
     (if k = ''length'' then Some (JNum (int (length s)))
      else case array_index k of
             None \<Rightarrow> inherited ''String.prototype'' string_members k
           | Some i \<Rightarrow>
               if i < length s then Some (JStr [s ! i])
               else inherited ''String.prototype'' string_members k)"
| "get_prop (JNum n) k = inherited ''Number.prototype'' number_members k"
| "get_prop (JBool b) k = inherited ''Boolean.prototype'' boolean_members k"
| "get_prop v k = None"

text \<open>Assignment \<^verbatim>\<open>o[k] = v\<close> on an object: an existing property keeps its place.\<close>

fun set_prop :: "(string \<times> json) list \<Rightarrow> string \<Rightarrow> json \<Rightarrow> (string \<times> json) list" where
  "set_prop [] k v = [(k, v)]"
| "set_prop ((k', v') # ps) k v =
     (if k' = k then (k, v) # ps else (k', v') # set_prop ps k v)"

text \<open>\<^verbatim>\<open>raw.trim() === ''\<close>: the string holds white space only.\<close>

definition is_space :: "char \<Rightarrow> bool" where
  "is_space c = (c \<in> set [CHR '' '', CHR 0x09, CHR 0x0A, CHR 0x0B, CHR 0x0C, CHR 0x0D])"

definition blank :: "string \<Rightarrow> bool" where
  "blank s = list_all is_space s"

section \<open>Hexadecimal strings (libsodium's \<^verbatim>\<open>to_hex\<close> and \<^verbatim>\<open>from_hex\<close>)\<close>

definition hex_digit :: "nat \<Rightarrow> char" where
  "hex_digit n = (if n < 10 then char_of (48 + n) else char_of (87 + n))"

definition hex_value :: "char \<Rightarrow> nat option" where
  "hex_value c =
     (let n = of_char c :: nat in
      if 48 \<le> n \<and> n \<le> 57 then Some (n - 48)
      else if 97 \<le> n \<and> n \<le> 102 then Some (n - 87)
      else if 65 \<le> n \<and> n \<le> 70 then Some (n - 55)
      else None)"

fun to_hex :: "bytes \<Rightarrow> string" where
  "to_hex [] = []"
| "to_hex (b # bs) = hex_digit (unat b div 16) # hex_digit (unat b mod 16) # to_hex bs"

fun from_hex :: "string \<Rightarrow> js_error + bytes" where
  "from_hex [] = Inr []"
| "from_hex [c] = Inl (Error [] ''incomplete input'')"
| "from_hex (c # d # cs) =
     (case (hex_value c, hex_value d) of
        (Some h, Some l) \<Rightarrow>
          (case from_hex cs of
             Inl e \<Rightarrow> Inl e
           | Inr bs \<Rightarrow> Inr (word_of_nat (16 * h + l) # bs))
      | _ \<Rightarrow> Inl (Error [] ''invalid input''))"


section \<open>The libraries and the machine\<close>

text \<open>
  Everything the repository calls but does not define is a parameter of the model, the
  record \<open>env\<close>: \<^verbatim>\<open>JSON.stringify\<close> and \<^verbatim>\<open>JSON.parse\<close>, libsodium's random bytes, key
  derivation and secret box, and the clock. A library call that throws returns \<open>Inl\<close>.
  \<open>crypto_secretbox_open_easy\<close> stands for the call followed by \<^verbatim>\<open>libsodium.to_string\<close>:
  it returns the plaintext as the string that \<open>crypto_secretbox_easy\<close> was given, and
  \<open>Inl\<close> when the call throws (or returns a falsy value, which the callers turn into a
  throw).
\<close>

record env =
  JSON_stringify :: "json \<Rightarrow> string"
  JSON_parse :: "string \<Rightarrow> js_error + json"
  randombytes_buf :: "nat \<Rightarrow> nat \<Rightarrow> bytes"
  crypto_pwhash :: "string \<Rightarrow> bytes \<Rightarrow> js_error + bytes"
  crypto_secretbox_easy :: "string \<Rightarrow> bytes \<Rightarrow> bytes \<Rightarrow> js_error + bytes"
  crypto_secretbox_open_easy :: "bytes \<Rightarrow> bytes \<Rightarrow> bytes \<Rightarrow> js_error + string"
  toISOString :: "nat \<Rightarrow> string"
  sql_run :: "string \<Rightarrow> (string \<times> json) list \<Rightarrow> js_error + string \<times> json"
  git_throws :: "nat \<Rightarrow> string \<Rightarrow> js_error option"
  git_server_refs :: "nat \<Rightarrow> string list"
  git_fetched :: "nat \<Rightarrow> (string \<rightharpoonup> string)"

text \<open>
  The last four fields stand for better-sqlite3 and isomorphic-git.
  \<open>sql_run E table params\<close> is one \<^verbatim>\<open>INSERT OR REPLACE\<close> statement run with an object of
  named parameters: it throws, or it yields the primary key and the row that the table
  then holds under that key. \<open>git_throws E t name\<close> tells whether the library call
  \<open>name\<close> made at time \<open>t\<close> throws; \<open>git_server_refs E t\<close> is what \<^verbatim>\<open>listServerRefs\<close> returns
  at time \<open>t\<close>, and \<open>git_fetched E t\<close> the files that a pull or a clone at time \<open>t\<close> checks
  out.
\<close>

text \<open>
  \<^verbatim>\<open>fs.writeFileSync(path, data)\<close> opens the file with flag \<^verbatim>\<open>'w'\<close>, which creates or
  truncates it, and then writes the data. It can fail in two ways: the open is refused
  and the file is as it was, or the write breaks off after the open and the file holds
  the part of the data written so far, which may be nothing.
\<close>

datatype write_failure =
    Refused js_error
  | Broken js_error nat

text \<open>
  The state of the vault manager: the private field \<^verbatim>\<open>masterKey\<close>, the files under
  \<^verbatim>\<open>userData\<close>, the writes that fail (a path mapped to the way \<^verbatim>\<open>fs.writeFileSync\<close> fails
  there), and a counter that numbers the draws of random bytes and the readings of the
  clock.
\<close>

record vault_state =
  masterKey :: "bytes option"
  files :: "string \<rightharpoonup> string"
  write_error :: "string \<rightharpoonup> write_failure"
  ticks :: nat

abbreviation VAULT_PATH :: string where
  "VAULT_PATH \<equiv> ''vault.json''"

abbreviation METADATA_PATH :: string where
  "METADATA_PATH \<equiv> ''vault_meta.json''"

abbreviation (input) SALT_BYTES :: nat where
  "SALT_BYTES \<equiv> 16"

abbreviation (input) NONCE_BYTES :: nat where
  "NONCE_BYTES \<equiv> 24"

definition writeFileSync ::
  "string \<Rightarrow> string \<Rightarrow> 'a vault_state_scheme \<Rightarrow> js_error option \<times> 'a vault_state_scheme" where
  "writeFileSync p s w =
     (case write_error w p of
        None \<Rightarrow> (None, w\<lparr>files := (files w)(p \<mapsto> s)\<rparr>)
      | Some (Refused e) \<Rightarrow> (Some e, w)
      | Some (Broken e n) \<Rightarrow> (Some e, w\<lparr>files := (files w)(p \<mapsto> take n s)\<rparr>))"

definition randombytes ::
  "env \<Rightarrow> nat \<Rightarrow> 'a vault_state_scheme \<Rightarrow> bytes \<times> 'a vault_state_scheme" where
  "randombytes E n w = (randombytes_buf E (ticks w) n, w\<lparr>ticks := Suc (ticks w)\<rparr>)"

section \<open>The vault manager (\<^verbatim>\<open>vault-manager.ts\<close>)\<close>

definition status :: "'a vault_state_scheme \<Rightarrow> bool" where
  \<comment> \<open>the field \<^verbatim>\<open>locked\<close> of the object that \<^verbatim>\<open>status()\<close> returns\<close>
  "status w = (masterKey w = None)"

definition envelope :: "bytes \<Rightarrow> bytes \<Rightarrow> json" where
  "envelope nonce encrypted =
     JObj [(''nonce'', JStr (to_hex nonce)), (''ciphertext'', JStr (to_hex encrypted))]"

text \<open>
  The four lines that every writer repeats: draw a nonce, seal
  \<^verbatim>\<open>JSON.stringify(data)\<close> under the key, and build the payload object.
\<close>

definition seal ::
  "env \<Rightarrow> json \<Rightarrow> bytes \<Rightarrow> 'a vault_state_scheme \<Rightarrow> (js_error + json) \<times> 'a vault_state_scheme" where
  "seal E data key w =
     (let (nonce, w1) = randombytes E NONCE_BYTES w in
      case crypto_secretbox_easy E (JSON_stringify E data) nonce key of
        Inl e \<Rightarrow> (Inl e, w1)
      | Inr encrypted \<Rightarrow> (Inr (envelope nonce encrypted), w1))"

definition encryptData ::
  "env \<Rightarrow> json \<Rightarrow> 'a vault_state_scheme \<Rightarrow> json reply \<times> 'a vault_state_scheme" where
  "encryptData E data w =
     (case masterKey w of
        None \<Rightarrow> (Failure ''Vault Locked'', w)
      | Some key \<Rightarrow>
          (case seal E data key w of
             (Inl e, w1) \<Rightarrow> (Failure (err_message e), w1)
           | (Inr payload, w1) \<Rightarrow> (Success payload, w1)))"

definition saveDirect ::
  "env \<Rightarrow> json \<Rightarrow> 'a vault_state_scheme \<Rightarrow> unit reply \<times> 'a vault_state_scheme" where
  "saveDirect E data w =
     (case masterKey w of
        None \<Rightarrow> (Failure ''Vault Locked'', w)
      | Some key \<Rightarrow>
          (case seal E data key w of
             (Inl e, w1) \<Rightarrow> (Failure (''Failed to save vault: '' @ err_message e), w1)
           | (Inr payload, w1) \<Rightarrow>
               (case writeFileSync VAULT_PATH (JSON_stringify E payload) w1 of
                  (Some e, w2) \<Rightarrow> (Failure (''Failed to save vault: '' @ err_message e), w2)
                | (None, w2) \<Rightarrow> (Success (), w2))))"

text \<open>
  \<^verbatim>\<open>payload.nonce\<close> throws a TypeError when \<^verbatim>\<open>payload\<close> is \<^verbatim>\<open>null\<close>; \<^verbatim>\<open>from_hex\<close> throws
  on anything but a string of hexadecimal digits.
\<close>

definition hex_field :: "json \<Rightarrow> string \<Rightarrow> js_error + bytes" where
  "hex_field payload k =
     (case payload of
        JNull \<Rightarrow> Inl (Error ''TypeError'' ''Cannot read properties of null'')
      | _ \<Rightarrow>
          (case get_prop payload k of
             Some (JStr s) \<Rightarrow> from_hex s
           | _ \<Rightarrow> Inl (Error ''TypeError'' ''unsupported input type for input'')))"

definition decryptData :: "env \<Rightarrow> json \<Rightarrow> 'a vault_state_scheme \<Rightarrow> json reply" where
  "decryptData E payload w =
     (case masterKey w of
        None \<Rightarrow> Failure ''Vault Locked''
      | Some key \<Rightarrow>
          (case hex_field payload ''nonce'' of
             Inl e \<Rightarrow> Failure (err_message e)
           | Inr nonce \<Rightarrow>
               (case hex_field payload ''ciphertext'' of
                  Inl e \<Rightarrow> Failure (err_message e)
                | Inr ciphertext \<Rightarrow>
                    (case crypto_secretbox_open_easy E ciphertext nonce key of
                       Inl e \<Rightarrow> Failure (err_message e)
                     | Inr decrypted \<Rightarrow>
                         (case JSON_parse E decrypted of
                            Inl e \<Rightarrow> Failure (err_message e)
                          | Inr data \<Rightarrow> Success data)))))"

abbreviation verification_failed :: string where
  "verification_failed \<equiv> ''Master Password verification failed or vault corrupted.''"

definition decryptVault :: "env \<Rightarrow> 'a vault_state_scheme \<Rightarrow> json reply" where
  "decryptVault E w =
     (case masterKey w of
        None \<Rightarrow> Failure ''Vault locked''
      | Some key \<Rightarrow>
          (case files w VAULT_PATH of
             None \<Rightarrow> Success (JArr [])
           | Some raw \<Rightarrow>
               if raw = [] \<or> blank raw then Success (JArr [])
               else
                 (case JSON_parse E raw of
                    Inl e \<Rightarrow> Failure ''Vault JSON corrupted''
                  | Inr payload \<Rightarrow>
                      if \<not> truthy payload
                         \<or> \<not> truthy_opt (get_prop payload ''nonce'')
                         \<or> \<not> is_string (get_prop payload ''nonce'')
                         \<or> \<not> truthy_opt (get_prop payload ''ciphertext'')
                         \<or> \<not> is_string (get_prop payload ''ciphertext'')
                      then Failure verification_failed
                      else
                        (case hex_field payload ''nonce'' of
                           Inl e \<Rightarrow> Failure verification_failed
                         | Inr nonce \<Rightarrow>
                             (case hex_field payload ''ciphertext'' of
                                Inl e \<Rightarrow> Failure verification_failed
                              | Inr ciphertext \<Rightarrow>
                                  (case crypto_secretbox_open_easy E ciphertext nonce key of
                                     Inl e \<Rightarrow> Failure verification_failed
                                   | Inr decrypted \<Rightarrow>
                                       (case JSON_parse E decrypted of
                                          Inl e \<Rightarrow> Failure verification_failed
                                        | Inr data \<Rightarrow> Success data)))))))"

definition loadDirect :: "env \<Rightarrow> 'a vault_state_scheme \<Rightarrow> json reply" where
  "loadDirect E w = decryptVault E w"

text \<open>
  \<^verbatim>\<open>getSalt\<close>: the salt of the metadata file when the file holds one, a fresh salt
  otherwise, written to the metadata file; a failure of that write is caught and logged.
\<close>

definition stored_salt :: "env \<Rightarrow> 'a vault_state_scheme \<Rightarrow> bytes option" where
  "stored_salt E w =
     (case files w METADATA_PATH of
        None \<Rightarrow> None
      | Some raw \<Rightarrow>
          if raw = [] \<or> blank raw then None
          else
            (case JSON_parse E raw of
               Inl e \<Rightarrow> None
             | Inr meta \<Rightarrow>
                 if truthy meta \<and> truthy_opt (get_prop meta ''salt'')
                    \<and> is_string (get_prop meta ''salt'')
                 then (case hex_field meta ''salt'' of Inl e \<Rightarrow> None | Inr salt \<Rightarrow> Some salt)
                 else None))"

definition salt_file :: "env \<Rightarrow> bytes \<Rightarrow> string" where
  "salt_file E salt = JSON_stringify E (JObj [(''salt'', JStr (to_hex salt))])"

definition getSalt :: "env \<Rightarrow> 'a vault_state_scheme \<Rightarrow> bytes \<times> 'a vault_state_scheme" where
  "getSalt E w =
     (case stored_salt E w of
        Some salt \<Rightarrow> (salt, w)
      | None \<Rightarrow>
          (let (salt, w1) = randombytes E SALT_BYTES w
           in (salt, snd (writeFileSync METADATA_PATH (salt_file E salt) w1))))"

text \<open>The handler of \<^verbatim>\<open>vault:get-credential\<close>.\<close>

definition get_credential :: "env \<Rightarrow> string \<Rightarrow> 'a vault_state_scheme \<Rightarrow> json reply" where
  "get_credential E hostId w =
     (case masterKey w of
        None \<Rightarrow> Failure ''Vault locked''
      | Some key \<Rightarrow>
          (case decryptVault E w of
             Failure err \<Rightarrow> Failure err
           | Success current \<Rightarrow>
               (let data = (if truthy current \<and> typeof_object current \<and> \<not> is_array current
                            then current else JObj [(''hosts'', JObj [])]);
                    cred = (case get_prop data ''hosts'' of
                              None \<Rightarrow> None
                            | Some JNull \<Rightarrow> None
                            | Some hosts \<Rightarrow> get_prop hosts hostId)
                in Success (if truthy_opt cred then the cred else JNull))))"




text \<open>
  The handler of \<^verbatim>\<open>vault:init\<close>, the unlock operation. The key is stored in the field
  before the vault file is tried; a failed verification resets the field to \<^verbatim>\<open>null\<close>.
\<close>

definition error_or :: "string \<Rightarrow> string \<Rightarrow> string" where
  \<comment> \<open>\<^verbatim>\<open>error.message || fallback\<close>\<close>
  "error_or msg fallback = (if msg = [] then fallback else msg)"

definition vault_init ::
  "env \<Rightarrow> string \<Rightarrow> 'a vault_state_scheme \<Rightarrow> unit reply \<times> 'a vault_state_scheme" where
  "vault_init E password w =
     (let (salt, w1) = getSalt E w in
      case crypto_pwhash E password salt of
        Inl e \<Rightarrow> (Failure (error_or (err_message e) ''Unknown Vault Error''), w1)
      | Inr key \<Rightarrow>
          (let w2 = w1\<lparr>masterKey := Some key\<rparr> in
           if files w2 VAULT_PATH \<noteq> None then
             (case decryptVault E w2 of
                Failure err \<Rightarrow>
                  (Failure ''Invalid Master Password (or corrupted vault)'',
                   w2\<lparr>masterKey := None\<rparr>)
              | Success loaded \<Rightarrow> (Success (), w2))
           else (Success (), w2)))"

text \<open>The handler of \<^verbatim>\<open>vault:change-password\<close>.\<close>

definition change_password ::
  "env \<Rightarrow> string \<Rightarrow> 'a vault_state_scheme \<Rightarrow> unit reply \<times> 'a vault_state_scheme" where
  "change_password E newPassword w =
     (case masterKey w of
        None \<Rightarrow> (Failure ''Vault must be unlocked first'', w)
      | Some key \<Rightarrow>
          (case decryptVault E w of
             Failure err \<Rightarrow> (Failure ''Failed to decrypt current vault'', w)
           | Success currentData \<Rightarrow>
               (let (newSalt, w1) = randombytes E SALT_BYTES w in
                case crypto_pwhash E newPassword newSalt of
                  Inl e \<Rightarrow> (Failure (err_message e), w1)
                | Inr newMasterKey \<Rightarrow>
                    (case seal E currentData newMasterKey w1 of
                       (Inl e, w2) \<Rightarrow> (Failure (err_message e), w2)
                     | (Inr payload, w2) \<Rightarrow>
                         (case writeFileSync VAULT_PATH (JSON_stringify E payload) w2 of
                            (Some e, w3) \<Rightarrow> (Failure (err_message e), w3)
                          | (None, w3) \<Rightarrow>
                              (case writeFileSync METADATA_PATH (salt_file E newSalt) w3 of
                                 (Some e, w4) \<Rightarrow> (Failure (err_message e), w4)
                               | (None, w4) \<Rightarrow>
                                   (Success (), w4\<lparr>masterKey := Some newMasterKey\<rparr>)))))))"

text \<open>The handlers of \<^verbatim>\<open>vault:lock\<close> and \<^verbatim>\<open>vault:status\<close>.\<close>

definition vault_lock :: "'a vault_state_scheme \<Rightarrow> unit reply \<times> 'a vault_state_scheme" where
  "vault_lock w = (Success (), w\<lparr>masterKey := None\<rparr>)"



section \<open>The record store (\<^verbatim>\<open>db-manager.ts\<close>)\<close>

text \<open>
  A table is the list of its rows with their primary keys, in the order of insertion.
  \<^verbatim>\<open>INSERT OR REPLACE\<close> deletes the row that holds the key and appends the new one.
\<close>

type_synonym table = "(string \<times> json) list"

record database =
  hosts :: table
  snippets :: table
  settings :: table
  remote_connections :: table

definition replace_row :: "table \<Rightarrow> string \<Rightarrow> json \<Rightarrow> table" where
  "replace_row t k row = filter (\<lambda>r. fst r \<noteq> k) t @ [(k, row)]"

text \<open>
  Object spread \<^verbatim>\<open>{ ...v }\<close>: the own properties of an object, the elements of an array
  and the characters of a string under their indices, nothing for any other value.
\<close>

definition spread :: "json \<Rightarrow> (string \<times> json) list" where
  "spread v =
     (case v of
        JObj ps \<Rightarrow> ps
      | JArr xs \<Rightarrow> zip (map show_nat [0..<length xs]) xs
      | JStr s \<Rightarrow> zip (map show_nat [0..<length s]) (map (\<lambda>c. JStr [c]) s)
      | _ \<Rightarrow> [])"

definition null_deref :: js_error where
  "null_deref = Error ''TypeError'' ''Cannot read properties of null''"

text \<open>\<^verbatim>\<open>x.created_at || new Date().toISOString()\<close>\<close>

definition created_at_or :: "json \<Rightarrow> string \<Rightarrow> json" where
  "created_at_or x now =
     (if truthy_opt (get_prop x ''created_at'') then the (get_prop x ''created_at'')
      else JStr now)"

text \<open>
  The parameter object of a host or a snippet:
  \<^verbatim>\<open>{ ...host, tags: JSON.stringify(host.tags), created_at: host.created_at || now }\<close>.
  Reading \<^verbatim>\<open>host.tags\<close> throws when the element is \<^verbatim>\<open>null\<close>. \<^verbatim>\<open>JSON.stringify(undefined)\<close>
  is \<^verbatim>\<open>undefined\<close>: the parameter \<^verbatim>\<open>tags\<close> is then left unbound.
\<close>

definition tagged_params :: "env \<Rightarrow> string \<Rightarrow> json \<Rightarrow> js_error + (string \<times> json) list" where
  "tagged_params E now x =
     (case x of
        JNull \<Rightarrow> Inl null_deref
      | _ \<Rightarrow>
          Inr (let ps = (case get_prop x ''tags'' of
                           None \<Rightarrow> spread x
                         | Some t \<Rightarrow> set_prop (spread x) ''tags'' (JStr (JSON_stringify E t)))
               in set_prop ps ''created_at'' (created_at_or x now)))"

text \<open>The parameter object of a remote connection: \<^verbatim>\<open>{ ...rc, created_at: ... }\<close>.\<close>

definition plain_params :: "env \<Rightarrow> string \<Rightarrow> json \<Rightarrow> js_error + (string \<times> json) list" where
  "plain_params E now x =
     (case x of
        JNull \<Rightarrow> Inl null_deref
      | _ \<Rightarrow> Inr (set_prop (spread x) ''created_at'' (created_at_or x now)))"

text \<open>One \<^verbatim>\<open>for (const x of xs) stmt.run(...)\<close> loop; the first throw ends it.\<close>

fun run_each ::
  "env \<Rightarrow> string \<Rightarrow> (json \<Rightarrow> js_error + (string \<times> json) list) \<Rightarrow> json list \<Rightarrow> table
     \<Rightarrow> js_error + table" where
  "run_each E tbl mk [] t = Inr t"
| "run_each E tbl mk (x # xs) t =
     (case mk x of
        Inl e \<Rightarrow> Inl e
      | Inr params \<Rightarrow>
          (case sql_run E tbl params of
             Inl e \<Rightarrow> Inl e
           | Inr (k, row) \<Rightarrow> run_each E tbl mk xs (replace_row t k row)))"

text \<open>\<^verbatim>\<open>if (Array.isArray(data.key)) { for ... }\<close>\<close>

definition import_array ::
  "env \<Rightarrow> string \<Rightarrow> (json \<Rightarrow> js_error + (string \<times> json) list) \<Rightarrow> json option \<Rightarrow> table
     \<Rightarrow> js_error + table" where
  "import_array E tbl mk v t =
     (case v of
        Some (JArr xs) \<Rightarrow> run_each E tbl mk xs t
      | _ \<Rightarrow> Inr t)"

text \<open>
  The settings: the stored \<^verbatim>\<open>gitConfig\<close> is kept when it holds a token.
  \<^verbatim>\<open>JSON.parse\<close> of a value that is not a string parses its string conversion.
\<close>

definition parse_column :: "env \<Rightarrow> json option \<Rightarrow> js_error + json" where
  "parse_column E v =
     (case v of
        None \<Rightarrow> Inl (Error ''SyntaxError'' ''undefined is not valid JSON'')
      | Some (JStr s) \<Rightarrow> JSON_parse E s
      | Some x \<Rightarrow> JSON_parse E (JSON_stringify E x))"

definition import_settings :: "env \<Rightarrow> json \<Rightarrow> table \<Rightarrow> js_error + table" where
  "import_settings E data t =
     (case get_prop data ''settings'' of
        None \<Rightarrow> Inr t
      | Some incoming \<Rightarrow>
          if \<not> truthy incoming then Inr t
          else
            (case (case map_of t ''app_settings'' of
                     None \<Rightarrow> Inr (JObj [])
                   | Some row \<Rightarrow> parse_column E (get_prop row ''value'')) of
               Inl e \<Rightarrow> Inl e
             | Inr JNull \<Rightarrow> Inl null_deref
             | Inr currentSettings \<Rightarrow>
                 (let keep = (case get_prop currentSettings ''gitConfig'' of
                                None \<Rightarrow> False
                              | Some g \<Rightarrow> truthy g \<and> truthy_opt (get_prop g ''token''));
                      newSettings =
                        (if keep
                         then set_prop (spread incoming) ''gitConfig''
                                (the (get_prop currentSettings ''gitConfig''))
                         else spread incoming)
                  in case sql_run E ''settings''
                            [(''value'', JStr (JSON_stringify E (JObj newSettings)))] of
                       Inl e \<Rightarrow> Inl e
                     | Inr (k, row) \<Rightarrow> Inr (AList.update k row t))))"

text \<open>
  \<^verbatim>\<open>importData\<close>. The four parts run inside one \<^verbatim>\<open>db.transaction\<close>: when any statement
  throws, the transaction is rolled back and the exception goes to the caller, who
  keeps the database as it was; the result \<open>Inl\<close> carries no database.
\<close>

definition importData ::
  "env \<Rightarrow> string \<Rightarrow> json \<Rightarrow> database option \<Rightarrow> js_error + database option" where
  "importData E now data dbo =
     (case dbo of
        None \<Rightarrow> Inr None
      | Some d \<Rightarrow>
          if \<not> truthy data then Inr (Some d)
          else
            (case import_array E ''hosts'' (tagged_params E now) (get_prop data ''hosts'') (hosts d) of
               Inl e \<Rightarrow> Inl e
             | Inr h \<Rightarrow>
                 (case import_array E ''snippets'' (tagged_params E now)
                         (get_prop data ''snippets'') (snippets d) of
                    Inl e \<Rightarrow> Inl e
                  | Inr sn \<Rightarrow>
                      (case import_settings E data (settings d) of
                         Inl e \<Rightarrow> Inl e
                       | Inr st \<Rightarrow>
                           (case import_array E ''remote_connections'' (plain_params E now)
                                   (get_prop data ''remoteConnections'') (remote_connections d) of
                              Inl e \<Rightarrow> Inl e
                            | Inr rc \<Rightarrow>
                                Inr (Some \<lparr> hosts = h, snippets = sn, settings = st,
                                           remote_connections = rc \<rparr>))))))"

text \<open>
  \<^verbatim>\<open>exportData\<close>: every row of hosts and snippets with its \<^verbatim>\<open>tags\<close> column parsed
  (\<^verbatim>\<open>JSON.parse(h.tags || '[]')\<close>), the parsed settings, the remote connections as stored.
\<close>

definition with_parsed_tags :: "env \<Rightarrow> json \<Rightarrow> js_error + json" where
  "with_parsed_tags E row =
     (case parse_column E (if truthy_opt (get_prop row ''tags'') then get_prop row ''tags''
                           else Some (JStr ''[]'')) of
        Inl e \<Rightarrow> Inl e
      | Inr tags \<Rightarrow> Inr (JObj (set_prop (spread row) ''tags'' tags)))"

fun map_rows :: "(json \<Rightarrow> js_error + json) \<Rightarrow> json list \<Rightarrow> js_error + json list" where
  "map_rows f [] = Inr []"
| "map_rows f (x # xs) =
     (case f x of
        Inl e \<Rightarrow> Inl e
      | Inr y \<Rightarrow> (case map_rows f xs of Inl e \<Rightarrow> Inl e | Inr ys \<Rightarrow> Inr (y # ys)))"

definition exportData :: "env \<Rightarrow> database option \<Rightarrow> js_error + json" where
  "exportData E dbo =
     (case dbo of
        None \<Rightarrow> Inr (JObj [(''hosts'', JArr []), (''settings'', JNull), (''snippets'', JArr [])])
      | Some d \<Rightarrow>
          (case map_rows (with_parsed_tags E) (map snd (hosts d)) of
             Inl e \<Rightarrow> Inl e
           | Inr hs \<Rightarrow>
               (case map_rows (with_parsed_tags E) (map snd (snippets d)) of
                  Inl e \<Rightarrow> Inl e
                | Inr sn \<Rightarrow>
                    (case (case map_of (settings d) ''app_settings'' of
                             None \<Rightarrow> Inr JNull
                           | Some row \<Rightarrow> parse_column E (get_prop row ''value'')) of
                       Inl e \<Rightarrow> Inl e
                     | Inr st \<Rightarrow>
                         Inr (JObj [(''hosts'', JArr hs), (''snippets'', JArr sn),
                                    (''settings'', st),
                                    (''remoteConnections'',
                                     JArr (map snd (remote_connections d)))])))))"

section \<open>The sync engine (\<^verbatim>\<open>git-manager.ts\<close>)\<close>

text \<open>
  The directory \<^verbatim>\<open>SYNC_DIR\<close> is a working tree (file name to content) beside the
  \<^verbatim>\<open>.git\<close> directory, of which the model keeps the \<^verbatim>\<open>HEAD\<close> file, the remote
  \<^verbatim>\<open>origin\<close>, the index and the tree of the commit that \<^verbatim>\<open>refs/heads/main\<close> points to.
  Every call into isomorphic-git is recorded with its arguments in \<open>calls\<close>; \<open>console\<close>
  holds the lines written by \<^verbatim>\<open>log\<close>, and \<open>remote_received\<close> the trees that successful
  pushes delivered to the remote.
\<close>

record gitdir =
  git_HEAD :: string
  git_origin :: "string option"
  git_index :: "string \<rightharpoonup> string"
  git_main :: "(string \<rightharpoonup> string) option"

record clone =
  worktree :: "string \<rightharpoonup> string"
  dotgit :: "gitdir option"

datatype git_call =
    Init
  | AddRemote string
  | DeleteRemote
  | ListServerRefs string
  | Pull
  | Add
  | ResolveRef
  | Commit string
  | WriteRef
  | Push bool "(string \<rightharpoonup> string) option"
  | Clone string

record world = vault_state +
  db :: "database option"
  sync_dir :: "clone option"
  calls :: "git_call list"
  console :: "string list"
  remote_received :: "(string \<rightharpoonup> string) list"

abbreviation ENC_DB_FILE :: string where
  "ENC_DB_FILE \<equiv> ''zenmius_db.enc''"

abbreviation CREDENTIALS_CACHE :: string where
  "CREDENTIALS_CACHE \<equiv> ''.git-credentials-cache.json''"

abbreviation fullBranchRef :: string where
  "fullBranchRef \<equiv> ''refs/heads/main''"

definition log :: "string \<Rightarrow> world \<Rightarrow> world" where
  "log msg w = w\<lparr>console := console w @ [msg]\<rparr>"

text \<open>A library call: recorded, and thrown or not as the environment decides.\<close>

definition lib :: "env \<Rightarrow> string \<Rightarrow> git_call \<Rightarrow> world \<Rightarrow> js_error option \<times> world" where
  "lib E name c w =
     (git_throws E (ticks w) name, w\<lparr>ticks := Suc (ticks w), calls := calls w @ [c]\<rparr>)"

definition the_git :: "world \<Rightarrow> gitdir option" where
  "the_git w = (case sync_dir w of None \<Rightarrow> None | Some c \<Rightarrow> dotgit c)"

definition set_git :: "gitdir \<Rightarrow> world \<Rightarrow> world" where
  "set_git g w =
     (case sync_dir w of
        None \<Rightarrow> w
      | Some c \<Rightarrow> w\<lparr>sync_dir := Some (c\<lparr>dotgit := Some g\<rparr>)\<rparr>)"

definition no_repository :: js_error where
  "no_repository = Error ''NotFoundError'' ''Could not find HEAD.''"

text \<open>
  \<^verbatim>\<open>fs.writeFileSync\<close> of a file in \<^verbatim>\<open>SYNC_DIR\<close>; without the directory the open fails.
\<close>

definition put_sync_file :: "string \<Rightarrow> string \<Rightarrow> world \<Rightarrow> world" where
  "put_sync_file name s w =
     (case sync_dir w of
        None \<Rightarrow> w
      | Some c \<Rightarrow> w\<lparr>sync_dir := Some (c\<lparr>worktree := (worktree c)(name \<mapsto> s)\<rparr>)\<rparr>)"

definition write_sync_file :: "string \<Rightarrow> string \<Rightarrow> world \<Rightarrow> js_error option \<times> world" where
  "write_sync_file name s w =
     (case write_error w (''sync-repo/'' @ name) of
        Some (Refused e) \<Rightarrow> (Some e, w)
      | Some (Broken e n) \<Rightarrow>
          (case sync_dir w of
             None \<Rightarrow> (Some (Error ''ENOENT'' ''no such file or directory''), w)
           | Some c \<Rightarrow> (Some e, put_sync_file name (take n s) w))
      | None \<Rightarrow>
          (case sync_dir w of
             None \<Rightarrow> (Some (Error ''ENOENT'' ''no such file or directory''), w)
           | Some c \<Rightarrow> (None, put_sync_file name s w)))"

text \<open>\<^verbatim>\<open>s.includes(sub)\<close> and \<^verbatim>\<open>s.trim()\<close>\<close>

fun str_includes :: "string \<Rightarrow> string \<Rightarrow> bool" where
  "str_includes [] sub = (sub = [])"
| "str_includes (c # cs) sub = (take (length sub) (c # cs) = sub \<or> str_includes cs sub)"

definition trim :: "string \<Rightarrow> string" where
  "trim s = rev (dropWhile is_space (rev (dropWhile is_space s)))"

text \<open>
  The arguments of \<^verbatim>\<open>git:sync\<close>. An absent string is \<open>None\<close>; an absent \<^verbatim>\<open>mode\<close> is
  \<^verbatim>\<open>'merge'\<close>.
\<close>

record sync_args =
  arg_token :: "string option"
  arg_url :: "string option"
  arg_username :: "string option"
  arg_mode :: "string option"
  arg_commitMessage :: "string option"

text \<open>What \<^verbatim>\<open>runSync\<close> closes over: the resolved credentials and the mode.\<close>

record sync_ctx =
  token :: "string option"
  safeUrl :: string
  username :: "string option"
  mode :: string
  commitMessage :: "string option"

definition no_trim :: js_error where
  "no_trim = Error ''TypeError'' ''Cannot read properties of undefined (reading trim)''"

text \<open>
  A library call that takes \<^verbatim>\<open>onAuth: this.getOnAuth(token, username)\<close>: building the
  callback evaluates \<^verbatim>\<open>token.trim()\<close>, which throws before the call when there is no
  token.
\<close>

definition lib_auth ::
  "env \<Rightarrow> sync_ctx \<Rightarrow> string \<Rightarrow> git_call \<Rightarrow> world \<Rightarrow> js_error option \<times> world" where
  "lib_auth E cx name c w =
     (case token cx of
        None \<Rightarrow> (Some no_trim, w)
      | Some t \<Rightarrow> lib E name c w)"

subsection \<open>The steps of one attempt\<close>

text \<open>Step 1, \<^verbatim>\<open>REPO INIT\<close>.\<close>

definition has_dotgit :: "world \<Rightarrow> bool" where
  "has_dotgit w = (the_git w \<noteq> None)"

definition fresh_gitdir :: gitdir where
  "fresh_gitdir =
     \<lparr> git_HEAD = ''ref: refs/heads/main'', git_origin = None, git_index = Map.empty,
       git_main = None \<rparr>"

definition repo_init :: "env \<Rightarrow> world \<Rightarrow> js_error option \<times> world" where
  "repo_init E w =
     (if has_dotgit w then (None, w)
      else
        (let w1 = log ''Initializing fresh repository...'' w;
             w2 = w1\<lparr>sync_dir := Some \<lparr> worktree = Map.empty, dotgit = None \<rparr>\<rparr>
         in case lib E ''init'' Init w2 of
              (Some e, w3) \<Rightarrow> (Some e, w3)
            | (None, w3) \<Rightarrow>
                (let w4 = set_git fresh_gitdir w3;
                     head = ''ref: '' @ fullBranchRef @ [CHR 0x0A]
                 in case write_error w4 ''sync-repo/.git/HEAD'' of
                      Some (Refused e) \<Rightarrow> (Some e, w4)
                    | Some (Broken e n) \<Rightarrow>
                        (Some e, set_git (fresh_gitdir\<lparr>git_HEAD := take n head\<rparr>) w4)
                    | None \<Rightarrow> (None, set_git (fresh_gitdir\<lparr>git_HEAD := head\<rparr>) w4))))"

text \<open>Step 2, \<^verbatim>\<open>REMOTE CONFIG\<close>: a remote that exists is deleted and added again.\<close>

definition addRemote :: "env \<Rightarrow> string \<Rightarrow> world \<Rightarrow> js_error option \<times> world" where
  "addRemote E url w =
     (case lib E ''addRemote'' (AddRemote url) w of
        (Some e, w1) \<Rightarrow> (Some e, w1)
      | (None, w1) \<Rightarrow>
          (case the_git w1 of
             None \<Rightarrow> (Some no_repository, w1)
           | Some g \<Rightarrow>
               if git_origin g \<noteq> None
               then (Some (Error ''AlreadyExistsError'' ''Remote named origin already exists.''), w1)
               else (None, set_git (g\<lparr>git_origin := Some url\<rparr>) w1)))"

definition deleteRemote :: "env \<Rightarrow> world \<Rightarrow> js_error option \<times> world" where
  "deleteRemote E w =
     (case lib E ''deleteRemote'' DeleteRemote w of
        (Some e, w1) \<Rightarrow> (Some e, w1)
      | (None, w1) \<Rightarrow>
          (case the_git w1 of
             None \<Rightarrow> (Some no_repository, w1)
           | Some g \<Rightarrow> (None, set_git (g\<lparr>git_origin := None\<rparr>) w1)))"

definition remote_config :: "env \<Rightarrow> sync_ctx \<Rightarrow> world \<Rightarrow> world" where
  "remote_config E cx w =
     (case addRemote E (safeUrl cx) w of
        (None, w1) \<Rightarrow> w1
      | (Some e, w1) \<Rightarrow>
          (case deleteRemote E w1 of
             (Some re, w2) \<Rightarrow> w2
           | (None, w2) \<Rightarrow> snd (addRemote E (safeUrl cx) w2)))"

text \<open>Step 3, \<^verbatim>\<open>REMOTE CHECK\<close>: the result is \<^verbatim>\<open>remoteHasData\<close>.\<close>

definition remote_check :: "env \<Rightarrow> sync_ctx \<Rightarrow> world \<Rightarrow> bool \<times> world" where
  "remote_check E cx w =
     (case lib_auth E cx ''listServerRefs'' (ListServerRefs (safeUrl cx)) w of
        (Some e, w1) \<Rightarrow> (False, log (''Remote check failed: '' @ err_message e) w1)
      | (None, w1) \<Rightarrow>
          (let remoteHasData = (git_server_refs E (ticks w) \<noteq> [])
           in (remoteHasData,
               log (''Remote status: '' @ (if remoteHasData then ''Contains data'' else ''Empty''))
                 w1)))"

text \<open>
  Step 4, \<^verbatim>\<open>PULL\<close>. A pull that goes through leaves the merged tree in the branch and
  the index and checks its files out.
\<close>

definition pull_step :: "env \<Rightarrow> sync_ctx \<Rightarrow> bool \<Rightarrow> world \<Rightarrow> world" where
  "pull_step E cx remoteHasData w =
     (if remoteHasData \<and> mode cx \<noteq> ''push'' then
        (let w1 = log ''Pulling latest changes...'' w
         in case lib_auth E cx ''pull'' Pull w1 of
              (Some e, w2) \<Rightarrow> log (''Pull encountered an issue: '' @ err_message e) w2
            | (None, w2) \<Rightarrow>
                (case sync_dir w2 of
                   None \<Rightarrow> log (''Pull encountered an issue: '' @ err_message no_repository) w2
                 | Some c \<Rightarrow>
                     (case dotgit c of
                        None \<Rightarrow> log (''Pull encountered an issue: '' @ err_message no_repository) w2
                      | Some g \<Rightarrow>
                          (let tree = git_fetched E (ticks w1)
                           in w2\<lparr>sync_dir :=
                                   Some \<lparr> worktree = worktree c ++ tree,
                                          dotgit = Some (g\<lparr>git_index := tree,
                                                           git_main := Some tree\<rparr>) \<rparr>\<rparr>))))
      else w)"

text \<open>
  Step 5, \<^verbatim>\<open>DATA IMPORT\<close>. Everything thrown inside is caught and logged as
  \<^verbatim>\<open>Import failed\<close>; a payload that does not decrypt is passed over in silence.
\<close>

definition import_failed :: "js_error \<Rightarrow> world \<Rightarrow> world" where
  "import_failed e w = log (''Import failed: '' @ err_message e) w"

definition import_combined :: "env \<Rightarrow> json \<Rightarrow> json \<Rightarrow> world \<Rightarrow> world" where
  "import_combined E dbPart vaultPart w =
     (case importData E (toISOString E (ticks w)) dbPart (db w) of
        Inl e \<Rightarrow> import_failed e w
      | Inr dbo \<Rightarrow>
          (case saveDirect E vaultPart (w\<lparr>db := dbo\<rparr>) of
             (Failure err, w1) \<Rightarrow>
               log ''Data imported from sync file.'' (log (''Vault import warning: '' @ err) w1)
           | (Success u, w1) \<Rightarrow>
               log ''Data imported from sync file.'' (log ''Vault data merged from sync.'' w1)))"

definition import_legacy :: "env \<Rightarrow> json \<Rightarrow> world \<Rightarrow> world" where
  "import_legacy E data w =
     (case importData E (toISOString E (ticks w)) data (db w) of
        Inl e \<Rightarrow> import_failed e w
      | Inr dbo \<Rightarrow> log ''Data imported from sync file.'' (w\<lparr>db := dbo\<rparr>))"

definition import_step :: "env \<Rightarrow> sync_ctx \<Rightarrow> world \<Rightarrow> world" where
  "import_step E cx w =
     (case (case sync_dir w of None \<Rightarrow> None | Some c \<Rightarrow> worktree c ENC_DB_FILE) of
        None \<Rightarrow> w
      | Some raw \<Rightarrow>
          if mode cx = ''push'' then w
          else
            (case JSON_parse E raw of
               Inl e \<Rightarrow> import_failed e w
             | Inr encData \<Rightarrow>
                 (case decryptData E encData w of
                    Failure err \<Rightarrow> w
                  | Success JNull \<Rightarrow> import_failed null_deref w
                  | Success data \<Rightarrow>
                      if truthy_opt (get_prop data ''db'') \<and> truthy_opt (get_prop data ''vault'')
                      then import_combined E (the (get_prop data ''db''))
                             (the (get_prop data ''vault'')) w
                      else import_legacy E data w)))"

text \<open>
  Step 6, \<^verbatim>\<open>COMMIT & PUSH\<close>, in three parts: the payload file, the commit, the push.
  \<^verbatim>\<open>git.add\<close> with \<^verbatim>\<open>filepath: '.'\<close> stages every file of the working tree;
  \<^verbatim>\<open>git.commit\<close> makes the index the tree of the branch; \<^verbatim>\<open>git.push\<close> sends that tree.
  The object id in the line \<^verbatim>\<open>Commit created\<close> is left out.
\<close>

definition write_payload :: "env \<Rightarrow> world \<Rightarrow> js_error option \<times> world" where
  "write_payload E w =
     (case exportData E (db w) of
        Inl e \<Rightarrow> (Some e, w)
      | Inr dbData \<Rightarrow>
          (let vaultData = (case loadDirect E w of Success d \<Rightarrow> d | Failure err \<Rightarrow> JObj []);
               combinedPayload = JObj [(''db'', dbData), (''vault'', vaultData)]
           in case encryptData E combinedPayload w of
                (Failure err, w1) \<Rightarrow> (Some (Error [] err), w1)
              | (Success payload, w1) \<Rightarrow>
                  write_sync_file ENC_DB_FILE (JSON_stringify E payload) w1))"

definition git_add :: "env \<Rightarrow> world \<Rightarrow> js_error option \<times> world" where
  "git_add E w =
     (case lib E ''add'' Add w of
        (Some e, w1) \<Rightarrow> (Some e, w1)
      | (None, w1) \<Rightarrow>
          (case sync_dir w1 of
             None \<Rightarrow> (Some no_repository, w1)
           | Some c \<Rightarrow>
               (case dotgit c of
                  None \<Rightarrow> (Some no_repository, w1)
                | Some g \<Rightarrow> (None, set_git (g\<lparr>git_index := worktree c\<rparr>) w1))))"

text \<open>\<^verbatim>\<open>git.resolveRef\<close> of \<^verbatim>\<open>HEAD\<close>: \<open>True\<close> when it returns an object id.\<close>

definition resolveRef :: "env \<Rightarrow> world \<Rightarrow> bool \<times> world" where
  "resolveRef E w =
     (case lib E ''resolveRef'' ResolveRef w of
        (Some e, w1) \<Rightarrow> (False, w1)
      | (None, w1) \<Rightarrow>
          (case the_git w1 of
             None \<Rightarrow> (False, w1)
           | Some g \<Rightarrow> (git_main g \<noteq> None, w1)))"

definition git_commit :: "env \<Rightarrow> string \<Rightarrow> world \<Rightarrow> js_error option \<times> world" where
  "git_commit E message w =
     (case lib E ''commit'' (Commit message) w of
        (Some e, w1) \<Rightarrow> (Some e, w1)
      | (None, w1) \<Rightarrow>
          (case the_git w1 of
             None \<Rightarrow> (Some no_repository, w1)
           | Some g \<Rightarrow> (None, set_git (g\<lparr>git_main := Some (git_index g)\<rparr>) w1)))"

definition commit_message :: "env \<Rightarrow> sync_ctx \<Rightarrow> world \<Rightarrow> string" where
  "commit_message E cx w =
     (case commitMessage cx of
        None \<Rightarrow> ''Sync Update: '' @ toISOString E (ticks w)
      | Some m \<Rightarrow> if m = [] then ''Sync Update: '' @ toISOString E (ticks w) else m)"

definition commit_step :: "env \<Rightarrow> sync_ctx \<Rightarrow> world \<Rightarrow> js_error option \<times> world" where
  "commit_step E cx w =
     (case git_add E (log ''Git Add...'' w) of
        (Some e, w1) \<Rightarrow> (Some e, w1)
      | (None, w1) \<Rightarrow>
          (let (headOid, w2) = resolveRef E (log ''Git Commit...'' w1)
           in case git_commit E (commit_message E cx w2) w2 of
                (None, w3) \<Rightarrow> (None, log ''Commit created: '' w3)
              | (Some e, w3) \<Rightarrow>
                  if err_code e = ''NothingToCommitError'' then
                    (let w4 = log ''Nothing to commit.'' w3
                     in if \<not> headOid
                        then git_commit E ''Initialize Sync Branch''
                               (log ''Repository is empty - forcing initial commit'' w4)
                        else (None, w4))
                  else (Some e, w3)))"

definition writeRef :: "env \<Rightarrow> world \<Rightarrow> js_error option \<times> world" where
  "writeRef E w =
     (case lib E ''writeRef'' WriteRef w of
        (Some e, w1) \<Rightarrow> (Some e, w1)
      | (None, w1) \<Rightarrow>
          (case the_git w1 of
             None \<Rightarrow> (Some no_repository, w1)
           | Some g \<Rightarrow> (None, set_git (g\<lparr>git_HEAD := ''ref: '' @ fullBranchRef\<rparr>) w1)))"

definition git_push :: "env \<Rightarrow> sync_ctx \<Rightarrow> bool \<Rightarrow> world \<Rightarrow> js_error option \<times> world" where
  "git_push E cx force w =
     (let tree = (case the_git w of None \<Rightarrow> None | Some g \<Rightarrow> git_main g)
      in case lib_auth E cx ''push'' (Push force tree) w of
           (Some e, w1) \<Rightarrow> (Some e, w1)
         | (None, w1) \<Rightarrow>
             (case tree of
                None \<Rightarrow> (Some (Error ''NotFoundError'' ''Could not find refs/heads/main.''), w1)
              | Some t \<Rightarrow> (None, w1\<lparr>remote_received := remote_received w1 @ [t]\<rparr>)))"

definition push_step :: "env \<Rightarrow> sync_ctx \<Rightarrow> bool \<Rightarrow> world \<Rightarrow> js_error option \<times> world" where
  "push_step E cx remoteHasData w =
     (case writeRef E w of
        (Some e, w1) \<Rightarrow> (Some e, w1)
      | (None, w1) \<Rightarrow>
          (case git_push E cx (mode cx = ''push'' \<or> \<not> remoteHasData) (log ''Git Push...'' w1) of
             (Some e, w2) \<Rightarrow> (Some e, w2)
           | (None, w2) \<Rightarrow> (None, log ''Push successful.'' w2)))"

definition commit_push :: "env \<Rightarrow> sync_ctx \<Rightarrow> bool \<Rightarrow> world \<Rightarrow> js_error option \<times> world" where
  "commit_push E cx remoteHasData w =
     (if mode cx = ''push'' \<or> mode cx = ''merge'' then
        (case write_payload E (log (''Preparing '' @ mode cx @ '' operation...'') w) of
           (Some e, w1) \<Rightarrow> (Some e, w1)
         | (None, w1) \<Rightarrow>
             (case commit_step E cx w1 of
                (Some e, w2) \<Rightarrow> (Some e, w2)
              | (None, w2) \<Rightarrow> push_step E cx remoteHasData w2))
      else (None, w))"

subsection \<open>One attempt, the retry, the handlers\<close>

text \<open>The body of the \<^verbatim>\<open>try\<close> block of \<^verbatim>\<open>runSync\<close>: \<open>Some e\<close> when it throws \<open>e\<close>.\<close>

definition attempt :: "env \<Rightarrow> sync_ctx \<Rightarrow> world \<Rightarrow> js_error option \<times> world" where
  "attempt E cx w =
     (case repo_init E w of
        (Some e, w1) \<Rightarrow> (Some e, w1)
      | (None, w1) \<Rightarrow>
          (let w2 = remote_config E cx w1;
               (remoteHasData, w3) = remote_check E cx w2;
               w4 = pull_step E cx remoteHasData w3;
               w5 = import_step E cx w4
           in commit_push E cx remoteHasData w5))"

abbreviation self_healing :: string where
  "self_healing \<equiv> ''Self-Healing: Wiping sync cache and retrying once...''"

definition corruption_signature :: "js_error \<Rightarrow> bool" where
  "corruption_signature e =
     (err_code e = ''NotFoundError'' \<or> str_includes (err_message e) ''HEAD''
      \<or> str_includes (err_message e) ''resolve'')"

function runSync :: "bool \<Rightarrow> env \<Rightarrow> sync_ctx \<Rightarrow> world \<Rightarrow> unit reply \<times> world" where
  "runSync retry E cx w =
     (case attempt E cx w of
        (None, w1) \<Rightarrow> (Success (), w1)
      | (Some e, w1) \<Rightarrow>
          (let w2 = log (''CRITICAL: '' @ err_message e) w1
           in if retry \<and> corruption_signature e
              then runSync False E cx ((log self_healing w2)\<lparr>sync_dir := None\<rparr>)
              else (Failure (err_message e), w2)))"
  by pat_completeness auto
termination
  by (relation "measure (\<lambda>(retry, E, cx, w). if retry then 1 else 0)") auto

text \<open>
  The handler of \<^verbatim>\<open>git:sync\<close>. Missing credentials are read from the cache file; a
  field of the cache that is not a string counts as absent. Without a URL
  \<^verbatim>\<open>url.trim()\<close> throws out of the handler (\<open>Inl\<close>).
\<close>

definition falsy_str :: "string option \<Rightarrow> bool" where
  "falsy_str x = (case x of None \<Rightarrow> True | Some s \<Rightarrow> s = [])"

definition or_cache :: "string option \<Rightarrow> json \<Rightarrow> string \<Rightarrow> string option" where
  "or_cache x cache k =
     (if \<not> falsy_str x then x
      else case get_prop cache k of Some (JStr s) \<Rightarrow> Some s | _ \<Rightarrow> None)"

definition resolve_credentials ::
  "env \<Rightarrow> sync_args \<Rightarrow> world \<Rightarrow> (string option \<times> string option \<times> string option) option" where
  "resolve_credentials E a w =
     (if \<not> falsy_str (arg_url a) \<and> \<not> falsy_str (arg_token a)
      then Some (arg_token a, arg_url a, arg_username a)
      else
        (case (case sync_dir w of None \<Rightarrow> None | Some c \<Rightarrow> worktree c CREDENTIALS_CACHE) of
           None \<Rightarrow> None
         | Some raw \<Rightarrow>
             (case JSON_parse E raw of
                Inl e \<Rightarrow> None
              | Inr JNull \<Rightarrow> None
              | Inr cache \<Rightarrow>
                  Some (or_cache (arg_token a) cache ''token'',
                        or_cache (arg_url a) cache ''url'',
                        or_cache (arg_username a) cache ''username''))))"

definition git_sync :: "env \<Rightarrow> sync_args \<Rightarrow> world \<Rightarrow> (js_error + unit reply) \<times> world" where
  "git_sync E a w =
     (case resolve_credentials E a w of
        None \<Rightarrow> (Inr (Failure ''Missing Credentials''), w)
      | Some (tok, url, user) \<Rightarrow>
          (case url of
             None \<Rightarrow> (Inl no_trim, w)
           | Some u \<Rightarrow>
               if status w then (Inr (Failure ''Vault is LOCKED''), w)
               else
                 (let cx = \<lparr> token = tok, safeUrl = trim u, username = user,
                             mode = (case arg_mode a of None \<Rightarrow> ''merge'' | Some m \<Rightarrow> m),
                             commitMessage = arg_commitMessage a \<rparr>;
                      (r, w1) = runSync True E cx w
                  in (Inr r, w1))))"

text \<open>
  The handler of \<^verbatim>\<open>git:clone\<close>: the directory is emptied, the remote is cloned into it,
  and the credentials are written beside the checked-out files.
\<close>

definition credentials_cache :: "env \<Rightarrow> string \<Rightarrow> string \<Rightarrow> string option \<Rightarrow> string" where
  "credentials_cache E url tok user =
     JSON_stringify E
       (JObj ([(''url'', JStr url), (''token'', JStr tok)]
              @ (case user of None \<Rightarrow> [] | Some u \<Rightarrow> [(''username'', JStr u)])))"

definition git_clone ::
  "env \<Rightarrow> string \<Rightarrow> string \<Rightarrow> string option \<Rightarrow> world \<Rightarrow> unit reply \<times> world" where
  "git_clone E url tok user w =
     (let w1 = w\<lparr>sync_dir := Some \<lparr> worktree = Map.empty, dotgit = None \<rparr>\<rparr>
      in case lib E ''clone'' (Clone (trim url)) w1 of
           (Some e, w2) \<Rightarrow> (Failure (err_message e), w2)
         | (None, w2) \<Rightarrow>
             (let tree = git_fetched E (ticks w1);
                  w3 = w2\<lparr>sync_dir :=
                            Some \<lparr> worktree = tree,
                                   dotgit = Some \<lparr> git_HEAD = ''ref: '' @ fullBranchRef,
                                                   git_origin = Some (trim url),
                                                   git_index = tree,
                                                   git_main = Some tree \<rparr> \<rparr>\<rparr>
              in case write_sync_file CREDENTIALS_CACHE
                        (credentials_cache E (trim url) tok user) w3 of
                   (Some e, w4) \<Rightarrow> (Failure (err_message e), w4)
                 | (None, w4) \<Rightarrow> (Success (), w4)))"

section \<open>An executable instance of the libraries\<close>

text \<open>
  The theorems below hold for every \<open>env\<close>. To evaluate the handlers on concrete inputs
  a small instance is defined here: a printer and a parser for the fragment of JSON
  without white space and escapes (a native value is printed as \<^verbatim>\<open>null\<close>, as a function
  inside an array is), and a stand-in for the secret box that prefixes the message with
  an encoding of the key (it authenticates, it hides nothing).
\<close>

definition str_bytes :: "string \<Rightarrow> bytes" where
  "str_bytes s = map (\<lambda>c. word_of_nat (of_char c)) s"

definition bytes_str :: "bytes \<Rightarrow> string" where
  "bytes_str bs = map (\<lambda>b. char_of (unat b)) bs"

fun key_tag :: "bytes \<Rightarrow> bytes" where
  "key_tag [] = [0]"
| "key_tag (b # bs) = 1 # b # key_tag bs"

fun strip_tag :: "bytes \<Rightarrow> bytes \<Rightarrow> bytes option" where
  "strip_tag [] (c # cs) = (if c = 0 then Some cs else None)"
| "strip_tag (b # bs) (c # d # cs) = (if c = 1 \<and> d = b then strip_tag bs cs else None)"
| "strip_tag k cs = None"

definition demo_easy :: "string \<Rightarrow> bytes \<Rightarrow> bytes \<Rightarrow> js_error + bytes" where
  "demo_easy m nonce key = Inr (key_tag key @ str_bytes m)"

definition demo_open_easy :: "bytes \<Rightarrow> bytes \<Rightarrow> bytes \<Rightarrow> js_error + string" where
  "demo_open_easy c nonce key =
     (case strip_tag key c of
        None \<Rightarrow> Inl (Error [] ''wrong secret key for the given ciphertext'')
      | Some body \<Rightarrow> Inr (bytes_str body))"

definition demo_pwhash :: "string \<Rightarrow> bytes \<Rightarrow> js_error + bytes" where
  "demo_pwhash password salt = Inr (salt @ str_bytes password)"

definition show_int :: "int \<Rightarrow> string" where
  "show_int i = (if i < 0 then CHR ''-'' # show_nat (nat (- i)) else show_nat (nat i))"

fun join :: "string list \<Rightarrow> string" where
  "join [] = []"
| "join [x] = x"
| "join (x # y # ys) = x @ CHR '','' # join (y # ys)"

definition quote :: "string \<Rightarrow> string" where
  "quote s = CHR 0x22 # s @ [CHR 0x22]"

fun demo_stringify :: "json \<Rightarrow> string" where
  "demo_stringify JNull = ''null''"
| "demo_stringify (JBool b) = (if b then ''true'' else ''false'')"
| "demo_stringify (JNum n) = show_int n"
| "demo_stringify (JStr s) = quote s"
| "demo_stringify (JArr xs) = CHR ''['' # join (map demo_stringify xs) @ '']''"
| "demo_stringify (JObj ps) =
     CHR ''{'' # join (map (\<lambda>p. quote (fst p) @ CHR '':'' # demo_stringify (snd p)) ps) @ ''}''"
| "demo_stringify (JNative n) = ''null''"

fun until_quote :: "string \<Rightarrow> (string \<times> string) option" where
  "until_quote [] = None"
| "until_quote (c # cs) =
     (if c = CHR 0x22 then Some ([], cs)
      else case until_quote cs of None \<Rightarrow> None | Some (s, rest) \<Rightarrow> Some (c # s, rest))"

fun read_nat :: "nat \<Rightarrow> string \<Rightarrow> nat \<times> string" where
  "read_nat acc [] = (acc, [])"
| "read_nat acc (c # cs) =
     (case digit_val c of None \<Rightarrow> (acc, c # cs) | Some d \<Rightarrow> read_nat (10 * acc + d) cs)"

text \<open>A recursive-descent parser; the fuel bounds the nesting and the number of items.\<close>

fun parse_value :: "nat \<Rightarrow> string \<Rightarrow> (json \<times> string) option"
  and parse_elems :: "nat \<Rightarrow> string \<Rightarrow> (json list \<times> string) option"
  and parse_members :: "nat \<Rightarrow> string \<Rightarrow> ((string \<times> json) list \<times> string) option" where
  "parse_value 0 s = None"
| "parse_value (Suc fuel) [] = None"
| "parse_value (Suc fuel) (c # cs) =
     (if c = CHR 0x22 then
        (case until_quote cs of None \<Rightarrow> None | Some (s, rest) \<Rightarrow> Some (JStr s, rest))
      else if c = CHR ''['' then
        (case cs of
           [] \<Rightarrow> None
         | d # ds \<Rightarrow> if d = CHR '']'' then Some (JArr [], ds)
                     else (case parse_elems fuel cs of
                             None \<Rightarrow> None | Some (xs, rest) \<Rightarrow> Some (JArr xs, rest)))
      else if c = CHR ''{'' then
        (case cs of
           [] \<Rightarrow> None
         | d # ds \<Rightarrow> if d = CHR ''}'' then Some (JObj [], ds)
                     else (case parse_members fuel cs of
                             None \<Rightarrow> None | Some (ps, rest) \<Rightarrow> Some (JObj ps, rest)))
      else if take 4 (c # cs) = ''null'' then Some (JNull, drop 3 cs)
      else if take 4 (c # cs) = ''true'' then Some (JBool True, drop 3 cs)
      else if take 5 (c # cs) = ''false'' then Some (JBool False, drop 4 cs)
      else if c = CHR ''-'' then
        (case cs of
           [] \<Rightarrow> None
         | d # ds \<Rightarrow> if digit_val d = None then None
                     else (case read_nat 0 cs of (n, rest) \<Rightarrow> Some (JNum (- int n), rest)))
      else if digit_val c = None then None
      else (case read_nat 0 (c # cs) of (n, rest) \<Rightarrow> Some (JNum (int n), rest)))"
| "parse_elems 0 s = None"
| "parse_elems (Suc fuel) s =
     (case parse_value fuel s of
        None \<Rightarrow> None
      | Some (x, rest) \<Rightarrow>
          (case rest of
             [] \<Rightarrow> None
           | d # ds \<Rightarrow>
               if d = CHR '']'' then Some ([x], ds)
               else if d = CHR '','' then
                 (case parse_elems fuel ds of
                    None \<Rightarrow> None | Some (xs, rest') \<Rightarrow> Some (x # xs, rest'))
               else None))"
| "parse_members 0 s = None"
| "parse_members (Suc fuel) s =
     (case s of
        [] \<Rightarrow> None
      | q # cs \<Rightarrow>
          if q \<noteq> CHR 0x22 then None
          else (case until_quote cs of
                  None \<Rightarrow> None
                | Some (k, rest) \<Rightarrow>
                    (case rest of
                       [] \<Rightarrow> None
                     | colon # vs \<Rightarrow>
                         if colon \<noteq> CHR '':'' then None
                         else (case parse_value fuel vs of
                                 None \<Rightarrow> None
                               | Some (v, rest') \<Rightarrow>
                                   (case rest' of
                                      [] \<Rightarrow> None
                                    | d # ds \<Rightarrow>
                                        if d = CHR ''}'' then Some ([(k, v)], ds)
                                        else if d = CHR '','' then
                                          (case parse_members fuel ds of
                                             None \<Rightarrow> None
                                           | Some (ps, rest'') \<Rightarrow> Some ((k, v) # ps, rest''))
                                        else None)))))"

definition demo_parse :: "string \<Rightarrow> js_error + json" where
  "demo_parse s =
     (case parse_value (length s) s of
        Some (v, []) \<Rightarrow> Inr v
      | _ \<Rightarrow> Inl (Error ''SyntaxError'' ''Unexpected token''))"

text \<open>
  The stand-in for a statement: every named column must be bound to a number, a string
  or \<^verbatim>\<open>null\<close>, the key must be a string, and the row stored is the list of the columns.
\<close>

definition bindable :: "json option \<Rightarrow> bool" where
  "bindable v = (case v of Some JNull \<Rightarrow> True | Some (JNum n) \<Rightarrow> True | Some (JStr s) \<Rightarrow> True
                 | _ \<Rightarrow> False)"

definition columns :: "string \<Rightarrow> string list" where
  "columns tbl =
     (if tbl = ''hosts'' then
        [''id'', ''name'', ''host'', ''port'', ''username'', ''folder'', ''tags'', ''created_at'']
      else if tbl = ''snippets'' then [''id'', ''name'', ''command'', ''tags'', ''created_at'']
      else if tbl = ''settings'' then [''value'']
      else [''id'', ''name'', ''protocol'', ''host'', ''port'', ''username'', ''password'',
            ''resolution'', ''created_at''])"

definition demo_sql_run :: "string \<Rightarrow> (string \<times> json) list \<Rightarrow> js_error + string \<times> json" where
  "demo_sql_run tbl params =
     (if \<not> list_all (\<lambda>c. bindable (map_of params c)) (columns tbl)
      then Inl (Error ''RangeError'' ''Missing named parameter'')
      else if tbl = ''settings''
      then Inr (''app_settings'',
                JObj ((''key'', JStr ''app_settings'') # map (\<lambda>c. (c, the (map_of params c))) (columns tbl)))
      else (case map_of params ''id'' of
              Some (JStr k) \<Rightarrow> Inr (k, JObj (map (\<lambda>c. (c, the (map_of params c))) (columns tbl)))
            | _ \<Rightarrow> Inl (Error ''SqliteError'' ''datatype mismatch'')))"

definition demo_env :: env where
  "demo_env =
     \<lparr> JSON_stringify = demo_stringify,
       JSON_parse = demo_parse,
       randombytes_buf = (\<lambda>t n. replicate n (word_of_nat t)),
       crypto_pwhash = demo_pwhash,
       crypto_secretbox_easy = demo_easy,
       crypto_secretbox_open_easy = demo_open_easy,
       toISOString = (\<lambda>t. ''2024-01-01T00:00:00.000Z''),
       sql_run = demo_sql_run,
       git_throws = (\<lambda>t name. None),
       git_server_refs = (\<lambda>t. [''refs/heads/main'']),
       git_fetched = (\<lambda>t. Map.empty) \<rparr>"

section \<open>Notions used in the statements\<close>

text \<open>
  What is assumed of the secret box and of the key derivation where a statement depends
  on it: opening a box with the key that sealed it gives the message back; opening it
  with another key throws; two passwords never derive the same key from one salt.
\<close>

definition secretbox_sound :: "env \<Rightarrow> bool" where
  "secretbox_sound E =
     (\<forall>m nonce key c. crypto_secretbox_easy E m nonce key = Inr c \<longrightarrow>
        crypto_secretbox_open_easy E c nonce key = Inr m)"

definition secretbox_authentic :: "env \<Rightarrow> bool" where
  "secretbox_authentic E =
     (\<forall>m nonce key key' c. key \<noteq> key' \<longrightarrow> crypto_secretbox_easy E m nonce key = Inr c \<longrightarrow>
        (\<exists>e. crypto_secretbox_open_easy E c nonce key' = Inl e))"

definition pwhash_collision_free :: "env \<Rightarrow> bool" where
  "pwhash_collision_free E =
     (\<forall>p p' salt key key'. p \<noteq> p' \<longrightarrow> crypto_pwhash E p salt = Inr key \<longrightarrow>
        crypto_pwhash E p' salt = Inr key' \<longrightarrow> key \<noteq> key')"

text \<open>
  The lines of the console that count attempts: the \<^verbatim>\<open>CRITICAL\<close> line of a failed attempt
  and the announcement of the self-heal. \<open>healed\<close> extracts them in order.
\<close>

definition marked :: "string \<Rightarrow> bool" where
  "marked m = (m = self_healing \<or> take 10 m = ''CRITICAL: '')"

definition healed :: "world \<Rightarrow> string list" where
  "healed w = filter marked (console w)"

definition final_shape :: "unit reply \<Rightarrow> string list \<Rightarrow> bool" where
  "final_shape r ms =
     (case r of Success u \<Rightarrow> ms = [] | Failure m \<Rightarrow> ms = [''CRITICAL: '' @ m])"

text \<open>
  The calls that move data between the clone and the remote, and what one push adds to
  them: nothing or the call alone when it throws, the call and the delivered tree when
  it goes through.
\<close>

fun is_transfer :: "git_call \<Rightarrow> bool" where
  "is_transfer Pull = True"
| "is_transfer (Push f t) = True"
| "is_transfer c = False"

definition transfers :: "world \<Rightarrow> git_call list" where
  "transfers w = filter is_transfer (calls w)"

definition pushed :: "bool \<Rightarrow> world \<Rightarrow> js_error option \<Rightarrow> world \<Rightarrow> bool" where
  "pushed force w r w' \<longleftrightarrow>
     (r \<noteq> None \<and> remote_received w' = remote_received w
        \<and> (transfers w' = transfers w \<or> (\<exists>t. transfers w' = transfers w @ [Push force t])))
     \<or> (r = None \<and> (\<exists>t. transfers w' = transfers w @ [Push force (Some t)]
                        \<and> remote_received w' = remote_received w @ [t]))"

text \<open>
  The state in which step 5 of an attempt starts, when step 1 has not thrown; the state
  in which the retry starts, from the error and the state that the first attempt left;
  and the environments in which no library call of step 6 throws.
\<close>

definition import_point :: "env \<Rightarrow> sync_ctx \<Rightarrow> world \<Rightarrow> world" where
  "import_point E cx w =
     (let w2 = remote_config E cx (snd (repo_init E w));
          (remoteHasData, w3) = remote_check E cx w2
      in pull_step E cx remoteHasData w3)"

definition wiped :: "js_error \<Rightarrow> world \<Rightarrow> world" where
  "wiped e w = (log self_healing (log (''CRITICAL: '' @ err_message e) w))\<lparr>sync_dir := None\<rparr>"

definition push_calls_succeed :: "env \<Rightarrow> bool" where
  "push_calls_succeed E =
     (\<forall>t. git_throws E t ''add'' = None \<and> git_throws E t ''commit'' = None
          \<and> git_throws E t ''writeRef'' = None \<and> git_throws E t ''push'' = None)"

text \<open>Relations between the state before and after a step, used to frame the steps.\<close>

definition quiet :: "world \<Rightarrow> world \<Rightarrow> bool" where
  "quiet w w' \<longleftrightarrow> transfers w' = transfers w \<and> remote_received w' = remote_received w"

definition keeps :: "world \<Rightarrow> world \<Rightarrow> bool" where
  "keeps w w' \<longleftrightarrow>
     db w' = db w \<and> masterKey w' = masterKey w \<and> files w' = files w
     \<and> write_error w' = write_error w \<and> healed w' = healed w"

definition keeps_lock :: "world \<Rightarrow> world \<Rightarrow> bool" where
  "keeps_lock w w' \<longleftrightarrow>
     masterKey w' = masterKey w \<and> write_error w' = write_error w \<and> healed w' = healed w
     \<and> sync_dir w' = sync_dir w \<and> calls w' = calls w \<and> remote_received w' = remote_received w"

definition tree_file :: "world \<Rightarrow> string \<Rightarrow> string option" where
  "tree_file w f = (case sync_dir w of None \<Rightarrow> None | Some c \<Rightarrow> worktree c f)"

definition main_tree :: "world \<Rightarrow> (string \<rightharpoonup> string) option" where
  "main_tree w = (case the_git w of None \<Rightarrow> None | Some g \<Rightarrow> git_main g)"

definition same_tree :: "world \<Rightarrow> world \<Rightarrow> bool" where
  "same_tree w w' \<longleftrightarrow> tree_file w' = tree_file w \<and> (has_dotgit w \<longrightarrow> has_dotgit w')"

text \<open>
  The payload that the import step decrypts, the part of it that goes to \<open>importData\<close>,
  the rows that its elements bind in a table, and whether the import commits.
\<close>

definition decrypted_payload :: "env \<Rightarrow> sync_ctx \<Rightarrow> world \<Rightarrow> json option" where
  "decrypted_payload E cx w =
     (case (case sync_dir w of None \<Rightarrow> None | Some c \<Rightarrow> worktree c ENC_DB_FILE) of
        None \<Rightarrow> None
      | Some raw \<Rightarrow>
          if mode cx = ''push'' then None
          else (case JSON_parse E raw of
                  Inl e \<Rightarrow> None
                | Inr encData \<Rightarrow>
                    (case decryptData E encData w of
                       Failure err \<Rightarrow> None
                     | Success data \<Rightarrow> Some data)))"

definition combined :: "json \<Rightarrow> bool" where
  "combined data = (truthy_opt (get_prop data ''db'') \<and> truthy_opt (get_prop data ''vault''))"

definition incoming :: "env \<Rightarrow> sync_ctx \<Rightarrow> world \<Rightarrow> json option" where
  "incoming E cx w =
     (case decrypted_payload E cx w of
        None \<Rightarrow> None
      | Some JNull \<Rightarrow> None
      | Some data \<Rightarrow> if combined data then get_prop data ''db'' else Some data)"

definition bound ::
  "env \<Rightarrow> string \<Rightarrow> (json \<Rightarrow> js_error + (string \<times> json) list) \<Rightarrow> json \<Rightarrow> (string \<times> json) option" where
  "bound E tbl mk x =
     (case mk x of
        Inl e \<Rightarrow> None
      | Inr params \<Rightarrow> (case sql_run E tbl params of Inl e \<Rightarrow> None | Inr kr \<Rightarrow> Some kr))"

definition items :: "json option \<Rightarrow> json list" where
  "items v = (case v of Some (JArr xs) \<Rightarrow> xs | _ \<Rightarrow> [])"

definition keys_of ::
  "env \<Rightarrow> string \<Rightarrow> (json \<Rightarrow> js_error + (string \<times> json) list) \<Rightarrow> json list \<Rightarrow> string list" where
  "keys_of E tbl mk xs = map fst (List.map_filter (bound E tbl mk) xs)"

definition payload_rows :: "env \<Rightarrow> sync_ctx \<Rightarrow> world \<Rightarrow> string \<Rightarrow> (string \<times> json) list" where
  "payload_rows E cx w tbl =
     (case incoming E cx w of
        None \<Rightarrow> []
      | Some data \<Rightarrow>
          if truthy data
          then List.map_filter (bound E tbl (tagged_params E (toISOString E (ticks w))))
                 (items (get_prop data tbl))
          else [])"

definition imported :: "env \<Rightarrow> sync_ctx \<Rightarrow> world \<Rightarrow> bool" where
  "imported E cx w =
     (case incoming E cx w of
        None \<Rightarrow> False
      | Some data \<Rightarrow>
          (case importData E (toISOString E (ticks w)) data (db w) of
             Inl e \<Rightarrow> False
           | Inr dbo \<Rightarrow> True))"

text \<open>No key of a table is lost.\<close>

definition same_keys :: "table \<Rightarrow> table \<Rightarrow> bool" where
  "same_keys t t' = (\<forall>k. map_of t k \<noteq> None \<longrightarrow> map_of t' k \<noteq> None)"

definition grows :: "database option \<Rightarrow> database option \<Rightarrow> bool" where
  "grows a b =
     (case a of
        None \<Rightarrow> b = None
      | Some d \<Rightarrow>
          (case b of
             None \<Rightarrow> False
           | Some d' \<Rightarrow> same_keys (hosts d) (hosts d') \<and> same_keys (snippets d) (snippets d')))"

section \<open>Concrete states\<close>

text \<open>
  A vault holding one credential under the password \<open>old\<close>, files that cannot be opened
  for writing, a record store with one local host, a sync directory whose payload file
  carries one remote host, and environments whose repository calls throw.
\<close>

definition vault0 :: vault_state where
  "vault0 = \<lparr> masterKey = None, files = Map.empty, write_error = Map.empty, ticks = 0 \<rparr>"

definition doc0 :: json where
  "doc0 = JObj [(''hosts'', JObj [(''hostA'', JObj [(''username'', JStr ''root''),
                                                     (''password'', JStr ''x'')])])]"

definition salt0 :: bytes where
  "salt0 = [1, 2, 3, 4, 5, 6, 7, 8, 9, 10, 11, 12, 13, 14, 15, 16]"

definition key_of :: "string \<Rightarrow> bytes" where
  "key_of password = salt0 @ str_bytes password"

definition nonce0 :: bytes where
  "nonce0 = replicate 24 7"

definition sealed :: "bytes \<Rightarrow> bytes \<Rightarrow> json \<Rightarrow> json" where
  "sealed nonce key doc = envelope nonce (key_tag key @ str_bytes (demo_stringify doc))"

definition vault1 :: vault_state where
  "vault1 =
     \<lparr> masterKey = None,
       files = [VAULT_PATH \<mapsto> demo_stringify (sealed nonce0 (key_of ''old'') doc0),
                METADATA_PATH \<mapsto> salt_file demo_env salt0],
       write_error = Map.empty, ticks = 0 \<rparr>"

definition eacces :: js_error where
  "eacces = Error ''EACCES'' ''EACCES: permission denied''"

definition vault2 :: vault_state where
  "vault2 =
     vault1\<lparr>masterKey := Some (key_of ''old''), write_error := [METADATA_PATH \<mapsto> Refused eacces]\<rparr>"

definition new_salt :: bytes where
  "new_salt = replicate 16 0"

definition new_key :: bytes where
  "new_key = new_salt @ str_bytes ''new''"

definition vault5 :: vault_state where
  "vault5 =
     vault0\<lparr>masterKey := Some (key_of ''new''),
            files := [VAULT_PATH \<mapsto> demo_stringify (sealed (replicate 24 0) (key_of ''old'') doc0)]\<rparr>"

definition vault3 :: vault_state where
  "vault3 = vault1\<lparr>masterKey := Some (key_of ''old'')\<rparr>"

definition vault4 :: vault_state where
  "vault4 = vault3\<lparr>write_error := [VAULT_PATH \<mapsto> Refused eacces]\<rparr>"

definition empty_db :: database where
  "empty_db = \<lparr> hosts = [], snippets = [], settings = [], remote_connections = [] \<rparr>"

definition world0 :: world where
  "world0 =
     \<lparr> masterKey = Some (key_of ''old''), files = Map.empty, write_error = Map.empty, ticks = 0,
       db = Some empty_db, sync_dir = None, calls = [], console = [], remote_received = [] \<rparr>"

definition cx0 :: sync_ctx where
  "cx0 = \<lparr> token = Some ''ghp_secret'', safeUrl = ''https://example.com/me/vault.git'',
           username = None, mode = ''merge'', commitMessage = None \<rparr>"

definition corrupt_env :: env where
  "corrupt_env = demo_env\<lparr>git_throws := (\<lambda>t name. if name = ''init'' then Some no_repository else None)\<rparr>"

definition offline_env :: env where
  "offline_env =
     demo_env\<lparr>git_throws := (\<lambda>t name. if name = ''listServerRefs''
                                        then Some (Error ''HttpError'' ''HTTP Error: 401 Unauthorized'')
                                        else None)\<rparr>"

definition world1 :: world where
  "world1 =
     world0\<lparr>sync_dir := Some \<lparr> worktree = Map.empty,
                                dotgit = Some (fresh_gitdir\<lparr>git_origin := Some (safeUrl cx0)\<rparr>) \<rparr>\<rparr>"

definition host_local :: json where
  "host_local =
     JObj [(''id'', JStr ''local-1''), (''name'', JStr ''db''), (''host'', JStr ''10.0.0.5''),
           (''port'', JNum 22), (''username'', JStr ''root''), (''folder'', JNull),
           (''tags'', JStr ''[]''), (''created_at'', JStr ''2023-05-01T10:00:00.000Z'')]"

definition host_remote :: json where
  "host_remote =
     JObj [(''id'', JStr ''remote-1''), (''name'', JStr ''web''), (''host'', JStr ''10.0.0.9''),
           (''port'', JNum 22), (''username'', JStr ''deploy''), (''folder'', JNull),
           (''tags'', JArr []), (''created_at'', JStr ''2023-06-01T10:00:00.000Z'')]"

definition row_remote :: json where
  "row_remote =
     JObj [(''id'', JStr ''remote-1''), (''name'', JStr ''web''), (''host'', JStr ''10.0.0.9''),
           (''port'', JNum 22), (''username'', JStr ''deploy''), (''folder'', JNull),
           (''tags'', JStr ''[]''), (''created_at'', JStr ''2023-06-01T10:00:00.000Z'')]"

definition doc_remote :: json where
  "doc_remote = JObj [(''hosts'', JObj [(''remote-1'', JObj [(''username'', JStr ''deploy''),
                                                            (''password'', JStr ''y'')])])]"

definition db_remote :: json where
  "db_remote =
     JObj [(''hosts'', JArr [host_remote]), (''snippets'', JArr []), (''settings'', JNull),
           (''remoteConnections'', JArr [])]"

definition payload8 :: json where
  "payload8 = JObj [(''db'', db_remote), (''vault'', doc_remote)]"

definition local_db :: database where
  "local_db = empty_db\<lparr>hosts := [(''local-1'', host_local)]\<rparr>"

definition world8 :: world where
  "world8 =
     world0\<lparr>db := Some local_db,
            files := [VAULT_PATH \<mapsto> demo_stringify (sealed nonce0 (key_of ''old'') doc0)],
            sync_dir := Some \<lparr> worktree = [ENC_DB_FILE \<mapsto>
                                              demo_stringify (sealed nonce0 (key_of ''old'') payload8)],
                                dotgit = Some (fresh_gitdir\<lparr>git_origin := Some (safeUrl cx0)\<rparr>) \<rparr>\<rparr>"

definition world9 :: world where
  "world9 = world8\<lparr>write_error := [VAULT_PATH \<mapsto> Refused eacces]\<rparr>"

definition merged_db :: database where
  "merged_db = local_db\<lparr>hosts := [(''local-1'', host_local), (''remote-1'', row_remote)]\<rparr>"

definition cloned :: world where
  "cloned = snd (git_clone demo_env ''https://example.com/me/vault.git'' ''ghp_secret'' None world0)"

definition no_args :: sync_args where
  "no_args = \<lparr> arg_token = None, arg_url = None, arg_username = None, arg_mode = None,
              arg_commitMessage = None \<rparr>"

section \<open>Hexadecimal round trip\<close>

lemma hex_value_digit: "n < 16 \<Longrightarrow> hex_value (hex_digit n) = Some n"
  by (simp add: hex_value_def hex_digit_def Let_def)

lemma from_hex_to_hex: "from_hex (to_hex bs) = Inr bs"
proof (induction bs)
  case Nil
  show ?case by simp
next
  case (Cons b bs)
  have "unat b < 256"
    using unsigned_less [of b] by simp
  then have hi: "unat b div 16 < 16"
    by simp
  have lo: "unat b mod 16 < 16"
    by simp
  have "word_of_nat (16 * (unat b div 16) + unat b mod 16) = b"
    by simp
  with Cons hi lo show ?case
    by (simp add: hex_value_digit)
qed

section \<open>Facts about the executable instance\<close>

lemma bytes_str_bytes: "bytes_str (str_bytes s) = s"
  by (induction s) (simp_all add: str_bytes_def bytes_str_def unat_of_nat)

lemma strip_own: "strip_tag k (key_tag k @ m) = Some m"
  by (induction k) simp_all

lemma strip_other: "k \<noteq> k' \<Longrightarrow> strip_tag k' (key_tag k @ m) = None"
proof (induction k arbitrary: k')
  case Nil
  then show ?case by (cases k'; cases m) simp_all
next
  case (Cons b bs)
  then show ?case by (cases k') auto
qed

lemma demo_sound: "secretbox_sound demo_env"
  by (simp add: secretbox_sound_def demo_env_def demo_easy_def demo_open_easy_def strip_own bytes_str_bytes)

lemma demo_authentic: "secretbox_authentic demo_env"
  by (auto simp add: secretbox_authentic_def demo_env_def demo_easy_def demo_open_easy_def strip_other)

lemma str_bytes_inj: "str_bytes p = str_bytes p' \<Longrightarrow> p = p'"
  by (metis bytes_str_bytes)

lemma demo_collision_free: "pwhash_collision_free demo_env"
  by (auto simp add: pwhash_collision_free_def demo_env_def demo_pwhash_def dest: str_bytes_inj)

lemma hex_digit_not_quote: "n < 16 \<Longrightarrow> hex_digit n \<noteq> CHR 0x22"
proof
  assume n: "n < 16" and "hex_digit n = CHR 0x22"
  then have "of_char (hex_digit n) = (of_char (CHR 0x22) :: nat)"
    by simp
  with n show False
    by (simp add: hex_digit_def split: if_splits)
qed

lemma until_quote_hex: "until_quote (to_hex bs @ CHR 0x22 # rest) = Some (to_hex bs, rest)"
proof (induction bs)
  case Nil
  show ?case by simp
next
  case (Cons b bs)
  have "unat b < 256"
    using unsigned_less [of b] by simp
  then have "unat b div 16 < 16" "unat b mod 16 < 16"
    by simp_all
  then have "hex_digit (unat b div 16) \<noteq> CHR 0x22" "hex_digit (unat b mod 16) \<noteq> CHR 0x22"
    by (simp_all add: hex_digit_not_quote)
  with Cons show ?case
    by simp
qed

lemma demo_stringify_envelope:
  "demo_stringify (envelope n c) =
     ''{'' @ quote ''nonce'' @ '':'' @ quote (to_hex n) @ '','' @ quote ''ciphertext'' @ '':''
       @ quote (to_hex c) @ ''}''"
  by (simp add: envelope_def quote_def)

lemma demo_parse_envelope: "demo_parse (demo_stringify (envelope n c)) = Inr (envelope n c)"
  by (simp add: demo_parse_def demo_stringify_envelope quote_def until_quote_hex envelope_def)

lemma demo_parse_salt:
  "demo_parse (salt_file demo_env salt) = Inr (JObj [(''salt'', JStr (to_hex salt))])"
  by (simp add: demo_parse_def salt_file_def demo_env_def quote_def until_quote_hex)

lemma not_blank_envelope: "\<not> blank (demo_stringify (envelope n c))"
  by (simp add: demo_stringify_envelope blank_def is_space_def)

section \<open>The vault: sealing and opening\<close>

lemma seal_key: "seal E d k w = (r, w1) \<Longrightarrow> masterKey w1 = masterKey w"
  by (auto simp: seal_def randombytes_def Let_def split: sum.splits)

lemma seal_Inr:
  assumes "seal E d k w = (Inr payload, w1)"
  shows "\<exists>c. crypto_secretbox_easy E (JSON_stringify E d) (randombytes_buf E (ticks w) 24) k = Inr c
           \<and> payload = envelope (randombytes_buf E (ticks w) 24) c
           \<and> w1 = w\<lparr>ticks := Suc (ticks w)\<rparr>"
  using assms
  by (auto simp: seal_def randombytes_def Let_def split: sum.splits)

lemma seal_opens:
  assumes "secretbox_sound E" and "seal E d k w = (Inr payload, w1)"
  shows "\<exists>nonce c. payload = envelope nonce c \<and>
           crypto_secretbox_open_easy E c nonce k = Inr (JSON_stringify E d)"
proof -
  from seal_Inr [OF assms(2)] obtain c where
    "crypto_secretbox_easy E (JSON_stringify E d) (randombytes_buf E (ticks w) 24) k = Inr c"
    "payload = envelope (randombytes_buf E (ticks w) 24) c"
    by blast
  with assms(1) show ?thesis
    unfolding secretbox_sound_def by blast
qed

lemma seal_rejects:
  assumes "secretbox_authentic E" and "seal E d k w = (Inr payload, w1)" and "k \<noteq> k'"
  shows "\<exists>nonce c e. payload = envelope nonce c \<and>
           crypto_secretbox_open_easy E c nonce k' = Inl e"
proof -
  from seal_Inr [OF assms(2)] obtain c where
    "crypto_secretbox_easy E (JSON_stringify E d) (randombytes_buf E (ticks w) 24) k = Inr c"
    "payload = envelope (randombytes_buf E (ticks w) 24) c"
    by blast
  with assms(1,3) show ?thesis
    unfolding secretbox_authentic_def by blast
qed

lemma hex_field_envelope:
  "hex_field (envelope nonce c) ''nonce'' = Inr nonce"
  "hex_field (envelope nonce c) ''ciphertext'' = Inr c"
  by (simp_all add: hex_field_def envelope_def from_hex_to_hex)

lemma seal_roundtrip:
  assumes sound: "secretbox_sound E"
    and json: "JSON_parse E (JSON_stringify E D) = Inr D"
    and derive: "crypto_pwhash E P salt = Inr key"
    and unlocked: "masterKey w = Some key"
    and enc: "encryptData E D w = (Success payload, w1)"
  shows "decryptData E payload w1 = Success D"
proof -
  from enc unlocked obtain r where s: "seal E D key w = (Inr payload, w1)"
    by (auto simp: encryptData_def split: prod.splits sum.splits)
  from seal_key [OF s] unlocked have k: "masterKey w1 = Some key" by simp
  from seal_opens [OF sound s] obtain nonce c where
    p: "payload = envelope nonce c" and
    o: "crypto_secretbox_open_easy E c nonce key = Inr (JSON_stringify E D)"
    by blast
  show ?thesis
    by (simp add: decryptData_def k p hex_field_envelope o json)
qed


lemma demo_fields [simp]:
  "JSON_stringify demo_env = demo_stringify"
  "JSON_parse demo_env = demo_parse"
  "randombytes_buf demo_env t n = replicate n (word_of_nat t)"
  "crypto_pwhash demo_env p s = Inr (s @ str_bytes p)"
  "crypto_secretbox_easy demo_env m nonce k = Inr (key_tag k @ str_bytes m)"
  "crypto_secretbox_open_easy demo_env = demo_open_easy"
  "git_throws demo_env t name = None"
  "git_server_refs demo_env t = [''refs/heads/main'']"
  "git_fetched demo_env t = Map.empty"
  "sql_run demo_env = demo_sql_run"
  by (simp_all add: demo_env_def demo_easy_def demo_pwhash_def)

lemma demo_open_sealed:
  "demo_open_easy (key_tag k @ str_bytes m) nonce k' =
     (if k = k' then Inr m else Inl (Error [] ''wrong secret key for the given ciphertext''))"
  by (simp add: demo_open_easy_def strip_own strip_other bytes_str_bytes)

lemma to_hex_Nil [simp]: "to_hex bs = [] \<longleftrightarrow> bs = []"
  by (cases bs) simp_all

lemma key_tag_nonempty [simp]: "key_tag k \<noteq> []"
  by (cases k) simp_all

lemma get_prop_sealed [simp]:
  "get_prop (sealed n k d) ''nonce'' = Some (JStr (to_hex n))"
  "get_prop (sealed n k d) ''ciphertext'' = Some (JStr (to_hex (key_tag k @ str_bytes (demo_stringify d))))"
  "truthy (sealed n k d)"
  by (simp_all add: sealed_def envelope_def)

lemma hex_field_sealed [simp]:
  "hex_field (sealed n k d) ''nonce'' = Inr n"
  "hex_field (sealed n k d) ''ciphertext'' = Inr (key_tag k @ str_bytes (demo_stringify d))"
  by (simp_all add: sealed_def hex_field_envelope)

lemma demo_decryptVault:
  assumes "masterKey w = Some key" and "files w VAULT_PATH = Some (demo_stringify (sealed n key' doc))"
    and "n \<noteq> []"
  shows "decryptVault demo_env w =
           (if key' = key
            then (case demo_parse (demo_stringify doc) of
                    Inl e \<Rightarrow> Failure verification_failed | Inr d \<Rightarrow> Success d)
            else Failure verification_failed)"
proof -
  have p: "demo_parse (demo_stringify (sealed n key' doc)) = Inr (sealed n key' doc)"
    by (simp add: sealed_def demo_parse_envelope)
  have b: "\<not> blank (demo_stringify (sealed n key' doc))" "demo_stringify (sealed n key' doc) \<noteq> []"
    using not_blank_envelope [of n] by (auto simp: sealed_def demo_stringify_envelope)
  show ?thesis
    using assms b by (simp add: decryptVault_def p demo_open_sealed)
qed

lemma demo_decryptData:
  assumes "masterKey w = Some key"
  shows "decryptData demo_env (sealed n key' doc) w =
           (if key' = key
            then (case demo_parse (demo_stringify doc) of
                    Inl e \<Rightarrow> Failure (err_message e) | Inr d \<Rightarrow> Success d)
            else Failure ''wrong secret key for the given ciphertext'')"
  using assms by (simp add: decryptData_def demo_open_sealed)

lemma parse_doc0: "demo_parse (demo_stringify doc0) = Inr doc0"
  by code_simp




lemma key_old_new: "new_key \<noteq> key_of p"
proof
  assume "new_key = key_of p"
  then have "hd new_key = hd (key_of p)"
    by simp
  then show False
    by (simp add: new_key_def new_salt_def key_of_def salt0_def hd_append)
qed

text \<open>
  Claim C7. For every document \<open>D\<close> that survives \<^verbatim>\<open>JSON.stringify\<close> and \<^verbatim>\<open>JSON.parse\<close>,
  every password and every salt: when the vault holds the key derived from them and
  \<^verbatim>\<open>encryptData\<close> returns a payload for \<open>D\<close>, \<^verbatim>\<open>decryptData\<close> of that payload under the
  same key succeeds and returns \<open>D\<close>.
\<close>

theorem encrypt_decrypt_roundtrip:
  assumes sound: "secretbox_sound E"
    and json: "JSON_parse E (JSON_stringify E D) = Inr D"
    and derive: "crypto_pwhash E P salt = Inr key"
    and unlocked: "masterKey w = Some key"
    and enc: "fst (encryptData E D w) = Success payload"
  shows "decryptData E payload (snd (encryptData E D w)) = Success D"
  using seal_roundtrip [OF sound json derive unlocked, of payload "snd (encryptData E D w)"] enc
  by (simp add: prod_eq_iff)

text \<open>The document of one host, sealed and opened under the key of the password \<open>old\<close>.\<close>

theorem encrypt_decrypt_roundtrip_witness:
  "decryptData demo_env (sealed (replicate 24 0) (key_of ''old'') doc0)
     (snd (encryptData demo_env doc0 (vault0\<lparr>masterKey := Some (key_of ''old'')\<rparr>)))
   = Success doc0"
proof -
  have j: "JSON_parse demo_env (JSON_stringify demo_env doc0) = Inr doc0"
    by (simp add: parse_doc0)
  have d: "crypto_pwhash demo_env ''old'' salt0 = Inr (key_of ''old'')"
    by (simp add: key_of_def)
  have u: "masterKey (vault0\<lparr>masterKey := Some (key_of ''old'')\<rparr>) = Some (key_of ''old'')"
    by simp
  have e: "fst (encryptData demo_env doc0 (vault0\<lparr>masterKey := Some (key_of ''old'')\<rparr>))
             = Success (sealed (replicate 24 0) (key_of ''old'') doc0)"
    by (simp add: encryptData_def seal_def randombytes_def vault0_def sealed_def)
  show ?thesis
    by (rule encrypt_decrypt_roundtrip [OF demo_sound j d u e])
qed

text \<open>
  Claim C5. For passwords \<open>P1 \<noteq> P2\<close> and one salt: a payload that \<^verbatim>\<open>encryptData\<close> produced
  under the key derived from \<open>P1\<close> is refused under the key derived from \<open>P2\<close>:
  \<^verbatim>\<open>decryptData\<close> returns a failure, and \<^verbatim>\<open>decryptVault\<close> returns a failure when the vault
  file holds that payload. No plaintext is returned.
\<close>

theorem wrong_password_fails:
  assumes auth: "secretbox_authentic E"
    and nocoll: "pwhash_collision_free E"
    and diff: "P1 \<noteq> P2"
    and k1: "crypto_pwhash E P1 salt = Inr key1"
    and k2: "crypto_pwhash E P2 salt = Inr key2"
    and unlocked1: "masterKey w = Some key1"
    and enc: "fst (encryptData E D w) = Success payload"
    and unlocked2: "masterKey w2 = Some key2"
  shows "(\<exists>err. decryptData E payload w2 = Failure err)
       \<and> (files w2 VAULT_PATH = Some raw \<longrightarrow> \<not> blank raw \<longrightarrow> JSON_parse E raw = Inr payload \<longrightarrow>
            decryptVault E w2 = Failure verification_failed)"
proof -
  from nocoll diff k1 k2 have ne: "key1 \<noteq> key2"
    unfolding pwhash_collision_free_def by blast
  from enc unlocked1 have s: "seal E D key1 w = (Inr payload, snd (encryptData E D w))"
    by (auto simp: encryptData_def split: prod.splits sum.splits)
  from seal_rejects [OF auth s ne] obtain nonce c e where
    p: "payload = envelope nonce c" and
    o: "crypto_secretbox_open_easy E c nonce key2 = Inl e"
    by blast
  have a: "\<exists>err. decryptData E payload w2 = Failure err"
    by (simp add: decryptData_def unlocked2 p hex_field_envelope o)
  have b: "decryptVault E w2 = Failure verification_failed"
    if "files w2 VAULT_PATH = Some raw" "\<not> blank raw" "JSON_parse E raw = Inr payload"
    using that by (auto simp add: decryptVault_def unlocked2 p hex_field_envelope o blank_def)
  from a b show ?thesis by blast
qed

text \<open>A vault file sealed under \<open>old\<close>, opened with the key of \<open>new\<close>.\<close>

theorem wrong_password_fails_witness:
  "(\<exists>err. decryptData demo_env (sealed (replicate 24 0) (key_of ''old'') doc0) vault5 = Failure err)
   \<and> decryptVault demo_env vault5 = Failure verification_failed"
proof -
  have d: "''old'' \<noteq> ''new''"
    by simp
  have k1: "crypto_pwhash demo_env ''old'' salt0 = Inr (key_of ''old'')"
    and k2: "crypto_pwhash demo_env ''new'' salt0 = Inr (key_of ''new'')"
    by (simp_all add: key_of_def)
  have u1: "masterKey (vault0\<lparr>masterKey := Some (key_of ''old'')\<rparr>) = Some (key_of ''old'')"
    by simp
  have e: "fst (encryptData demo_env doc0 (vault0\<lparr>masterKey := Some (key_of ''old'')\<rparr>))
             = Success (sealed (replicate 24 0) (key_of ''old'') doc0)"
    by (simp add: encryptData_def seal_def randombytes_def vault0_def sealed_def)
  have u2: "masterKey vault5 = Some (key_of ''new'')"
    by (simp add: vault5_def)
  have f: "files vault5 VAULT_PATH = Some (demo_stringify (sealed (replicate 24 0) (key_of ''old'') doc0))"
    by (simp add: vault5_def)
  have nb: "\<not> blank (demo_stringify (sealed (replicate 24 0) (key_of ''old'') doc0))"
    by (simp add: sealed_def not_blank_envelope)
  have p: "JSON_parse demo_env (demo_stringify (sealed (replicate 24 0) (key_of ''old'') doc0))
             = Inr (sealed (replicate 24 0) (key_of ''old'') doc0)"
    by (simp add: sealed_def demo_parse_envelope)
  from wrong_password_fails [OF demo_authentic demo_collision_free d k1 k2 u1 e u2,
      of "demo_stringify (sealed (replicate 24 0) (key_of ''old'') doc0)"] f nb p
  show ?thesis
    by blast
qed



text \<open>
  Claim C10, as the code has it. When the vault is unlocked and the vault file is
  missing or holds white space only, loading the vault succeeds with the empty list
  \<^verbatim>\<open>[]\<close> (not with an empty host map), and \<^verbatim>\<open>vault:get-credential\<close> succeeds with \<^verbatim>\<open>null\<close>
  for every host id that is not the name of a property that an empty object inherits
  from \<^verbatim>\<open>Object.prototype\<close>. Nothing is stated of the other host ids.
\<close>

theorem empty_vault_loads_list:
  assumes unlocked: "masterKey w = Some key"
    and nofile: "files w VAULT_PATH = None \<or> (\<exists>raw. files w VAULT_PATH = Some raw \<and> blank raw)"
  shows "decryptVault E w = Success (JArr [])
       \<and> decryptVault E w \<noteq> Success (JObj [(''hosts'', JObj [])])
       \<and> (\<forall>hostId. \<not> inherited_name hostId \<longrightarrow> get_credential E hostId w = Success JNull)"
proof -
  have d: "decryptVault E w = Success (JArr [])"
    using unlocked nofile by (auto simp: decryptVault_def)
  have "get_prop (JObj []) hostId = None" if "\<not> inherited_name hostId" for hostId
    using that by (simp add: inherited_name_def inherited_def object_prototype_def)
  with d show ?thesis
    by (simp add: get_credential_def unlocked)
qed

text \<open>An unlocked vault with no file, asked for the host id \<open>hostA\<close>.\<close>

theorem empty_vault_loads_list_witness:
  "decryptVault demo_env (vault0\<lparr>masterKey := Some (key_of ''old'')\<rparr>) = Success (JArr [])
   \<and> get_credential demo_env ''hostA'' (vault0\<lparr>masterKey := Some (key_of ''old'')\<rparr>) = Success JNull"
proof -
  have u: "masterKey (vault0\<lparr>masterKey := Some (key_of ''old'')\<rparr>) = Some (key_of ''old'')"
    by simp
  have n: "files (vault0\<lparr>masterKey := Some (key_of ''old'')\<rparr>) VAULT_PATH = None
           \<or> (\<exists>raw. files (vault0\<lparr>masterKey := Some (key_of ''old'')\<rparr>) VAULT_PATH = Some raw \<and> blank raw)"
    by (simp add: vault0_def)
  have h: "\<not> inherited_name ''hostA''"
    by (simp add: inherited_name_def object_members_def)
  from empty_vault_loads_list [OF u n, of demo_env] h show ?thesis
    by simp
qed

text \<open>
  The same vault asked for the host ids \<open>constructor\<close> and \<open>__proto__\<close>: the handler
  succeeds with a credential that is not \<^verbatim>\<open>null\<close>, the function \<^verbatim>\<open>Object\<close> and the object
  \<^verbatim>\<open>Object.prototype\<close>.
\<close>

theorem empty_vault_inherited_credential:
  "masterKey (vault0\<lparr>masterKey := Some (key_of ''old'')\<rparr>) = Some (key_of ''old'')
   \<and> files (vault0\<lparr>masterKey := Some (key_of ''old'')\<rparr>) VAULT_PATH = None
   \<and> decryptVault demo_env (vault0\<lparr>masterKey := Some (key_of ''old'')\<rparr>) = Success (JArr [])
   \<and> get_credential demo_env ''constructor'' (vault0\<lparr>masterKey := Some (key_of ''old'')\<rparr>)
       = Success (JNative ''Object.prototype.constructor'')
   \<and> get_credential demo_env ''__proto__'' (vault0\<lparr>masterKey := Some (key_of ''old'')\<rparr>)
       = Success (JNative ''Object.prototype'')
   \<and> JNative ''Object.prototype.constructor'' \<noteq> JNull
   \<and> JNative ''Object.prototype'' \<noteq> JNull"
  by (simp add: vault0_def decryptVault_def get_credential_def inherited_def object_prototype_def
      object_members_def)

section \<open>Changing the password\<close>

text \<open>
  Claim C2, as the code has it. When the vault is unlocked, the current vault decrypts
  and the new key seals the document, \<^verbatim>\<open>vault:change-password\<close> writes the new envelope
  first and the new salt second, each with one \<^verbatim>\<open>fs.writeFileSync\<close>: if the vault file is
  refused when it is opened for the first write, the handler fails with that error and
  leaves both files and the key as they were; if both writes go through, the handler
  succeeds, the vault file holds the envelope sealed under the new key, the metadata
  file holds the new salt, and the new key is the master key. Nothing is stated of a
  write that breaks off after the file is opened, nor of a failure of the second write.
\<close>

theorem change_password_writes:
  assumes unlocked: "masterKey w = Some key"
    and cur: "decryptVault E w = Success doc"
    and derive: "crypto_pwhash E newPassword (randombytes_buf E (ticks w) 16) = Inr newKey"
    and sealed: "crypto_secretbox_easy E (JSON_stringify E doc)
                   (randombytes_buf E (Suc (ticks w)) 24) newKey = Inr c"
  shows "(\<forall>e. write_error w VAULT_PATH = Some (Refused e) \<longrightarrow>
            fst (change_password E newPassword w) = Failure (err_message e)
            \<and> files (snd (change_password E newPassword w)) = files w
            \<and> masterKey (snd (change_password E newPassword w)) = Some key)
       \<and> (write_error w VAULT_PATH = None \<longrightarrow> write_error w METADATA_PATH = None \<longrightarrow>
            fst (change_password E newPassword w) = Success ()
            \<and> files (snd (change_password E newPassword w))
                = (files w)(VAULT_PATH \<mapsto>
                              JSON_stringify E (envelope (randombytes_buf E (Suc (ticks w)) 24) c),
                            METADATA_PATH \<mapsto> salt_file E (randombytes_buf E (ticks w) 16))
            \<and> masterKey (snd (change_password E newPassword w)) = Some newKey)"
  using assms
  by (auto simp: change_password_def randombytes_def seal_def Let_def writeFileSync_def
      split: option.splits)

lemma decrypt_vault3: "decryptVault demo_env vault3 = Success doc0"
proof -
  have "masterKey vault3 = Some (key_of ''old'')"
    "files vault3 VAULT_PATH = Some (demo_stringify (sealed nonce0 (key_of ''old'') doc0))"
    "nonce0 \<noteq> []"
    by (simp_all add: vault3_def vault1_def nonce0_def)
  then show ?thesis
    by (simp add: demo_decryptVault parse_doc0)
qed

lemma decrypt_vault4: "decryptVault demo_env vault4 = Success doc0"
proof -
  have "masterKey vault4 = Some (key_of ''old'')"
    "files vault4 VAULT_PATH = Some (demo_stringify (sealed nonce0 (key_of ''old'') doc0))"
    "nonce0 \<noteq> []"
    by (simp_all add: vault4_def vault3_def vault1_def nonce0_def)
  then show ?thesis
    by (simp add: demo_decryptVault parse_doc0)
qed

text \<open>
  The vault sealed under \<open>old\<close>, changed to \<open>new\<close>: once with all files writable, once
  with a vault file that cannot be opened for writing.
\<close>

theorem change_password_writes_witness:
  "fst (change_password demo_env ''new'' vault3) = Success ()
   \<and> files (snd (change_password demo_env ''new'' vault3))
       = (files vault3)(VAULT_PATH \<mapsto> demo_stringify (sealed (replicate 24 1) new_key doc0),
                        METADATA_PATH \<mapsto> salt_file demo_env new_salt)
   \<and> masterKey (snd (change_password demo_env ''new'' vault3)) = Some new_key
   \<and> fst (change_password demo_env ''new'' vault4) = Failure ''EACCES: permission denied''
   \<and> files (snd (change_password demo_env ''new'' vault4)) = files vault4
   \<and> masterKey (snd (change_password demo_env ''new'' vault4)) = Some (key_of ''old'')"
proof -
  have u: "masterKey vault3 = Some (key_of ''old'')" "masterKey vault4 = Some (key_of ''old'')"
    by (simp_all add: vault4_def vault3_def)
  have t: "ticks vault3 = 0" "write_error vault3 VAULT_PATH = None"
    "write_error vault3 METADATA_PATH = None"
    "ticks vault4 = 0" "write_error vault4 VAULT_PATH = Some (Refused eacces)"
    by (simp_all add: vault4_def vault3_def vault1_def)
  have d: "crypto_pwhash demo_env ''new'' (randombytes_buf demo_env (ticks vault3) 16) = Inr new_key"
    "crypto_pwhash demo_env ''new'' (randombytes_buf demo_env (ticks vault4) 16) = Inr new_key"
    by (simp_all add: t new_key_def new_salt_def)
  have s: "crypto_secretbox_easy demo_env (JSON_stringify demo_env doc0)
             (randombytes_buf demo_env (Suc (ticks vault3)) 24) new_key
           = Inr (key_tag new_key @ str_bytes (demo_stringify doc0))"
    "crypto_secretbox_easy demo_env (JSON_stringify demo_env doc0)
             (randombytes_buf demo_env (Suc (ticks vault4)) 24) new_key
           = Inr (key_tag new_key @ str_bytes (demo_stringify doc0))"
    by simp_all
  from change_password_writes [OF u(1) decrypt_vault3 d(1) s(1)]
    change_password_writes [OF u(2) decrypt_vault4 d(2) s(2)] t
  show ?thesis
    by (simp add: sealed_def new_salt_def eacces_def)
qed

lemma decrypt_vault2: "decryptVault demo_env vault2 = Success doc0"
proof -
  have "masterKey vault2 = Some (key_of ''old'')"
    "files vault2 VAULT_PATH = Some (demo_stringify (sealed nonce0 (key_of ''old'') doc0))"
    "nonce0 \<noteq> []"
    by (simp_all add: vault2_def vault1_def nonce0_def)
  then show ?thesis
    by (simp add: demo_decryptVault parse_doc0)
qed

lemma torn_state:
  "fst (change_password demo_env ''new'' vault2) = Failure ''EACCES: permission denied''"
  "masterKey (snd (change_password demo_env ''new'' vault2)) = Some (key_of ''old'')"
  "files (snd (change_password demo_env ''new'' vault2)) VAULT_PATH
     = Some (demo_stringify (sealed (replicate 24 1) new_key doc0))"
  "files (snd (change_password demo_env ''new'' vault2)) METADATA_PATH
     = Some (salt_file demo_env salt0)"
proof -
  have u: "masterKey vault2 = Some (key_of ''old'')"
    and t: "ticks vault2 = 0" "write_error vault2 VAULT_PATH = None"
      "write_error vault2 METADATA_PATH = Some (Refused eacces)"
      "files vault2 METADATA_PATH = Some (salt_file demo_env salt0)"
    by (simp_all add: vault2_def vault1_def)
  have "change_password demo_env ''new'' vault2
          = (Failure ''EACCES: permission denied'',
             vault2\<lparr>ticks := 2,
                    files := (files vault2)(VAULT_PATH \<mapsto>
                               demo_stringify (sealed (replicate 24 1) new_key doc0))\<rparr>)"
    by (simp add: change_password_def u decrypt_vault2 randombytes_def seal_def t writeFileSync_def
        sealed_def new_key_def new_salt_def eacces_def)
  then show
    "fst (change_password demo_env ''new'' vault2) = Failure ''EACCES: permission denied''"
    "masterKey (snd (change_password demo_env ''new'' vault2)) = Some (key_of ''old'')"
    "files (snd (change_password demo_env ''new'' vault2)) VAULT_PATH
       = Some (demo_stringify (sealed (replicate 24 1) new_key doc0))"
    "files (snd (change_password demo_env ''new'' vault2)) METADATA_PATH
       = Some (salt_file demo_env salt0)"
    by (simp_all add: u t)
qed

text \<open>
  The same vault when the metadata file cannot be written: the handler fails after the
  vault file has been replaced. The disk then holds the old salt beside an envelope
  sealed under the key of the new salt; the key in memory no longer opens the vault,
  and after a lock neither the old nor the new password unlocks it.
\<close>

theorem change_password_torn:
  "decryptVault demo_env vault2 = Success doc0
   \<and> stored_salt demo_env vault2 = Some salt0
   \<and> fst (change_password demo_env ''new'' vault2) = Failure ''EACCES: permission denied''
   \<and> stored_salt demo_env (snd (change_password demo_env ''new'' vault2)) = Some salt0
   \<and> files (snd (change_password demo_env ''new'' vault2)) VAULT_PATH
       = Some (demo_stringify (sealed (replicate 24 1) new_key doc0))
   \<and> new_key \<noteq> key_of ''old''
   \<and> decryptVault demo_env (snd (change_password demo_env ''new'' vault2))
       = Failure verification_failed
   \<and> fst (vault_init demo_env ''old'' (snd (vault_lock (snd (change_password demo_env ''new'' vault2)))))
       = Failure ''Invalid Master Password (or corrupted vault)''
   \<and> fst (vault_init demo_env ''new'' (snd (vault_lock (snd (change_password demo_env ''new'' vault2)))))
       = Failure ''Invalid Master Password (or corrupted vault)''"
proof -
  define torn where "torn = snd (change_password demo_env ''new'' vault2)"
  note ts = torn_state [folded torn_def]
  have nb: "\<not> blank (salt_file demo_env salt0)" "salt_file demo_env salt0 \<noteq> []" "salt0 \<noteq> []"
    by (simp_all add: salt_file_def blank_def is_space_def quote_def salt0_def)
  have ss: "stored_salt demo_env w = Some salt0"
    if "files w METADATA_PATH = Some (salt_file demo_env salt0)" for w :: vault_state
    using that nb by (simp add: stored_salt_def demo_parse_salt hex_field_def from_hex_to_hex)
  have s2: "stored_salt demo_env vault2 = Some salt0"
    by (rule ss) (simp add: vault2_def vault1_def)
  have s3: "stored_salt demo_env torn = Some salt0"
    by (rule ss) (rule ts)
  have d: "decryptVault demo_env torn = Failure verification_failed"
    using ts key_old_new [of "''old''"] by (simp add: demo_decryptVault)
  define locked where "locked = snd (vault_lock torn)"
  have l: "masterKey locked = None" "files locked = files torn"
    by (simp_all add: locked_def vault_lock_def)
  have s4: "stored_salt demo_env locked = Some salt0"
    by (rule ss) (simp add: l ts)
  have again: "fst (vault_init demo_env p locked)
                 = Failure ''Invalid Master Password (or corrupted vault)''" for p
  proof -
    have "decryptVault demo_env (locked\<lparr>masterKey := Some (key_of p)\<rparr>) = Failure verification_failed"
      using ts key_old_new [of p]
      by (simp add: demo_decryptVault [where key' = new_key and n = "replicate 24 1" and doc = doc0] l)
    then show ?thesis
      by (simp add: vault_init_def getSalt_def s4 key_of_def [symmetric] l ts)
  qed
  show ?thesis
    using decrypt_vault2 s2 ts(1) s3 ts(3) key_old_new [of "''old''"] d again
    by (simp add: torn_def [symmetric] locked_def [symmetric])
qed

section \<open>Framing the steps of a sync\<close>

lemma log_fields [simp]:
  "db (log m w) = db w" "sync_dir (log m w) = sync_dir w" "calls (log m w) = calls w"
  "ticks (log m w) = ticks w" "masterKey (log m w) = masterKey w" "files (log m w) = files w"
  "write_error (log m w) = write_error w" "remote_received (log m w) = remote_received w"
  "the_git (log m w) = the_git w" "has_dotgit (log m w) = has_dotgit w"
  by (simp_all add: log_def the_git_def has_dotgit_def)

lemma healed_log [simp]:
  "healed (log m w) =
     (if m = self_healing \<or> take 10 m = ''CRITICAL: '' then healed w @ [m] else healed w)"
  by (simp add: healed_def log_def marked_def)

lemma transfers_log [simp]: "transfers (log m w) = transfers w"
  by (simp add: transfers_def)

lemma healed_updates [simp]:
  "healed (w\<lparr>sync_dir := d\<rparr>) = healed w" "healed (w\<lparr>db := b\<rparr>) = healed w"
  "healed (w\<lparr>ticks := n\<rparr>) = healed w" "healed (w\<lparr>calls := cs\<rparr>) = healed w"
  "healed (w\<lparr>remote_received := rr\<rparr>) = healed w" "healed (w\<lparr>files := fs\<rparr>) = healed w"
  "transfers (w\<lparr>sync_dir := d\<rparr>) = transfers w" "transfers (w\<lparr>db := b\<rparr>) = transfers w"
  "transfers (w\<lparr>ticks := n\<rparr>) = transfers w"
  "transfers (w\<lparr>remote_received := rr\<rparr>) = transfers w" "transfers (w\<lparr>files := fs\<rparr>) = transfers w"
  by (simp_all add: healed_def transfers_def)

lemma set_git_fields [simp]:
  "db (set_git g w) = db w" "calls (set_git g w) = calls w" "console (set_git g w) = console w"
  "ticks (set_git g w) = ticks w" "masterKey (set_git g w) = masterKey w"
  "files (set_git g w) = files w" "write_error (set_git g w) = write_error w"
  "remote_received (set_git g w) = remote_received w" "healed (set_git g w) = healed w"
  "transfers (set_git g w) = transfers w"
  by (simp_all add: set_git_def healed_def transfers_def split: option.splits)

lemma keeps_lib: "lib E name c w = (r, w') \<Longrightarrow> keeps w w'"
  by (auto simp: keeps_def lib_def healed_def)

lemma keeps_lib_auth: "lib_auth E cx name c w = (r, w') \<Longrightarrow> keeps w w'"
  by (auto simp: keeps_def lib_auth_def lib_def healed_def split: option.splits)

lemma keeps_set_git [simp]: "keeps w (set_git g w)"
  by (simp add: keeps_def set_git_def healed_def split: option.splits)

lemma keeps_repo_init: "repo_init E w = (r, w') \<Longrightarrow> keeps w w'"
  by (auto simp: repo_init_def Let_def keeps_def lib_def healed_def marked_def log_def set_git_def
      split: if_splits prod.splits option.splits write_failure.splits)

lemma keeps_addRemote: "addRemote E url w = (r, w') \<Longrightarrow> keeps w w'"
  by (auto simp: addRemote_def keeps_def lib_def healed_def set_git_def
      split: if_splits prod.splits option.splits)

lemma keeps_deleteRemote: "deleteRemote E w = (r, w') \<Longrightarrow> keeps w w'"
  by (auto simp: deleteRemote_def keeps_def lib_def healed_def set_git_def
      split: if_splits prod.splits option.splits)

lemma keeps_remote_config: "keeps w (remote_config E cx w)"
proof -
  have "keeps w2 (snd (addRemote E u w2))" for u w2
    by (rule keeps_addRemote [OF surjective_pairing])
  then show ?thesis
    by (auto simp: remote_config_def keeps_def split: prod.splits option.splits
        dest!: keeps_addRemote keeps_deleteRemote)
qed

lemma keeps_remote_check: "remote_check E cx w = (r, w') \<Longrightarrow> keeps w w'"
  by (auto simp: remote_check_def keeps_def Let_def split: prod.splits option.splits
      dest!: keeps_lib_auth)

lemma keeps_pull_step: "keeps w (pull_step E cx rhd w)"
  by (auto simp: pull_step_def keeps_def Let_def split: prod.splits option.splits
      dest!: keeps_lib_auth)

lemma keeps_encryptData: "encryptData E d w = (r, w') \<Longrightarrow> keeps w w'"
  by (auto simp: encryptData_def seal_def randombytes_def keeps_def healed_def Let_def
      split: prod.splits option.splits sum.splits)

lemma keeps_write_sync_file: "write_sync_file n s w = (r, w') \<Longrightarrow> keeps w w'"
  by (auto simp: write_sync_file_def put_sync_file_def keeps_def healed_def
      split: option.splits write_failure.splits)

lemma keeps_write_payload: "write_payload E w = (r, w') \<Longrightarrow> keeps w w'"
  by (auto simp: write_payload_def keeps_def Let_def
      split: prod.splits option.splits sum.splits reply.splits
      dest!: keeps_encryptData keeps_write_sync_file)

lemma keeps_git_add: "git_add E w = (r, w') \<Longrightarrow> keeps w w'"
  by (auto simp: git_add_def keeps_def split: prod.splits option.splits dest!: keeps_lib)

lemma keeps_resolveRef: "resolveRef E w = (r, w') \<Longrightarrow> keeps w w'"
  by (auto simp: resolveRef_def keeps_def split: prod.splits option.splits dest!: keeps_lib)

lemma keeps_git_commit: "git_commit E m w = (r, w') \<Longrightarrow> keeps w w'"
  by (auto simp: git_commit_def keeps_def split: prod.splits option.splits dest!: keeps_lib)

lemma keeps_commit_step: "commit_step E cx w = (r, w') \<Longrightarrow> keeps w w'"
  by (auto simp: commit_step_def keeps_def Let_def split: prod.splits option.splits if_splits
      dest!: keeps_git_add keeps_resolveRef keeps_git_commit)

lemma keeps_writeRef: "writeRef E w = (r, w') \<Longrightarrow> keeps w w'"
  by (auto simp: writeRef_def keeps_def split: prod.splits option.splits dest!: keeps_lib)

lemma keeps_git_push: "git_push E cx f w = (r, w') \<Longrightarrow> keeps w w'"
  by (auto simp: git_push_def keeps_def Let_def healed_def split: prod.splits option.splits
      dest!: keeps_lib_auth)

lemma keeps_push_step: "push_step E cx rhd w = (r, w') \<Longrightarrow> keeps w w'"
  by (auto simp: push_step_def keeps_def split: prod.splits option.splits
      dest!: keeps_writeRef keeps_git_push)

lemma keeps_commit_push: "commit_push E cx rhd w = (r, w') \<Longrightarrow> keeps w w'"
  by (auto simp: commit_push_def keeps_def split: prod.splits option.splits if_splits
      dest!: keeps_write_payload keeps_commit_step keeps_push_step)

lemma keeps_saveDirect:
  "saveDirect E d w = (r, w') \<Longrightarrow>
     db w' = db w \<and> masterKey w' = masterKey w \<and> write_error w' = write_error w
     \<and> healed w' = healed w \<and> sync_dir w' = sync_dir w \<and> calls w' = calls w
     \<and> remote_received w' = remote_received w
     \<and> (\<forall>p. p \<noteq> VAULT_PATH \<longrightarrow> files w' p = files w p)"
  by (auto simp: saveDirect_def seal_def randombytes_def writeFileSync_def healed_def Let_def
      split: prod.splits option.splits sum.splits write_failure.splits)

lemma lock_import_combined: "keeps_lock w (import_combined E d v w)"
  by (auto simp: import_combined_def import_failed_def keeps_lock_def
      split: sum.splits prod.splits reply.splits dest!: keeps_saveDirect)

lemma lock_import_legacy: "keeps_lock w (import_legacy E d w)"
  by (auto simp: import_legacy_def import_failed_def keeps_lock_def healed_def marked_def log_def
      split: sum.splits)

lemma lock_import_step: "keeps_lock w (import_step E cx w)"
  using lock_import_combined [of w E] lock_import_legacy [of w E]
  by (auto simp: import_step_def import_failed_def split: option.splits sum.splits reply.splits json.splits)
     (simp_all add: keeps_lock_def)

lemma healed_attempt:
  assumes "attempt E cx w = (r, w')"
  shows "healed w' = healed w"
proof (cases "repo_init E w")
  case (Pair r1 w1)
  note k1 = keeps_repo_init [OF Pair]
  show ?thesis
  proof (cases r1)
    case (Some e)
    with assms Pair k1 show ?thesis
      by (simp add: attempt_def keeps_def)
  next
    case None
    define w2 where "w2 = remote_config E cx w1"
    obtain rhd w3 where rc: "remote_check E cx w2 = (rhd, w3)"
      by (cases "remote_check E cx w2")
    define w4 where "w4 = pull_step E cx rhd w3"
    define w5 where "w5 = import_step E cx w4"
    have k2: "keeps w1 w2"
      unfolding w2_def by (rule keeps_remote_config)
    have k3: "keeps w2 w3"
      by (rule keeps_remote_check [OF rc])
    have k4: "keeps w3 w4"
      unfolding w4_def by (rule keeps_pull_step)
    have k5: "keeps_lock w4 w5"
      unfolding w5_def by (rule lock_import_step)
    from assms Pair None rc have "commit_push E cx rhd w5 = (r, w')"
      by (simp add: attempt_def Let_def w2_def w4_def w5_def)
    then have k6: "keeps w5 w'"
      by (rule keeps_commit_push)
    from k1 k2 k3 k4 k5 k6 show ?thesis
      by (simp add: keeps_def keeps_lock_def)
  qed
qed

lemma quiet_lib: "\<not> is_transfer c \<Longrightarrow> lib E name c w = (r, w') \<Longrightarrow> quiet w w'"
  by (auto simp: quiet_def lib_def transfers_def)

lemma quiet_set_git [simp]: "quiet w (set_git g w)"
  by (simp add: quiet_def)

lemma quiet_log [simp]: "quiet w (log m w)"
  by (simp add: quiet_def)

lemma quiet_repo_init: "repo_init E w = (r, w') \<Longrightarrow> quiet w w'"
  by (auto simp: repo_init_def Let_def quiet_def lib_def transfers_def log_def set_git_def
      split: if_splits prod.splits option.splits write_failure.splits)

lemma quiet_addRemote: "addRemote E url w = (r, w') \<Longrightarrow> quiet w w'"
  by (auto simp: addRemote_def quiet_def lib_def transfers_def
      split: if_splits prod.splits option.splits)

lemma quiet_deleteRemote: "deleteRemote E w = (r, w') \<Longrightarrow> quiet w w'"
  by (auto simp: deleteRemote_def quiet_def lib_def transfers_def
      split: if_splits prod.splits option.splits)

lemma quiet_remote_config: "quiet w (remote_config E cx w)"
proof -
  have "quiet w2 (snd (addRemote E u w2))" for u w2
    by (rule quiet_addRemote [OF surjective_pairing])
  then show ?thesis
    by (auto simp: remote_config_def quiet_def split: prod.splits option.splits
        dest!: quiet_addRemote quiet_deleteRemote)
qed

lemma quiet_remote_check: "remote_check E cx w = (r, w') \<Longrightarrow> quiet w w'"
  by (auto simp: remote_check_def quiet_def Let_def lib_auth_def lib_def transfers_def
      split: prod.splits option.splits)

lemma quiet_write_payload: "write_payload E w = (r, w') \<Longrightarrow> quiet w w'"
  by (auto simp: write_payload_def quiet_def Let_def encryptData_def seal_def randombytes_def
      write_sync_file_def put_sync_file_def transfers_def
      split: prod.splits option.splits sum.splits reply.splits write_failure.splits)

lemma quiet_git_add: "git_add E w = (r, w') \<Longrightarrow> quiet w w'"
  by (auto simp: git_add_def quiet_def lib_def transfers_def split: prod.splits option.splits)

lemma quiet_resolveRef: "resolveRef E w = (r, w') \<Longrightarrow> quiet w w'"
  by (auto simp: resolveRef_def quiet_def lib_def transfers_def split: prod.splits option.splits)

lemma quiet_git_commit: "git_commit E m w = (r, w') \<Longrightarrow> quiet w w'"
  by (auto simp: git_commit_def quiet_def lib_def transfers_def split: prod.splits option.splits)

lemma quiet_commit_step: "commit_step E cx w = (r, w') \<Longrightarrow> quiet w w'"
  by (auto simp: commit_step_def quiet_def Let_def split: prod.splits option.splits if_splits
      dest!: quiet_git_add quiet_resolveRef quiet_git_commit)

lemma quiet_writeRef: "writeRef E w = (r, w') \<Longrightarrow> quiet w w'"
  by (auto simp: writeRef_def quiet_def lib_def transfers_def split: prod.splits option.splits)

lemma quiet_import_step: "quiet w (import_step E cx w)"
  using lock_import_step [of w E cx] by (simp add: keeps_lock_def quiet_def transfers_def)

lemma pushed_git_push: "git_push E cx force w = (r, w') \<Longrightarrow> pushed force w r w'"
  by (auto simp: git_push_def pushed_def Let_def lib_auth_def lib_def transfers_def
      split: prod.splits option.splits)

lemma pushed_push_step:
  assumes "push_step E cx rhd w = (r, w')"
  shows "(r \<noteq> None \<and> quiet w w') \<or> pushed (mode cx = ''push'' \<or> \<not> rhd) w r w'"
  using assms
  by (auto simp: push_step_def pushed_def quiet_def split: prod.splits option.splits
      dest!: quiet_writeRef pushed_git_push)

lemma pushed_commit_push:
  assumes "commit_push E cx rhd w = (r, w')"
  shows "quiet w w' \<and> (r = None \<longrightarrow> mode cx \<noteq> ''push'' \<and> mode cx \<noteq> ''merge'')
         \<or> pushed (mode cx = ''push'' \<or> \<not> rhd) w r w'"
  using assms
  by (auto simp: commit_push_def pushed_def quiet_def split: prod.splits option.splits if_splits
      dest!: quiet_write_payload quiet_commit_step pushed_push_step)

section \<open>The retry\<close>

declare runSync.simps [simp del]

lemma runSync_False:
  "runSync False E cx w =
     (case attempt E cx w of
        (None, w1) \<Rightarrow> (Success (), w1)
      | (Some e, w1) \<Rightarrow> (Failure (err_message e), log (''CRITICAL: '' @ err_message e) w1))"
  by (simp add: runSync.simps [of False] Let_def split: prod.splits option.splits)

lemma runSync_True:
  "runSync True E cx w =
     (case attempt E cx w of
        (None, w1) \<Rightarrow> (Success (), w1)
      | (Some e, w1) \<Rightarrow>
          if corruption_signature e
          then runSync False E cx
                 ((log self_healing (log (''CRITICAL: '' @ err_message e) w1))\<lparr>sync_dir := None\<rparr>)
          else (Failure (err_message e), log (''CRITICAL: '' @ err_message e) w1))"
  by (simp add: runSync.simps [of True] Let_def split: prod.splits option.splits)

lemma shape_False:
  "\<exists>ms. healed (snd (runSync False E cx w)) = healed w @ ms
        \<and> final_shape (fst (runSync False E cx w)) ms"
proof (cases "attempt E cx w")
  case (Pair r w1)
  from healed_attempt [OF Pair] show ?thesis
    by (cases r) (simp_all add: runSync_False Pair final_shape_def)
qed

lemma shape_True:
  "\<exists>ms. healed (snd (runSync True E cx w)) = healed w @ ms
        \<and> (final_shape (fst (runSync True E cx w)) ms
           \<or> (\<exists>m1 ms'. ms = [''CRITICAL: '' @ m1, self_healing] @ ms'
                 \<and> final_shape (fst (runSync True E cx w)) ms'))"
proof (cases "attempt E cx w")
  case (Pair r w1)
  note h = healed_attempt [OF Pair]
  show ?thesis
  proof (cases r)
    case None
    with Pair h show ?thesis
      by (simp add: runSync_True final_shape_def)
  next
    case (Some e)
    show ?thesis
    proof (cases "corruption_signature e")
      case False
      with Pair Some h show ?thesis
        by (simp add: runSync_True final_shape_def)
    next
      case True
      define w2 where
        "w2 = (log self_healing (log (''CRITICAL: '' @ err_message e) w1))\<lparr>sync_dir := None\<rparr>"
      have r2: "runSync True E cx w = runSync False E cx w2"
        using Pair Some True by (simp add: runSync_True w2_def)
      have h2: "healed w2 = healed w @ [''CRITICAL: '' @ err_message e, self_healing]"
        using h by (simp add: w2_def)
      from shape_False [of E cx w2] obtain ms' where
        "healed (snd (runSync False E cx w2)) = healed w2 @ ms'"
        "final_shape (fst (runSync False E cx w2)) ms'"
        by blast
      with r2 h2 show ?thesis
        by auto
    qed
  qed
qed

lemma count_filter_marked: "count_list (filter marked xs) self_healing = count_list xs self_healing"
  by (induction xs) (simp_all add: marked_def)

lemma count_healed: "count_list (console w) self_healing = count_list (healed w) self_healing"
  by (simp add: healed_def count_filter_marked)

text \<open>
  Claim C4. The lines that \<^verbatim>\<open>runSync()\<close> adds to the console about failures are nothing,
  or the \<^verbatim>\<open>CRITICAL\<close> line of a failed attempt, or that line followed by one self-heal
  announcement and then by what a single retry adds: nothing when the retry succeeds,
  its \<^verbatim>\<open>CRITICAL\<close> line when it fails. So the wipe is announced at most once, and never
  by \<^verbatim>\<open>runSync(false)\<close>. When the first attempt fails with the corruption signature and
  the retry fails too, whatever its error, the result is the failure of the retry and
  the wipe has been done exactly once.
\<close>

theorem self_heal_at_most_once:
  "(\<exists>ms. healed (snd (runSync True E cx w)) = healed w @ ms
        \<and> (final_shape (fst (runSync True E cx w)) ms
           \<or> (\<exists>m1 ms'. ms = [''CRITICAL: '' @ m1, self_healing] @ ms'
                 \<and> final_shape (fst (runSync True E cx w)) ms')))
   \<and> count_list (console (snd (runSync True E cx w))) self_healing
       \<le> Suc (count_list (console w) self_healing)
   \<and> count_list (console (snd (runSync False E cx w))) self_healing
       = count_list (console w) self_healing
   \<and> (\<forall>e1 e2. fst (attempt E cx w) = Some e1 \<longrightarrow> corruption_signature e1 \<longrightarrow>
         fst (attempt E cx
                ((log self_healing (log (''CRITICAL: '' @ err_message e1) (snd (attempt E cx w))))
                   \<lparr>sync_dir := None\<rparr>)) = Some e2 \<longrightarrow>
         fst (runSync True E cx w) = Failure (err_message e2)
         \<and> count_list (console (snd (runSync True E cx w))) self_healing
             = Suc (count_list (console w) self_healing))"
proof -
  from shape_True [of E cx w] obtain ms where
    ms: "healed (snd (runSync True E cx w)) = healed w @ ms"
      "final_shape (fst (runSync True E cx w)) ms
       \<or> (\<exists>m1 ms'. ms = [''CRITICAL: '' @ m1, self_healing] @ ms'
             \<and> final_shape (fst (runSync True E cx w)) ms')"
    by blast
  have a: "count_list (console (snd (runSync True E cx w))) self_healing
             \<le> Suc (count_list (console w) self_healing)"
    using ms by (auto simp: count_healed final_shape_def split: reply.splits)
  from shape_False [of E cx w] obtain ns where
    "healed (snd (runSync False E cx w)) = healed w @ ns"
    "final_shape (fst (runSync False E cx w)) ns"
    by blast
  then have b: "count_list (console (snd (runSync False E cx w))) self_healing
                  = count_list (console w) self_healing"
    by (auto simp: count_healed final_shape_def split: reply.splits)
  have c: "fst (runSync True E cx w) = Failure (err_message e2)
         \<and> count_list (console (snd (runSync True E cx w))) self_healing
             = Suc (count_list (console w) self_healing)"
    if f1: "fst (attempt E cx w) = Some e1" and sig: "corruption_signature e1"
      and f2: "fst (attempt E cx
                ((log self_healing (log (''CRITICAL: '' @ err_message e1) (snd (attempt E cx w))))
                   \<lparr>sync_dir := None\<rparr>)) = Some e2"
    for e1 e2
  proof -
    define w1 where "w1 = snd (attempt E cx w)"
    define w2 where
      "w2 = (log self_healing (log (''CRITICAL: '' @ err_message e1) w1))\<lparr>sync_dir := None\<rparr>"
    define w3 where "w3 = snd (attempt E cx w2)"
    have a1: "attempt E cx w = (Some e1, w1)"
      using f1 by (simp add: w1_def prod_eq_iff)
    have a2: "attempt E cx w2 = (Some e2, w3)"
      using f2 by (simp add: w1_def w2_def w3_def prod_eq_iff)
    have r: "runSync True E cx w
               = (Failure (err_message e2), log (''CRITICAL: '' @ err_message e2) w3)"
      using a1 a2 sig by (simp add: runSync_True runSync_False w2_def)
    have "healed w3 = healed w @ [''CRITICAL: '' @ err_message e1, self_healing]"
      using healed_attempt [OF a1] healed_attempt [OF a2] by (simp add: w2_def)
    then show ?thesis
      by (simp add: r count_healed)
  qed
  from ms a b c show ?thesis
    by blast
qed

lemma attempt_init_throws:
  "\<not> has_dotgit w \<Longrightarrow> git_throws E (ticks w) ''init'' = Some e \<Longrightarrow> fst (attempt E cx w) = Some e"
  by (simp add: attempt_def repo_init_def lib_def Let_def)

text \<open>A repository library whose \<^verbatim>\<open>init\<close> always throws \<^verbatim>\<open>NotFoundError\<close>.\<close>

theorem self_heal_at_most_once_witness:
  "fst (runSync True corrupt_env cx0 world0) = Failure ''Could not find HEAD.''
   \<and> count_list (console (snd (runSync True corrupt_env cx0 world0))) self_healing
       = Suc (count_list (console world0) self_healing)"
proof -
  have t: "git_throws corrupt_env t ''init'' = Some no_repository" for t
    by (simp add: corrupt_env_def)
  have a1: "fst (attempt corrupt_env cx0 world0) = Some no_repository"
    by (rule attempt_init_throws) (simp_all add: t has_dotgit_def the_git_def world0_def)
  have sig: "corruption_signature no_repository"
    by (simp add: corruption_signature_def no_repository_def)
  have a2: "fst (attempt corrupt_env cx0
                  ((log self_healing (log (''CRITICAL: '' @ err_message no_repository)
                      (snd (attempt corrupt_env cx0 world0))))\<lparr>sync_dir := None\<rparr>)) = Some no_repository"
    by (rule attempt_init_throws) (simp_all add: t has_dotgit_def the_git_def)
  from self_heal_at_most_once [of corrupt_env cx0 world0] a1 sig a2
  have "fst (runSync True corrupt_env cx0 world0) = Failure (err_message no_repository)
        \<and> count_list (console (snd (runSync True corrupt_env cx0 world0))) self_healing
            = Suc (count_list (console world0) self_healing)"
    by blast
  then show ?thesis
    by (simp add: no_repository_def)
qed

section \<open>The import\<close>

lemma map_of_replace_row:
  "map_of (replace_row t k row) k' = (if k' = k then Some row else map_of t k')"
proof -
  have "map_of (filter (\<lambda>r. fst r \<noteq> k) t) k' = (if k' = k then None else map_of t k')"
    by (induction t) auto
  then show ?thesis
    by (auto simp: replace_row_def map_add_def split: option.splits)
qed

lemma keys_of_Cons:
  "keys_of E tbl mk (x # xs) =
     (case bound E tbl mk x of None \<Rightarrow> keys_of E tbl mk xs | Some kr \<Rightarrow> fst kr # keys_of E tbl mk xs)"
  by (simp add: keys_of_def List.map_filter_simps split: option.splits)

lemma run_each_other:
  "run_each E tbl mk xs t = Inr t' \<Longrightarrow> k \<notin> set (keys_of E tbl mk xs) \<Longrightarrow> map_of t' k = map_of t k"
proof (induction xs arbitrary: t)
  case Nil
  then show ?case by simp
next
  case (Cons x xs)
  from Cons.prems(1) obtain params k1 row where
    b: "mk x = Inr params" "sql_run E tbl params = Inr (k1, row)"
    and rest: "run_each E tbl mk xs (replace_row t k1 row) = Inr t'"
    by (auto split: sum.splits)
  from b have bx: "bound E tbl mk x = Some (k1, row)"
    by (simp add: bound_def)
  with Cons.prems(2) have ne: "k \<noteq> k1" and notin: "k \<notin> set (keys_of E tbl mk xs)"
    by (simp_all add: keys_of_Cons)
  from Cons.IH [OF rest notin] ne show ?case
    by (simp add: map_of_replace_row)
qed

lemma run_each_present:
  "run_each E tbl mk xs t = Inr t' \<Longrightarrow> k \<in> set (keys_of E tbl mk xs) \<Longrightarrow>
     \<exists>x row. x \<in> set xs \<and> bound E tbl mk x = Some (k, row) \<and> map_of t' k = Some row"
proof (induction xs arbitrary: t)
  case Nil
  then show ?case by (simp add: keys_of_def List.map_filter_simps)
next
  case (Cons x xs)
  from Cons.prems(1) obtain params k1 row where
    b: "mk x = Inr params" "sql_run E tbl params = Inr (k1, row)"
    and rest: "run_each E tbl mk xs (replace_row t k1 row) = Inr t'"
    by (auto split: sum.splits)
  from b have bx: "bound E tbl mk x = Some (k1, row)"
    by (simp add: bound_def)
  show ?case
  proof (cases "k \<in> set (keys_of E tbl mk xs)")
    case True
    from Cons.IH [OF rest True] show ?thesis
      by auto
  next
    case False
    with Cons.prems(2) bx have "k = k1"
      by (simp add: keys_of_Cons)
    moreover from run_each_other [OF rest False]
    have "map_of t' k = map_of (replace_row t k1 row) k" .
    ultimately show ?thesis
      using bx by (auto simp: map_of_replace_row)
  qed
qed

lemma run_each_dom:
  "run_each E tbl mk xs t = Inr t' \<Longrightarrow> map_of t k \<noteq> None \<Longrightarrow> map_of t' k \<noteq> None"
proof (induction xs arbitrary: t)
  case Nil
  then show ?case by simp
next
  case (Cons x xs)
  from Cons.prems(1) obtain params k1 row where
    rest: "run_each E tbl mk xs (replace_row t k1 row) = Inr t'"
    by (auto split: sum.splits)
  from Cons.prems(2) have "map_of (replace_row t k1 row) k \<noteq> None"
    by (simp add: map_of_replace_row)
  from Cons.IH [OF rest this] show ?case .
qed

lemma import_array_items:
  "import_array E tbl mk v t = run_each E tbl mk (items v) t"
  by (simp add: import_array_def items_def split: option.splits json.splits)

lemma importData_Some:
  assumes "importData E now data (Some d) = Inr dbo"
  shows "\<exists>d'. dbo = Some d'
     \<and> (\<not> truthy data \<and> d' = d
        \<or> truthy data
          \<and> run_each E ''hosts'' (tagged_params E now) (items (get_prop data ''hosts'')) (hosts d)
              = Inr (hosts d')
          \<and> run_each E ''snippets'' (tagged_params E now) (items (get_prop data ''snippets''))
                (snippets d) = Inr (snippets d'))"
  using assms
  by (auto simp: importData_def import_array_items split: if_splits sum.splits)

lemma grows_refl [simp]: "grows a a"
  by (simp add: grows_def same_keys_def split: option.splits)

lemma grows_trans: "grows a b \<Longrightarrow> grows b c \<Longrightarrow> grows a c"
  by (auto simp: grows_def same_keys_def split: option.splits)

lemma import_step_none:
  assumes "decrypted_payload E cx w = None"
  shows "db (import_step E cx w) = db w \<and> files (import_step E cx w) = files w"
  using assms
  by (auto simp: import_step_def decrypted_payload_def import_failed_def
      split: option.splits sum.splits reply.splits if_splits)

lemma import_step_some:
  assumes "decrypted_payload E cx w = Some data"
  shows "import_step E cx w =
           (if data = JNull then import_failed null_deref w
            else if combined data
                 then import_combined E (the (get_prop data ''db'')) (the (get_prop data ''vault'')) w
                 else import_legacy E data w)"
proof -
  from assms obtain raw encData where
    f: "(case sync_dir w of None \<Rightarrow> None | Some c \<Rightarrow> worktree c ENC_DB_FILE) = Some raw"
    and m: "mode cx \<noteq> ''push''"
    and p: "JSON_parse E raw = Inr encData"
    and d: "decryptData E encData w = Success data"
    by (auto simp: decrypted_payload_def split: option.splits sum.splits reply.splits if_splits)
  show ?thesis
    by (cases data) (simp_all add: import_step_def f m p d combined_def)
qed

lemma import_combined_db:
  "db (import_combined E d v w) =
     (case importData E (toISOString E (ticks w)) d (db w) of Inl e \<Rightarrow> db w | Inr dbo \<Rightarrow> dbo)"
  by (auto simp: import_combined_def import_failed_def split: sum.splits prod.splits reply.splits
      dest!: keeps_saveDirect)

lemma import_legacy_db:
  "db (import_legacy E d w) =
     (case importData E (toISOString E (ticks w)) d (db w) of Inl e \<Rightarrow> db w | Inr dbo \<Rightarrow> dbo)"
  by (simp add: import_legacy_def import_failed_def split: sum.splits)

lemma import_step_db:
  "db (import_step E cx w) =
     (case incoming E cx w of
        None \<Rightarrow> db w
      | Some data \<Rightarrow>
          (case importData E (toISOString E (ticks w)) data (db w) of
             Inl e \<Rightarrow> db w
           | Inr dbo \<Rightarrow> dbo))"
proof (cases "decrypted_payload E cx w")
  case None
  with import_step_none [OF None] show ?thesis
    by (simp add: incoming_def)
next
  case (Some data)
  show ?thesis
  proof (cases "data = JNull")
    case True
    with Some show ?thesis
      by (simp add: import_step_some [OF Some] incoming_def import_failed_def)
  next
    case False
    then have i: "incoming E cx w = (if combined data then get_prop data ''db'' else Some data)"
      using Some by (cases data) (simp_all add: incoming_def)
    show ?thesis
    proof (cases "combined data")
      case True
      then obtain dbPart where "get_prop data ''db'' = Some dbPart"
        by (cases "get_prop data ''db''") (simp_all add: combined_def)
      with True False i show ?thesis
        by (simp add: import_step_some [OF Some] import_combined_db)
    next
      case c: False
      with False i show ?thesis
        by (simp add: import_step_some [OF Some] import_legacy_db)
    qed
  qed
qed

lemma importData_grows: "importData E now data a = Inr b \<Longrightarrow> grows a b"
proof (cases a)
  case None
  assume "importData E now data a = Inr b"
  with None show ?thesis
    by (simp add: importData_def grows_def)
next
  case (Some d)
  assume "importData E now data a = Inr b"
  with Some importData_Some [of E now data d b] obtain d' where
    d': "b = Some d'" and
    cases: "d' = d \<or> (run_each E ''hosts'' (tagged_params E now) (items (get_prop data ''hosts'')) (hosts d)
              = Inr (hosts d')
          \<and> run_each E ''snippets'' (tagged_params E now) (items (get_prop data ''snippets''))
                (snippets d) = Inr (snippets d'))"
    by auto
  from cases have "same_keys (hosts d) (hosts d') \<and> same_keys (snippets d) (snippets d')"
    unfolding same_keys_def using run_each_dom by blast
  with Some d' show ?thesis
    by (simp add: grows_def)
qed

lemma import_step_grows: "grows (db w) (db (import_step E cx w))"
  by (auto simp: import_step_db split: option.splits sum.splits dest: importData_grows)

lemma attempt_db:
  "db (snd (attempt E cx w)) = db w
   \<or> (\<exists>w4. db w4 = db w \<and> db (snd (attempt E cx w)) = db (import_step E cx w4))"
proof (cases "repo_init E w")
  case (Pair r1 w1)
  note k1 = keeps_repo_init [OF Pair]
  show ?thesis
  proof (cases r1)
    case (Some e)
    with Pair k1 show ?thesis
      by (simp add: attempt_def keeps_def)
  next
    case None
    define w2 where "w2 = remote_config E cx w1"
    obtain rhd w3 where rc: "remote_check E cx w2 = (rhd, w3)"
      by (cases "remote_check E cx w2")
    define w4 where "w4 = pull_step E cx rhd w3"
    define w5 where "w5 = import_step E cx w4"
    have k2: "keeps w1 w2"
      unfolding w2_def by (rule keeps_remote_config)
    have k3: "keeps w2 w3"
      by (rule keeps_remote_check [OF rc])
    have k4: "keeps w3 w4"
      unfolding w4_def by (rule keeps_pull_step)
    have "attempt E cx w = commit_push E cx rhd w5"
      using Pair None rc by (simp add: attempt_def Let_def w2_def w4_def w5_def)
    then have k6: "keeps w5 (snd (attempt E cx w))"
      using keeps_commit_push [OF surjective_pairing, where E = E and cx = cx and rhd = rhd and w = w5]
      by simp
    from k1 k2 k3 k4 k6 have "db w4 = db w \<and> db (snd (attempt E cx w)) = db (import_step E cx w4)"
      by (simp add: keeps_def w5_def)
    then show ?thesis
      by blast
  qed
qed

lemma attempt_grows: "grows (db w) (db (snd (attempt E cx w)))"
  using attempt_db [of E cx w] import_step_grows
  by (metis grows_refl)

lemma runSync_False_grows: "grows (db w) (db (snd (runSync False E cx w)))"
  using attempt_grows [of w E cx]
  by (auto simp: runSync_False split: prod.splits option.splits)

lemma runSync_grows: "grows (db w) (db (snd (runSync retry E cx w)))"
proof (cases retry)
  case False
  then show ?thesis
    by (simp add: runSync_False_grows)
next
  case True
  show ?thesis
  proof (cases "attempt E cx w")
    case (Pair r w1)
    with attempt_grows [of w E cx] have g1: "grows (db w) (db w1)"
      by simp
    show ?thesis
    proof (cases r)
      case None
      with Pair g1 True show ?thesis
        by (simp add: runSync_True)
    next
      case (Some e)
      define w2 where
        "w2 = (log self_healing (log (''CRITICAL: '' @ err_message e) w1))\<lparr>sync_dir := None\<rparr>"
      have "db w2 = db w1"
        by (simp add: w2_def)
      with g1 runSync_False_grows [of w2 E cx]
      have "grows (db w) (db (snd (runSync False E cx w2)))"
        by (auto intro: grows_trans)
      with Pair Some g1 True show ?thesis
        by (simp add: runSync_True w2_def)
    qed
  qed
qed

lemma run_each_row:
  assumes "run_each E tbl mk xs t = Inr t'" and "k \<in> fst ` set (List.map_filter (bound E tbl mk) xs)"
  shows "\<exists>row. (k, row) \<in> set (List.map_filter (bound E tbl mk) xs) \<and> map_of t' k = Some row"
proof -
  from assms(2) have "k \<in> set (keys_of E tbl mk xs)"
    by (simp add: keys_of_def)
  from run_each_present [OF assms(1) this] obtain x row where
    "x \<in> set xs" "bound E tbl mk x = Some (k, row)" "map_of t' k = Some row"
    by blast
  then show ?thesis
    by (auto simp: List.map_filter_def intro!: exI [of _ row] image_eqI [of _ _ x])
qed

lemma import_step_rows:
  assumes d: "db w = Some d"
  shows "\<exists>d1. db (import_step E cx w) = Some d1
     \<and> (\<forall>k. k \<notin> fst ` set (payload_rows E cx w ''hosts'') \<longrightarrow> map_of (hosts d1) k = map_of (hosts d) k)
     \<and> (\<forall>k. k \<notin> fst ` set (payload_rows E cx w ''snippets'') \<longrightarrow>
           map_of (snippets d1) k = map_of (snippets d) k)
     \<and> (imported E cx w \<longrightarrow>
          (\<forall>k \<in> fst ` set (payload_rows E cx w ''hosts'').
              \<exists>row. (k, row) \<in> set (payload_rows E cx w ''hosts'') \<and> map_of (hosts d1) k = Some row)
          \<and> (\<forall>k \<in> fst ` set (payload_rows E cx w ''snippets'').
              \<exists>row. (k, row) \<in> set (payload_rows E cx w ''snippets'')
                     \<and> map_of (snippets d1) k = Some row))"
proof (cases "incoming E cx w")
  case None
  with d show ?thesis
    by (simp add: import_step_db imported_def)
next
  case (Some data)
  let ?now = "toISOString E (ticks w)"
  show ?thesis
  proof (cases "importData E ?now data (db w)")
    case (Inl e)
    with Some d show ?thesis
      by (simp add: import_step_db imported_def)
  next
    case (Inr dbo)
    with d importData_Some [of E ?now data d dbo] obtain d' where
      d': "dbo = Some d'" and
      alt: "\<not> truthy data \<and> d' = d
        \<or> truthy data
          \<and> run_each E ''hosts'' (tagged_params E ?now) (items (get_prop data ''hosts'')) (hosts d)
              = Inr (hosts d')
          \<and> run_each E ''snippets'' (tagged_params E ?now) (items (get_prop data ''snippets''))
                (snippets d) = Inr (snippets d')"
      by auto
    have r: "db (import_step E cx w) = Some d'"
      using Some Inr d' by (simp add: import_step_db)
    from alt show ?thesis
    proof
      assume "\<not> truthy data \<and> d' = d"
      with r Some show ?thesis
        by (simp add: payload_rows_def)
    next
      assume t: "truthy data
          \<and> run_each E ''hosts'' (tagged_params E ?now) (items (get_prop data ''hosts'')) (hosts d)
              = Inr (hosts d')
          \<and> run_each E ''snippets'' (tagged_params E ?now) (items (get_prop data ''snippets''))
                (snippets d) = Inr (snippets d')"
      have rows: "payload_rows E cx w tbl
                    = List.map_filter (bound E tbl (tagged_params E ?now)) (items (get_prop data tbl))"
        for tbl
        using Some t by (simp add: payload_rows_def)
      have keys: "fst ` set (payload_rows E cx w tbl)
                    = set (keys_of E tbl (tagged_params E ?now) (items (get_prop data tbl)))" for tbl
        by (simp add: rows keys_of_def)
      from t have h: "run_each E ''hosts'' (tagged_params E ?now) (items (get_prop data ''hosts'')) (hosts d)
              = Inr (hosts d')"
        and s: "run_each E ''snippets'' (tagged_params E ?now) (items (get_prop data ''snippets''))
                (snippets d) = Inr (snippets d')"
        by simp_all
      have 1: "\<forall>k. k \<notin> fst ` set (payload_rows E cx w ''hosts'') \<longrightarrow>
                 map_of (hosts d') k = map_of (hosts d) k"
        unfolding keys using run_each_other [OF h] by blast
      have 2: "\<forall>k. k \<notin> fst ` set (payload_rows E cx w ''snippets'') \<longrightarrow>
                 map_of (snippets d') k = map_of (snippets d) k"
        unfolding keys using run_each_other [OF s] by blast
      have 3: "\<forall>k \<in> fst ` set (payload_rows E cx w ''hosts'').
              \<exists>row. (k, row) \<in> set (payload_rows E cx w ''hosts'') \<and> map_of (hosts d') k = Some row"
        unfolding rows using run_each_row [OF h] by blast
      have 4: "\<forall>k \<in> fst ` set (payload_rows E cx w ''snippets'').
              \<exists>row. (k, row) \<in> set (payload_rows E cx w ''snippets'')
                     \<and> map_of (snippets d') k = Some row"
        unfolding rows using run_each_row [OF s] by blast
      from r 1 2 3 4 show ?thesis
        by blast
    qed
  qed
qed

lemma parse_payload8: "demo_parse (demo_stringify payload8) = Inr payload8"
  by code_simp

lemma rows8:
  "bound demo_env ''hosts'' (tagged_params demo_env ''2024-01-01T00:00:00.000Z'') host_remote
     = Some (''remote-1'', row_remote)"
  by code_simp

lemma import8:
  "importData demo_env ''2024-01-01T00:00:00.000Z'' db_remote (Some local_db)
     = Inr (Some (local_db\<lparr>hosts := [(''local-1'', host_local), (''remote-1'', row_remote)]\<rparr>))"
  by code_simp

lemma parse_sealed: "demo_parse (demo_stringify (sealed n k d)) = Inr (sealed n k d)"
  by (simp add: sealed_def demo_parse_envelope)

lemma decrypted8:
  assumes "masterKey w = Some (key_of ''old'')"
    and "(case sync_dir w of None \<Rightarrow> None | Some c \<Rightarrow> worktree c ENC_DB_FILE)
           = Some (demo_stringify (sealed nonce0 (key_of ''old'') payload8))"
  shows "decrypted_payload demo_env cx0 w = Some payload8"
  using assms
  by (simp add: decrypted_payload_def cx0_def parse_sealed demo_decryptData parse_payload8)

lemma combined8: "combined payload8" "payload8 \<noteq> JNull"
  "get_prop payload8 ''db'' = Some db_remote" "get_prop payload8 ''vault'' = Some doc_remote"
  by (simp_all add: combined_def payload8_def db_remote_def doc_remote_def)

lemma incoming8:
  assumes "decrypted_payload demo_env cx0 w = Some payload8"
  shows "incoming demo_env cx0 w = Some db_remote"
  using assms combined8 by (simp add: incoming_def payload8_def)

lemma clock_demo: "toISOString demo_env t = ''2024-01-01T00:00:00.000Z''"
  by (simp add: demo_env_def)

lemma saveDirect_outcome:
  "(case fst (saveDirect E d w) of
      Success u \<Rightarrow>
        (\<exists>key c. masterKey w = Some key
           \<and> crypto_secretbox_easy E (JSON_stringify E d) (randombytes_buf E (ticks w) 24) key = Inr c
           \<and> files (snd (saveDirect E d w))
               = (files w)(VAULT_PATH \<mapsto> JSON_stringify E (envelope (randombytes_buf E (ticks w) 24) c)))
    | Failure err \<Rightarrow>
        (\<forall>p. p \<noteq> VAULT_PATH \<longrightarrow> files (snd (saveDirect E d w)) p = files w p)
        \<and> ((\<forall>e n. write_error w VAULT_PATH \<noteq> Some (Broken e n)) \<longrightarrow>
             files (snd (saveDirect E d w)) = files w))"
  by (auto simp: saveDirect_def seal_def randombytes_def writeFileSync_def Let_def
      split: option.splits sum.splits write_failure.splits)

lemma saveDirect_console: "console (snd (saveDirect E d w)) = console w"
  by (auto simp: saveDirect_def seal_def randombytes_def writeFileSync_def Let_def
      split: option.splits sum.splits write_failure.splits prod.splits)

lemma import_combined_files:
  "files (import_combined E d v w) =
     (case importData E (toISOString E (ticks w)) d (db w) of
        Inl e \<Rightarrow> files w
      | Inr dbo \<Rightarrow> files (snd (saveDirect E v (w\<lparr>db := dbo\<rparr>))))"
  by (auto simp: import_combined_def import_failed_def split: sum.splits prod.splits reply.splits)

lemma import_combined_console:
  "console (import_combined E d v w) =
     (case importData E (toISOString E (ticks w)) d (db w) of
        Inl e \<Rightarrow> console w @ [''Import failed: '' @ err_message e]
      | Inr dbo \<Rightarrow>
          (case fst (saveDirect E v (w\<lparr>db := dbo\<rparr>)) of
             Success u \<Rightarrow> console w @ [''Vault data merged from sync.'', ''Data imported from sync file.'']
           | Failure err \<Rightarrow>
               console w @ [''Vault import warning: '' @ err, ''Data imported from sync file.'']))"
proof (cases "importData E (toISOString E (ticks w)) d (db w)")
  case (Inl e)
  then show ?thesis
    by (simp add: import_combined_def import_failed_def log_def)
next
  case (Inr dbo)
  obtain r w1 where sd: "saveDirect E v (w\<lparr>db := dbo\<rparr>) = (r, w1)"
    by (cases "saveDirect E v (w\<lparr>db := dbo\<rparr>)")
  from saveDirect_console [of E v "w\<lparr>db := dbo\<rparr>"] sd have "console w1 = console w"
    by simp
  with Inr sd show ?thesis
    by (simp add: import_combined_def log_def split: reply.splits)
qed

text \<open>
  Claim C3, as the code has it. When the payload file decrypts to the combined format,
  the record store is imported first, in one transaction: if it throws, neither the
  record store nor any file changes, and the failure is logged as \<^verbatim>\<open>Import failed\<close>. Only
  after the record store has committed is the vault document written. If that write
  succeeds, the vault file holds the payload's vault document sealed under the current
  key. If it fails, the record store keeps the imported data all the same, the failure
  is logged as \<^verbatim>\<open>Vault import warning\<close>, no file but the vault file can have changed, and
  the vault file is as it was unless the write broke off after the file was opened.
\<close>

theorem import_store_then_vault:
  assumes dp: "decrypted_payload E cx w = Some data"
    and c: "combined data"
    and dbp: "get_prop data ''db'' = Some dbPart"
    and vp: "get_prop data ''vault'' = Some vaultPart"
  shows "(case importData E (toISOString E (ticks w)) dbPart (db w) of
            Inl e \<Rightarrow>
              db (import_step E cx w) = db w \<and> files (import_step E cx w) = files w
              \<and> console (import_step E cx w) = console w @ [''Import failed: '' @ err_message e]
          | Inr dbo \<Rightarrow>
              db (import_step E cx w) = dbo
              \<and> (case fst (saveDirect E vaultPart (w\<lparr>db := dbo\<rparr>)) of
                   Success u \<Rightarrow>
                     (\<exists>key c. masterKey w = Some key
                        \<and> crypto_secretbox_easy E (JSON_stringify E vaultPart)
                              (randombytes_buf E (ticks w) 24) key = Inr c
                        \<and> files (import_step E cx w)
                            = (files w)(VAULT_PATH \<mapsto>
                                 JSON_stringify E (envelope (randombytes_buf E (ticks w) 24) c)))
                     \<and> console (import_step E cx w)
                         = console w @ [''Vault data merged from sync.'',
                                        ''Data imported from sync file.'']
                 | Failure err \<Rightarrow>
                     console (import_step E cx w)
                       = console w @ [''Vault import warning: '' @ err,
                                      ''Data imported from sync file.'']
                     \<and> (\<forall>p. p \<noteq> VAULT_PATH \<longrightarrow> files (import_step E cx w) p = files w p)
                     \<and> ((\<forall>e n. write_error w VAULT_PATH \<noteq> Some (Broken e n)) \<longrightarrow>
                          files (import_step E cx w) = files w)))"
proof -
  from c have nn: "data \<noteq> JNull"
    by (auto simp: combined_def)
  have s: "import_step E cx w = import_combined E dbPart vaultPart w"
    using nn c dbp vp by (simp add: import_step_some [OF dp])
  show ?thesis
  proof (cases "importData E (toISOString E (ticks w)) dbPart (db w)")
    case (Inl e)
    then show ?thesis
      by (simp add: s import_combined_db import_combined_files import_combined_console)
  next
    case (Inr dbo)
    from saveDirect_outcome [where E = E and d = vaultPart and w = "w\<lparr>db := dbo\<rparr>"] Inr show ?thesis
      by (simp add: s import_combined_db import_combined_files import_combined_console
          split: reply.splits)
  qed
qed

lemma world8_facts:
  "masterKey world8 = Some (key_of ''old'')" "ticks world8 = 0" "db world8 = Some local_db"
  "write_error world8 = Map.empty"
  "files world8 = [VAULT_PATH \<mapsto> demo_stringify (sealed nonce0 (key_of ''old'') doc0)]"
  "(case sync_dir world8 of None \<Rightarrow> None | Some c \<Rightarrow> worktree c ENC_DB_FILE)
     = Some (demo_stringify (sealed nonce0 (key_of ''old'') payload8))"
  by (simp_all add: world8_def world0_def)

lemma world9_facts:
  "masterKey world9 = Some (key_of ''old'')" "ticks world9 = 0" "db world9 = Some local_db"
  "write_error world9 VAULT_PATH = Some (Refused eacces)"
  "files world9 = [VAULT_PATH \<mapsto> demo_stringify (sealed nonce0 (key_of ''old'') doc0)]"
  "(case sync_dir world9 of None \<Rightarrow> None | Some c \<Rightarrow> worktree c ENC_DB_FILE)
     = Some (demo_stringify (sealed nonce0 (key_of ''old'') payload8))"
  by (simp_all add: world9_def world8_def world0_def)

text \<open>
  Both writes go through in the first state; in the second the vault file cannot be
  opened for writing.
\<close>

theorem import_store_then_vault_witness:
  "db (import_step demo_env cx0 world8) = Some merged_db
   \<and> files (import_step demo_env cx0 world8)
       = (files world8)(VAULT_PATH \<mapsto> demo_stringify (sealed (replicate 24 0) (key_of ''old'') doc_remote))
   \<and> console (import_step demo_env cx0 world8)
       = console world8 @ [''Vault data merged from sync.'', ''Data imported from sync file.'']
   \<and> db (import_step demo_env cx0 world9) = Some merged_db
   \<and> files (import_step demo_env cx0 world9) = files world9
   \<and> console (import_step demo_env cx0 world9)
       = console world9 @ [''Vault import warning: Failed to save vault: EACCES: permission denied'',
                           ''Data imported from sync file.'']"
proof -
  have dp: "decrypted_payload demo_env cx0 world8 = Some payload8"
    by (rule decrypted8) (rule world8_facts)+
  have sd: "fst (saveDirect demo_env doc_remote (world8\<lparr>db := Some merged_db\<rparr>)) = Success ()"
    by (simp add: saveDirect_def seal_def randombytes_def writeFileSync_def world8_facts)
  have dp9: "decrypted_payload demo_env cx0 world9 = Some payload8"
    by (rule decrypted8) (rule world9_facts)+
  have sd9: "fst (saveDirect demo_env doc_remote (world9\<lparr>db := Some merged_db\<rparr>))
               = Failure ''Failed to save vault: EACCES: permission denied''"
    by (simp add: saveDirect_def seal_def randombytes_def writeFileSync_def world9_facts eacces_def)
  have a: "db (import_step demo_env cx0 world8) = Some merged_db
     \<and> files (import_step demo_env cx0 world8)
         = (files world8)(VAULT_PATH \<mapsto> demo_stringify (sealed (replicate 24 0) (key_of ''old'') doc_remote))
     \<and> console (import_step demo_env cx0 world8)
         = console world8 @ [''Vault data merged from sync.'', ''Data imported from sync file.'']"
    using import_store_then_vault [OF dp combined8(1) combined8(3) combined8(4)] sd
    by (simp add: clock_demo world8_facts import8 merged_db_def sealed_def)
  have b: "db (import_step demo_env cx0 world9) = Some merged_db
     \<and> files (import_step demo_env cx0 world9) = files world9
     \<and> console (import_step demo_env cx0 world9)
         = console world9 @ [''Vault import warning: Failed to save vault: EACCES: permission denied'',
                             ''Data imported from sync file.'']"
    using import_store_then_vault [OF dp9 combined8(1) combined8(3) combined8(4)] sd9
    by (simp add: clock_demo world9_facts import8 merged_db_def)
  from a b show ?thesis
    by simp
qed

text \<open>
  The vault file cannot be written: the record store has received the payload's
  \<open>db\<close>, the vault file still holds the local document and not the payload's \<open>vault\<close>.
\<close>

theorem import_not_transactional:
  "decrypted_payload demo_env cx0 world9 = Some payload8
   \<and> get_prop payload8 ''db'' = Some db_remote
   \<and> get_prop payload8 ''vault'' = Some doc_remote
   \<and> db world9 = Some local_db
   \<and> db (import_step demo_env cx0 world9) = Some merged_db
   \<and> merged_db \<noteq> local_db
   \<and> decryptVault demo_env world9 = Success doc0
   \<and> files (import_step demo_env cx0 world9) = files world9
   \<and> decryptVault demo_env (import_step demo_env cx0 world9) = Success doc0
   \<and> doc0 \<noteq> doc_remote"
proof -
  have dp: "decrypted_payload demo_env cx0 world9 = Some payload8"
    by (rule decrypted8) (rule world9_facts)+
  have s: "import_step demo_env cx0 world9 = import_combined demo_env db_remote doc_remote world9"
    using combined8 by (simp add: import_step_some [OF dp])
  have sd: "saveDirect demo_env doc_remote (world9\<lparr>db := Some merged_db\<rparr>)
              = (Failure ''Failed to save vault: EACCES: permission denied'',
                 world9\<lparr>db := Some merged_db, ticks := 1\<rparr>)"
    by (simp add: saveDirect_def seal_def randombytes_def writeFileSync_def world9_facts eacces_def)
  have d: "db (import_step demo_env cx0 world9) = Some merged_db"
    by (simp add: s import_combined_db clock_demo world9_facts import8 merged_db_def)
  have f: "files (import_step demo_env cx0 world9) = files world9"
    by (simp add: s import_combined_files clock_demo world9_facts import8 merged_db_def [symmetric] sd)
  have m: "masterKey (import_step demo_env cx0 world9) = Some (key_of ''old'')"
    using lock_import_step [of world9 demo_env cx0] by (simp add: keeps_lock_def world9_facts)
  have n0: "nonce0 \<noteq> []"
    by (simp add: nonce0_def)
  have v0: "decryptVault demo_env world9 = Success doc0"
    by (simp add: demo_decryptVault [where key' = "key_of ''old''" and n = nonce0 and doc = doc0]
        world9_facts n0 parse_doc0)
  have v1: "decryptVault demo_env (import_step demo_env cx0 world9) = Success doc0"
    by (simp add: demo_decryptVault [where key' = "key_of ''old''" and n = nonce0 and doc = doc0]
        m f world9_facts n0 parse_doc0)
  have ne: "merged_db \<noteq> local_db" "doc0 \<noteq> doc_remote"
    by (simp_all add: merged_db_def local_db_def empty_db_def doc0_def doc_remote_def)
  from dp combined8 d f v0 v1 ne show ?thesis
    by (simp add: world9_facts)
qed

section \<open>What is pushed\<close>

lemma same_tree_refl [simp]: "same_tree w w"
  by (simp add: same_tree_def)

lemma same_tree_trans: "same_tree w w1 \<Longrightarrow> same_tree w1 w2 \<Longrightarrow> same_tree w w2"
  by (simp add: same_tree_def)

lemma same_tree_log [simp]: "same_tree w (log m w)"
  by (simp add: same_tree_def tree_file_def fun_eq_iff)

lemma same_tree_set_git [simp]: "same_tree w (set_git g w)"
  by (auto simp: same_tree_def tree_file_def set_git_def has_dotgit_def the_git_def fun_eq_iff
      split: option.splits)

lemma same_tree_lib: "lib E n c w = (r, w') \<Longrightarrow> same_tree w w'"
  by (auto simp: lib_def same_tree_def tree_file_def has_dotgit_def the_git_def fun_eq_iff)

lemma same_tree_lib_auth: "lib_auth E cx n c w = (r, w') \<Longrightarrow> same_tree w w'"
  by (auto simp: lib_auth_def split: option.splits dest: same_tree_lib)

lemma same_tree_addRemote: "addRemote E u w = (r, w') \<Longrightarrow> same_tree w w'"
  by (auto simp: addRemote_def split: prod.splits option.splits if_splits
      dest!: same_tree_lib intro: same_tree_trans [OF _ same_tree_set_git])

lemma same_tree_deleteRemote: "deleteRemote E w = (r, w') \<Longrightarrow> same_tree w w'"
  by (auto simp: deleteRemote_def split: prod.splits option.splits if_splits
      dest!: same_tree_lib intro: same_tree_trans [OF _ same_tree_set_git])

lemma same_tree_remote_config: "same_tree w (remote_config E cx w)"
proof -
  have "same_tree w2 (snd (addRemote E u w2))" for u w2
    by (rule same_tree_addRemote [OF surjective_pairing])
  then show ?thesis
    by (auto simp: remote_config_def split: prod.splits option.splits
        dest!: same_tree_addRemote same_tree_deleteRemote intro: same_tree_trans)
qed

lemma same_tree_remote_check: "remote_check E cx w = (r, w') \<Longrightarrow> same_tree w w'"
  by (auto simp: remote_check_def Let_def split: prod.splits option.splits
      dest!: same_tree_lib_auth intro: same_tree_trans [OF _ same_tree_log])

lemma same_tree_import_step: "same_tree w (import_step E cx w)"
  using lock_import_step [of w E cx]
  by (simp add: keeps_lock_def same_tree_def tree_file_def has_dotgit_def the_git_def fun_eq_iff)

lemma pull_step_tree:
  "has_dotgit w \<Longrightarrow> has_dotgit (pull_step E cx rhd w)"
  "\<forall>t. git_fetched E t f = None \<Longrightarrow> tree_file (pull_step E cx rhd w) f = tree_file w f"
  by (auto simp: pull_step_def Let_def lib_auth_def lib_def has_dotgit_def the_git_def tree_file_def
      log_def map_add_def split: prod.splits option.splits)

lemma log_tree [simp]: "tree_file (log m w) = tree_file w" "main_tree (log m w) = main_tree w"
  by (simp_all add: tree_file_def main_tree_def fun_eq_iff)

lemma write_payload_tree:
  assumes "write_payload E w = (None, w')"
  shows "(has_dotgit w \<longrightarrow> has_dotgit w') \<and> (\<forall>f. f \<noteq> ENC_DB_FILE \<longrightarrow> tree_file w' f = tree_file w f)"
  using assms
  by (auto simp: write_payload_def Let_def encryptData_def seal_def randombytes_def
      write_sync_file_def put_sync_file_def has_dotgit_def the_git_def tree_file_def
      split: prod.splits option.splits sum.splits reply.splits write_failure.splits)

lemma git_add_tree:
  assumes "git_add E w = (None, w')"
  shows "\<exists>g. the_git w' = Some g \<and> git_index g = tree_file w \<and> tree_file w' = tree_file w"
  using assms
  by (auto simp: git_add_def lib_def set_git_def the_git_def tree_file_def fun_eq_iff
      split: prod.splits option.splits)

lemma resolveRef_git: "resolveRef E w = (r, w') \<Longrightarrow> the_git w' = the_git w \<and> tree_file w' = tree_file w"
  by (auto simp: resolveRef_def lib_def the_git_def tree_file_def fun_eq_iff
      split: prod.splits option.splits)

lemma git_commit_tree:
  assumes "git_commit E m w = (None, w')" and "the_git w = Some g"
  shows "main_tree w' = Some (git_index g) \<and> tree_file w' = tree_file w"
  using assms
  by (auto simp: git_commit_def lib_def set_git_def the_git_def main_tree_def tree_file_def fun_eq_iff
      split: prod.splits option.splits)

lemma git_commit_throws:
  "git_throws E (ticks w) ''commit'' = None \<Longrightarrow> git_commit E m w = (Some e, w') \<Longrightarrow> e = no_repository"
  by (auto simp: git_commit_def lib_def split: prod.splits option.splits)

lemma commit_step_tree:
  assumes ok: "commit_step E cx w = (None, w')"
    and commit: "\<forall>t. git_throws E t ''commit'' = None"
  shows "main_tree w' = Some (tree_file w)"
proof -
  obtain w1 where a: "git_add E (log ''Git Add...'' w) = (None, w1)"
    using ok by (auto simp: commit_step_def split: prod.splits option.splits)
  from git_add_tree [OF a] obtain g where
    g: "the_git w1 = Some g" "git_index g = tree_file w"
    by auto
  obtain h w2 where r: "resolveRef E (log ''Git Commit...'' w1) = (h, w2)"
    by (cases "resolveRef E (log ''Git Commit...'' w1)")
  from resolveRef_git [OF r] g have g2: "the_git w2 = Some g"
    by simp
  obtain rc w3 where c: "git_commit E (commit_message E cx w2) w2 = (rc, w3)"
    by (cases "git_commit E (commit_message E cx w2) w2")
  have "rc = None"
  proof (cases rc)
    case None
    then show ?thesis .
  next
    case (Some e)
    with c commit git_commit_throws [of E w2 _ e w3] have "e = no_repository"
      by simp
    with Some c g2 commit show ?thesis
      by (auto simp: git_commit_def lib_def the_git_def split: prod.splits option.splits)
  qed
  with c git_commit_tree [of E _ w2 w3 g] g2 g have m3: "main_tree w3 = Some (tree_file w)"
    by simp
  from ok a r c \<open>rc = None\<close> have "w' = log ''Commit created: '' w3"
    by (simp add: commit_step_def)
  with m3 show ?thesis
    by simp
qed

lemma writeRef_main: "writeRef E w = (None, w') \<Longrightarrow> main_tree w' = main_tree w"
  by (auto simp: writeRef_def lib_def set_git_def the_git_def main_tree_def
      split: prod.splits option.splits)

lemma git_push_received:
  "git_push E cx force w = (None, w') \<Longrightarrow>
     \<exists>t. main_tree w = Some t \<and> remote_received w' = remote_received w @ [t]"
  by (auto simp: git_push_def Let_def lib_auth_def lib_def main_tree_def
      split: prod.splits option.splits)

lemma push_step_received:
  assumes "push_step E cx rhd w = (None, w')"
  shows "\<exists>t. main_tree w = Some t \<and> remote_received w' = remote_received w @ [t]"
proof -
  from assms obtain w1 w2 where
    a: "writeRef E w = (None, w1)" and
    b: "git_push E cx (mode cx = ''push'' \<or> \<not> rhd) (log ''Git Push...'' w1) = (None, w2)" and
    c: "w' = log ''Push successful.'' w2"
    by (auto simp: push_step_def split: prod.splits option.splits)
  from quiet_writeRef [OF a] have "remote_received w1 = remote_received w"
    by (simp add: quiet_def)
  with git_push_received [OF b] writeRef_main [OF a] c show ?thesis
    by simp
qed

lemma commit_push_received:
  assumes ok: "commit_push E cx rhd w = (None, w')"
    and m: "mode cx = ''push'' \<or> mode cx = ''merge''"
    and commit: "\<forall>t. git_throws E t ''commit'' = None"
  shows "\<exists>t. remote_received w' = remote_received w @ [t]
            \<and> (\<forall>f. f \<noteq> ENC_DB_FILE \<longrightarrow> t f = tree_file w f)"
proof -
  from ok m obtain w1 w2 where
    a: "write_payload E (log (''Preparing '' @ mode cx @ '' operation...'') w) = (None, w1)" and
    b: "commit_step E cx w1 = (None, w2)" and
    c: "push_step E cx rhd w2 = (None, w')"
    by (auto simp: commit_push_def split: prod.splits option.splits if_splits)
  from write_payload_tree [OF a]
  have t1: "\<forall>f. f \<noteq> ENC_DB_FILE \<longrightarrow> tree_file w1 f = tree_file w f"
    by simp
  from quiet_write_payload [OF a] have r1: "remote_received w1 = remote_received w"
    by (simp add: quiet_def)
  from quiet_commit_step [OF b] have r2: "remote_received w2 = remote_received w1"
    by (simp add: quiet_def)
  from commit_step_tree [OF b commit] push_step_received [OF c] t1 r1 r2 show ?thesis
    by auto
qed

text \<open>
  Claim C1 fails on the code. \<^verbatim>\<open>git.add\<close> stages the whole working tree, so a file that
  lies beside the payload file is committed and pushed as it is: when the repository
  exists, the credentials cache is in the working tree, the remote carries no file of
  that name, the commit goes through and the attempt succeeds in mode \<^verbatim>\<open>push\<close> or
  \<^verbatim>\<open>merge\<close>, the tree delivered to the remote holds the cache file with its content.
\<close>

theorem cached_credentials_are_pushed:
  assumes git: "has_dotgit w"
    and cache: "tree_file w CREDENTIALS_CACHE = Some secret"
    and m: "mode cx = ''push'' \<or> mode cx = ''merge''"
    and remote: "\<forall>t. git_fetched E t CREDENTIALS_CACHE = None"
    and commit: "\<forall>t. git_throws E t ''commit'' = None"
    and ok: "fst (attempt E cx w) = None"
  shows "\<exists>t. remote_received (snd (attempt E cx w)) = remote_received w @ [t]
            \<and> t CREDENTIALS_CACHE = Some secret"
proof -
  have r1: "repo_init E w = (None, w)"
    using git by (simp add: repo_init_def)
  define w2 where "w2 = remote_config E cx w"
  obtain rhd w3 where rc: "remote_check E cx w2 = (rhd, w3)"
    by (cases "remote_check E cx w2")
  define w4 where "w4 = pull_step E cx rhd w3"
  define w5 where "w5 = import_step E cx w4"
  have a: "attempt E cx w = commit_push E cx rhd w5"
    by (simp add: attempt_def r1 Let_def w2_def [symmetric] rc w4_def w5_def)
  have t3: "tree_file w3 = tree_file w"
    using same_tree_remote_config [of w E cx] same_tree_remote_check [OF rc]
    by (simp add: same_tree_def w2_def)
  have t4: "tree_file w4 CREDENTIALS_CACHE = tree_file w3 CREDENTIALS_CACHE"
    unfolding w4_def by (rule pull_step_tree(2) [OF remote])
  have t5: "tree_file w5 = tree_file w4"
    using same_tree_import_step [of w4 E cx] by (simp add: same_tree_def w5_def)
  have q: "remote_received w5 = remote_received w"
  proof -
    have "quiet w w2" "quiet w2 w3" "quiet w4 w5"
      using quiet_remote_config [of w E cx] quiet_remote_check [OF rc] quiet_import_step [of w4 E cx]
      by (simp_all add: w2_def w5_def)
    moreover have "remote_received w4 = remote_received w3"
      by (auto simp: w4_def pull_step_def Let_def lib_auth_def lib_def split: prod.splits option.splits)
    ultimately show ?thesis
      by (simp add: quiet_def)
  qed
  from ok a have "commit_push E cx rhd w5 = (None, snd (attempt E cx w))"
    by (simp add: prod_eq_iff)
  from commit_push_received [OF this m commit] obtain t where
    "remote_received (snd (attempt E cx w)) = remote_received w5 @ [t]"
    "\<forall>f. f \<noteq> ENC_DB_FILE \<longrightarrow> t f = tree_file w5 f"
    by blast
  with q t3 t4 t5 cache show ?thesis
    by auto
qed

lemma write_payload_ok:
  assumes "masterKey w = Some key" and "has_dotgit w"
    and "write_error w ''sync-repo/zenmius_db.enc'' = None"
    and "exportData E (db w) = Inr x"
    and "\<forall>m n. \<exists>c. crypto_secretbox_easy E m n key = Inr c"
  shows "fst (write_payload E w) = None"
proof -
  obtain c where "sync_dir w = Some c"
    using assms(2) by (auto simp: has_dotgit_def the_git_def split: option.splits)
  moreover obtain ct where
    "crypto_secretbox_easy E
       (JSON_stringify E (JObj [(''db'', x),
          (''vault'', case loadDirect E w of Success d \<Rightarrow> d | Failure err \<Rightarrow> JObj [])]))
       (randombytes_buf E (ticks w) 24) key = Inr ct"
    using assms(5) by blast
  ultimately show ?thesis
    using assms(1,3,4)
    by (simp add: write_payload_def encryptData_def seal_def randombytes_def write_sync_file_def
        put_sync_file_def Let_def)
qed

lemma commit_step_ok:
  assumes "has_dotgit w" and "push_calls_succeed E"
  shows "fst (commit_step E cx w) = None"
  using assms
  by (auto simp: commit_step_def git_add_def resolveRef_def git_commit_def lib_def has_dotgit_def
      the_git_def set_git_def log_def Let_def push_calls_succeed_def
      split: option.splits prod.splits)

lemma push_step_ok:
  assumes "main_tree w \<noteq> None" and "push_calls_succeed E" and "token cx \<noteq> None"
  shows "fst (push_step E cx rhd w) = None"
  using assms
  by (auto simp: push_step_def writeRef_def git_push_def lib_auth_def lib_def main_tree_def
      the_git_def set_git_def log_def Let_def push_calls_succeed_def
      split: option.splits prod.splits)

lemma commit_push_ok:
  assumes key: "masterKey w = Some key" and git: "has_dotgit w"
    and wr: "write_error w ''sync-repo/zenmius_db.enc'' = None"
    and ex: "exportData E (db w) = Inr x"
    and seal: "\<forall>m n. \<exists>c. crypto_secretbox_easy E m n key = Inr c"
    and lib: "push_calls_succeed E"
    and tok: "token cx \<noteq> None"
  shows "fst (commit_push E cx rhd w) = None"
proof (cases "mode cx = ''push'' \<or> mode cx = ''merge''")
  case False
  then show ?thesis
    by (simp add: commit_push_def)
next
  case True
  define w0 where "w0 = log (''Preparing '' @ mode cx @ '' operation...'') w"
  have "fst (write_payload E w0) = None"
    using key git wr ex seal by (intro write_payload_ok [where key = key and x = x]) (simp_all add: w0_def)
  then obtain w1 where a: "write_payload E w0 = (None, w1)"
    by (cases "write_payload E w0") simp
  from write_payload_tree [OF a] git have g1: "has_dotgit w1"
    by (simp add: w0_def)
  from commit_step_ok [OF g1 lib, of cx] obtain w2 where b: "commit_step E cx w1 = (None, w2)"
    by (cases "commit_step E cx w1") simp
  from commit_step_tree [OF b] lib have "main_tree w2 \<noteq> None"
    by (simp add: push_calls_succeed_def)
  from push_step_ok [OF this lib tok] have "fst (push_step E cx rhd w2) = None" .
  with True a b show ?thesis
    by (simp add: commit_push_def w0_def)
qed

lemma import_step_absent:
  "tree_file w ENC_DB_FILE = None \<Longrightarrow> import_step E cx w = w"
  by (simp add: import_step_def tree_file_def)

lemma attempt_ok:
  assumes key: "masterKey w = Some key" and git: "has_dotgit w"
    and wr: "write_error w ''sync-repo/zenmius_db.enc'' = None"
    and ex: "exportData E (db w) = Inr x"
    and seal: "\<forall>m n. \<exists>c. crypto_secretbox_easy E m n key = Inr c"
    and lib: "\<forall>t n. git_throws E t n = None"
    and tok: "token cx \<noteq> None"
    and none: "tree_file w ENC_DB_FILE = None" "\<forall>t. git_fetched E t ENC_DB_FILE = None"
  shows "fst (attempt E cx w) = None"
proof -
  have r1: "repo_init E w = (None, w)"
    using git by (simp add: repo_init_def)
  define w2 where "w2 = remote_config E cx w"
  obtain rhd w3 where rc: "remote_check E cx w2 = (rhd, w3)"
    by (cases "remote_check E cx w2")
  define w4 where "w4 = pull_step E cx rhd w3"
  have s3: "same_tree w w3"
    using same_tree_remote_config [of w E cx] same_tree_remote_check [OF rc]
    by (auto simp: w2_def intro: same_tree_trans)
  have t4: "tree_file w4 ENC_DB_FILE = None"
    using pull_step_tree(2) [OF none(2), of cx rhd w3] s3 none(1) by (simp add: w4_def same_tree_def)
  have g4: "has_dotgit w4"
    using s3 git pull_step_tree(1) [of w3 E cx rhd] by (simp add: w4_def same_tree_def)
  have k: "keeps w w4"
    using keeps_remote_config [of w E cx] keeps_remote_check [OF rc] keeps_pull_step [of w3 E cx rhd]
    by (simp add: keeps_def w2_def w4_def)
  have a: "attempt E cx w = commit_push E cx rhd w4"
    by (simp add: attempt_def r1 Let_def w2_def [symmetric] rc w4_def [symmetric]
        import_step_absent [OF t4])
  from k key wr ex have "masterKey w4 = Some key"
    "write_error w4 ''sync-repo/zenmius_db.enc'' = None" "exportData E (db w4) = Inr x"
    by (simp_all add: keeps_def)
  moreover from lib have "push_calls_succeed E"
    by (simp add: push_calls_succeed_def)
  ultimately show ?thesis
    using commit_push_ok [OF _ g4 _ _ seal _ tok, of x rhd] a by simp
qed

lemma trim_url: "trim ''https://example.com/me/vault.git'' = ''https://example.com/me/vault.git''"
  by (simp add: trim_def is_space_def)

lemma cloned_eq:
  "cloned =
     world0\<lparr>ticks := 1, calls := [Clone ''https://example.com/me/vault.git''],
            sync_dir := Some \<lparr> worktree = [CREDENTIALS_CACHE \<mapsto>
                                   credentials_cache demo_env ''https://example.com/me/vault.git''
                                     ''ghp_secret'' None],
                                dotgit = Some \<lparr> git_HEAD = ''ref: refs/heads/main'',
                                                git_origin = Some ''https://example.com/me/vault.git'',
                                                git_index = Map.empty,
                                                git_main = Some Map.empty \<rparr> \<rparr>\<rparr>"
  by (simp add: cloned_def git_clone_def lib_def write_sync_file_def put_sync_file_def world0_def
      trim_url Let_def)

lemma clone_ok:
  "fst (git_clone demo_env ''https://example.com/me/vault.git'' ''ghp_secret'' None world0) = Success ()"
  by (simp add: git_clone_def lib_def write_sync_file_def put_sync_file_def world0_def trim_url
      Let_def)

lemma cache_text:
  "credentials_cache demo_env ''https://example.com/me/vault.git'' ''ghp_secret'' None
     = ''{'' @ quote ''url'' @ '':'' @ quote ''https://example.com/me/vault.git'' @ '',''
         @ quote ''token'' @ '':'' @ quote ''ghp_secret'' @ ''}''"
  by (simp add: credentials_cache_def quote_def)

lemma cache_parse:
  "demo_parse (credentials_cache demo_env ''https://example.com/me/vault.git'' ''ghp_secret'' None)
     = Inr (JObj [(''url'', JStr ''https://example.com/me/vault.git''), (''token'', JStr ''ghp_secret'')])"
  by code_simp

text \<open>
  \<^verbatim>\<open>git:clone\<close> with a token, then \<^verbatim>\<open>git:sync\<close> without arguments: the sync succeeds and
  the remote receives the token in plain text.
\<close>

theorem cached_credentials_are_pushed_witness:
  "fst (git_clone demo_env ''https://example.com/me/vault.git'' ''ghp_secret'' None world0) = Success ()
   \<and> fst (git_sync demo_env no_args cloned) = Inr (Success ())
   \<and> (\<exists>t. remote_received (snd (git_sync demo_env no_args cloned)) = [t]
          \<and> t CREDENTIALS_CACHE
              = Some (''{'' @ quote ''url'' @ '':'' @ quote ''https://example.com/me/vault.git'' @ '',''
                      @ quote ''token'' @ '':'' @ quote ''ghp_secret'' @ ''}''))"
proof -
  have facts: "masterKey cloned = Some (key_of ''old'')" "has_dotgit cloned"
    "write_error cloned ''sync-repo/zenmius_db.enc'' = None"
    "tree_file cloned ENC_DB_FILE = None" "remote_received cloned = []"
    "tree_file cloned CREDENTIALS_CACHE
       = Some (credentials_cache demo_env ''https://example.com/me/vault.git'' ''ghp_secret'' None)"
    "db cloned = Some empty_db" "\<not> status cloned"
    by (simp_all add: cloned_eq world0_def has_dotgit_def the_git_def tree_file_def status_def)
  have ex: "exportData demo_env (db cloned)
              = Inr (JObj [(''hosts'', JArr []), (''snippets'', JArr []), (''settings'', JNull),
                           (''remoteConnections'', JArr [])])"
    by (simp add: facts exportData_def empty_db_def)
  have cred: "resolve_credentials demo_env no_args cloned
                = Some (Some ''ghp_secret'', Some ''https://example.com/me/vault.git'', None)"
    using facts(6)
    by (simp add: resolve_credentials_def no_args_def falsy_str_def tree_file_def cache_parse
        or_cache_def inherited_def object_prototype_def object_members_def split: option.splits)
  have cx: "\<lparr> token = Some ''ghp_secret'', safeUrl = trim ''https://example.com/me/vault.git'',
              username = None, mode = ''merge'', commitMessage = None \<rparr> = cx0"
    by (simp add: cx0_def trim_url)
  have ok: "fst (attempt demo_env cx0 cloned) = None"
    by (rule attempt_ok [OF facts(1) facts(2) facts(3) ex _ _ _ facts(4)]) (simp_all add: cx0_def)
  have m: "mode cx0 = ''push'' \<or> mode cx0 = ''merge''"
    by (simp add: cx0_def)
  have r: "\<forall>t. git_fetched demo_env t CREDENTIALS_CACHE = None"
    and c: "\<forall>t. git_throws demo_env t ''commit'' = None"
    by simp_all
  from cached_credentials_are_pushed [OF facts(2) facts(6) m r c ok] obtain t where
    t: "remote_received (snd (attempt demo_env cx0 cloned)) = remote_received cloned @ [t]"
      "t CREDENTIALS_CACHE
         = Some (credentials_cache demo_env ''https://example.com/me/vault.git'' ''ghp_secret'' None)"
    by blast
  obtain w' where a: "attempt demo_env cx0 cloned = (None, w')"
    using ok by (cases "attempt demo_env cx0 cloned") simp
  have args: "arg_mode no_args = None" "arg_commitMessage no_args = None"
    by (simp_all add: no_args_def)
  have s: "git_sync demo_env no_args cloned = (Inr (Success ()), w')"
    using facts(8) by (simp add: git_sync_def cred args cx runSync_True a)
  from t a s clone_ok show ?thesis
    by (simp add: facts cache_text)
qed

section \<open>The state at the import step\<close>

lemma repo_init_dotgit: "repo_init E w = (None, w1) \<Longrightarrow> has_dotgit w1"
  by (auto simp: repo_init_def Let_def lib_def has_dotgit_def the_git_def set_git_def log_def
      split: if_splits prod.splits option.splits write_failure.splits)

lemma attempt_import_point:
  assumes "fst (repo_init E w) = None"
  shows "attempt E cx w
           = commit_push E cx (fst (remote_check E cx (remote_config E cx (snd (repo_init E w)))))
               (import_step E cx (import_point E cx w))"
proof -
  obtain w1 where r: "repo_init E w = (None, w1)"
    using assms by (cases "repo_init E w") simp
  obtain rhd w3 where c: "remote_check E cx (remote_config E cx w1) = (rhd, w3)"
    by (cases "remote_check E cx (remote_config E cx w1)")
  show ?thesis
    by (simp add: attempt_def import_point_def r c Let_def)
qed

lemma attempt_init_throws_db:
  assumes "fst (repo_init E w) = Some e"
  shows "db (snd (attempt E cx w)) = db w"
proof -
  obtain w1 where r: "repo_init E w = (Some e, w1)"
    using assms by (cases "repo_init E w") simp
  from keeps_repo_init [OF r] r show ?thesis
    by (simp add: attempt_def keeps_def)
qed

lemma keeps_import_point: "keeps w (import_point E cx w)"
proof -
  obtain r1 w1 where r: "repo_init E w = (r1, w1)"
    by (cases "repo_init E w")
  obtain rhd w3 where c: "remote_check E cx (remote_config E cx w1) = (rhd, w3)"
    by (cases "remote_check E cx (remote_config E cx w1)")
  from keeps_repo_init [OF r] keeps_remote_config [of w1 E cx] keeps_remote_check [OF c]
    keeps_pull_step [of w3 E cx rhd]
  show ?thesis
    by (simp add: import_point_def r c keeps_def)
qed

lemma import_point_dotgit:
  assumes "fst (repo_init E w) = None"
  shows "has_dotgit (import_point E cx w)"
proof -
  obtain w1 where r: "repo_init E w = (None, w1)"
    using assms by (cases "repo_init E w") simp
  obtain rhd w3 where c: "remote_check E cx (remote_config E cx w1) = (rhd, w3)"
    by (cases "remote_check E cx (remote_config E cx w1)")
  from repo_init_dotgit [OF r] same_tree_remote_config [of w1 E cx] same_tree_remote_check [OF c]
  have "has_dotgit w3"
    by (simp add: same_tree_def)
  then show ?thesis
    by (simp add: import_point_def r c pull_step_tree(1))
qed

lemma attempt_db_import:
  assumes "fst (repo_init E w) = None"
  shows "db (snd (attempt E cx w)) = db (import_step E cx (import_point E cx w))"
  using keeps_commit_push [OF surjective_pairing, where E = E and cx = cx
      and rhd = "fst (remote_check E cx (remote_config E cx (snd (repo_init E w))))"
      and w = "import_step E cx (import_point E cx w)"]
  by (simp add: attempt_import_point [OF assms] keeps_def)

lemma runSync_False_db: "db (snd (runSync False E cx w)) = db (snd (attempt E cx w))"
  by (simp add: runSync_False split: prod.splits option.splits)

lemma runSync_True_db:
  "fst (attempt E cx w) = None \<Longrightarrow> db (snd (runSync True E cx w)) = db (snd (attempt E cx w))"
  "fst (attempt E cx w) = Some e \<Longrightarrow> \<not> corruption_signature e \<Longrightarrow>
     db (snd (runSync True E cx w)) = db (snd (attempt E cx w))"
  "fst (attempt E cx w) = Some e \<Longrightarrow> corruption_signature e \<Longrightarrow>
     db (snd (runSync True E cx w)) = db (snd (attempt E cx (wiped e (snd (attempt E cx w)))))"
  "db (wiped e w1) = db w1"
  by (auto simp: runSync_True runSync_False_db wiped_def Let_def split: prod.splits option.splits)

lemma import_point_tree:
  assumes git: "has_dotgit w" and none: "\<forall>t. git_fetched E t f = None"
  shows "tree_file (import_point E cx w) f = tree_file w f"
proof -
  have r: "repo_init E w = (None, w)"
    using git by (simp add: repo_init_def)
  obtain rhd w3 where c: "remote_check E cx (remote_config E cx w) = (rhd, w3)"
    by (cases "remote_check E cx (remote_config E cx w)")
  from same_tree_remote_config [of w E cx] same_tree_remote_check [OF c]
  have "tree_file w3 = tree_file w"
    by (simp add: same_tree_def)
  with pull_step_tree(2) [OF none, of cx rhd w3] show ?thesis
    by (simp add: import_point_def r c)
qed

lemma attempt_succeeds:
  assumes init: "fst (repo_init E w) = None"
    and key: "masterKey w = Some key"
    and tok: "token cx \<noteq> None"
    and wr: "write_error w ''sync-repo/zenmius_db.enc'' = None"
    and ex: "exportData E (db (import_step E cx (import_point E cx w))) = Inr x"
    and seal: "\<forall>m n. \<exists>c. crypto_secretbox_easy E m n key = Inr c"
    and lib: "push_calls_succeed E"
  shows "fst (attempt E cx w) = None"
proof -
  define w5 where "w5 = import_step E cx (import_point E cx w)"
  have k: "keeps w (import_point E cx w)"
    by (rule keeps_import_point)
  have l: "keeps_lock (import_point E cx w) w5"
    unfolding w5_def by (rule lock_import_step)
  have g: "has_dotgit w5"
    using import_point_dotgit [OF init, of cx] l
    by (simp add: keeps_lock_def has_dotgit_def the_git_def)
  have m: "masterKey w5 = Some key" "write_error w5 ''sync-repo/zenmius_db.enc'' = None"
    using k l key wr by (simp_all add: keeps_def keeps_lock_def)
  from commit_push_ok [OF m(1) g m(2) _ seal lib tok, of x] ex
  have "fst (commit_push E cx rhd w5) = None" for rhd
    by (simp add: w5_def)
  then show ?thesis
    by (simp add: attempt_import_point [OF init] w5_def)
qed

section \<open>The probe of the remote\<close>

text \<open>
  Claim C9. When the repository step does not throw and \<^verbatim>\<open>listServerRefs\<close> throws, the
  remote check does not fail: it yields \<^verbatim>\<open>remoteHasData = false\<close> and the attempt goes on
  with the import step, at the state that the remote check left (no pull is made), and
  then with the commit and the push called with \<^verbatim>\<open>remoteHasData = false\<close>. In mode
  \<^verbatim>\<open>merge\<close> the only transfer the attempt can make is one push with \<^verbatim>\<open>force = true\<close>: an
  attempt that succeeds has made that push and delivered its tree to the remote, and an
  attempt that fails has transferred nothing or has failed in the forced push. The
  attempt does succeed, and so the forced push is made, whenever the vault is unlocked,
  a token is given, the payload file can be written, the export and the secret box do
  not throw and no library call of the commit and the push throws.
\<close>

theorem failed_probe_forces_push:
  assumes init: "fst (repo_init E w) = None"
    and probe: "fst (lib_auth E cx ''listServerRefs'' (ListServerRefs (safeUrl cx))
                      (remote_config E cx (snd (repo_init E w)))) = Some e"
    and merge: "mode cx = ''merge''"
  shows "\<not> fst (remote_check E cx (remote_config E cx (snd (repo_init E w))))
       \<and> pushed True w (fst (attempt E cx w)) (snd (attempt E cx w))
       \<and> attempt E cx w = commit_push E cx False (import_step E cx (import_point E cx w))
       \<and> (fst (attempt E cx w) = None \<longrightarrow>
            (\<exists>t. transfers (snd (attempt E cx w)) = transfers w @ [Push True (Some t)]
                 \<and> remote_received (snd (attempt E cx w)) = remote_received w @ [t]))
       \<and> (\<forall>key x. masterKey w = Some key \<longrightarrow> token cx \<noteq> None \<longrightarrow>
            write_error w ''sync-repo/zenmius_db.enc'' = None \<longrightarrow>
            exportData E (db (import_step E cx (import_point E cx w))) = Inr x \<longrightarrow>
            (\<forall>m n. \<exists>c. crypto_secretbox_easy E m n key = Inr c) \<longrightarrow>
            push_calls_succeed E \<longrightarrow>
            fst (attempt E cx w) = None)"
proof -
  define w1 where "w1 = snd (repo_init E w)"
  define w2 where "w2 = remote_config E cx w1"
  define w3 where "w3 = snd (remote_check E cx w2)"
  define w5 where "w5 = import_step E cx w3"
  have r1: "repo_init E w = (None, w1)"
    using init by (simp add: w1_def prod_eq_iff)
  have c: "remote_check E cx w2 = (False, w3)"
    using probe
    by (auto simp: remote_check_def w3_def w2_def w1_def split: prod.splits option.splits)
  have p: "import_point E cx w = w3"
    by (simp add: import_point_def w1_def [symmetric] w2_def [symmetric] c pull_step_def)
  have a: "attempt E cx w = commit_push E cx False w5"
    by (simp add: attempt_def r1 Let_def w2_def [symmetric] c pull_step_def w5_def)
  have q: "quiet w w5"
    using quiet_repo_init [OF r1] quiet_remote_config [of w1 E cx]
      quiet_remote_check [OF c] quiet_import_step [of w3 E cx]
    by (simp add: quiet_def w2_def w5_def)
  from pushed_commit_push [OF surjective_pairing, where E = E and cx = cx and rhd = False and w = w5]
    merge q
  have "pushed True w (fst (commit_push E cx False w5)) (snd (commit_push E cx False w5))"
    by (auto simp: pushed_def quiet_def)
  with a have pu: "pushed True w (fst (attempt E cx w)) (snd (attempt E cx w))"
    by simp
  then have del: "fst (attempt E cx w) = None \<longrightarrow>
            (\<exists>t. transfers (snd (attempt E cx w)) = transfers w @ [Push True (Some t)]
                 \<and> remote_received (snd (attempt E cx w)) = remote_received w @ [t])"
    by (auto simp: pushed_def)
  have ok: "\<forall>key x. masterKey w = Some key \<longrightarrow> token cx \<noteq> None \<longrightarrow>
            write_error w ''sync-repo/zenmius_db.enc'' = None \<longrightarrow>
            exportData E (db (import_step E cx (import_point E cx w))) = Inr x \<longrightarrow>
            (\<forall>m n. \<exists>c. crypto_secretbox_easy E m n key = Inr c) \<longrightarrow>
            push_calls_succeed E \<longrightarrow>
            fst (attempt E cx w) = None"
    using attempt_succeeds [OF init] by blast
  from c pu a del ok show ?thesis
    by (simp add: w2_def w1_def p w5_def)
qed

lemma offline_facts:
  "git_throws offline_env t ''listServerRefs'' = Some (Error ''HttpError'' ''HTTP Error: 401 Unauthorized'')"
  "push_calls_succeed offline_env"
  "git_fetched offline_env t f = None"
  "crypto_secretbox_easy offline_env m n k = Inr (key_tag k @ str_bytes m)"
  by (simp_all add: offline_env_def push_calls_succeed_def demo_env_def demo_easy_def)

text \<open>
  A remote that answers the probe with \<^verbatim>\<open>401\<close>: the attempt succeeds, and its one
  transfer is a forced push, which the remote receives.
\<close>

theorem failed_probe_forces_push_witness:
  "\<not> fst (remote_check offline_env cx0 (remote_config offline_env cx0 (snd (repo_init offline_env world1))))
   \<and> fst (attempt offline_env cx0 world1) = None
   \<and> (\<exists>t. transfers (snd (attempt offline_env cx0 world1)) = [Push True (Some t)]
        \<and> remote_received (snd (attempt offline_env cx0 world1)) = [t])"
proof -
  have g: "has_dotgit world1"
    by (simp add: has_dotgit_def the_git_def world1_def)
  have i: "fst (repo_init offline_env world1) = None"
    using g by (simp add: repo_init_def)
  have p: "fst (lib_auth offline_env cx0 ''listServerRefs'' (ListServerRefs (safeUrl cx0))
                  (remote_config offline_env cx0 (snd (repo_init offline_env world1))))
             = Some (Error ''HttpError'' ''HTTP Error: 401 Unauthorized'')"
    by (simp add: lib_auth_def lib_def cx0_def offline_facts)
  have m: "mode cx0 = ''merge''"
    by (simp add: cx0_def)
  have w: "masterKey world1 = Some (key_of ''old'')" "token cx0 \<noteq> None"
    "write_error world1 ''sync-repo/zenmius_db.enc'' = None" "db world1 = Some empty_db"
    "tree_file world1 ENC_DB_FILE = None" "transfers world1 = []" "remote_received world1 = []"
    by (simp_all add: world1_def world0_def cx0_def tree_file_def transfers_def)
  have "tree_file (import_point offline_env cx0 world1) ENC_DB_FILE = None"
    using import_point_tree [OF g, of offline_env ENC_DB_FILE cx0] w(5) by (simp add: offline_facts)
  then have "import_step offline_env cx0 (import_point offline_env cx0 world1)
               = import_point offline_env cx0 world1"
    by (rule import_step_absent)
  moreover have "db (import_point offline_env cx0 world1) = Some empty_db"
    using keeps_import_point [of world1 offline_env cx0] w(4) by (simp add: keeps_def)
  ultimately have ex: "exportData offline_env
                         (db (import_step offline_env cx0 (import_point offline_env cx0 world1)))
              = Inr (JObj [(''hosts'', JArr []), (''snippets'', JArr []), (''settings'', JNull),
                           (''remoteConnections'', JArr [])])"
    by (simp add: exportData_def empty_db_def)
  have s: "\<forall>m n. \<exists>c. crypto_secretbox_easy offline_env m n (key_of ''old'') = Inr c"
    by (simp add: offline_facts)
  note forced = failed_probe_forces_push [OF i p m]
  from forced have ok: "fst (attempt offline_env cx0 world1) = None"
    using w(1,2,3) ex s offline_facts(2) by (elim conjE allE [of _ "key_of ''old''"]) blast
  from forced have c: "\<not> fst (remote_check offline_env cx0
                            (remote_config offline_env cx0 (snd (repo_init offline_env world1))))"
    by (rule conjunct1)
  from forced ok
  have "\<exists>t. transfers (snd (attempt offline_env cx0 world1)) = transfers world1 @ [Push True (Some t)]
          \<and> remote_received (snd (attempt offline_env cx0 world1)) = remote_received world1 @ [t]"
    by blast
  with c ok show ?thesis
    by (simp add: w)
qed

section \<open>The merge\<close>

text \<open>
  Claim C8. A sync started on an open record store never loses a key of the hosts or
  of the snippets, whatever the mode and whether or not it retries. The record store
  that a sync leaves is the one that its last attempt leaves: the only attempt when
  there is no self-heal, the second attempt otherwise, which starts from the record
  store that the first one left. An attempt whose repository step throws leaves the
  record store as it was. Any other attempt leaves what the import step makes of it,
  at the payload file that the working tree holds after the pull: every host and every
  snippet whose key is bound by no row of the decrypted payload keeps its row, and when
  the import commits, every key that the payload binds holds a row of the payload.
  Local-only and remote-only records are both present after the merge.
\<close>

theorem merge_keeps_local_records:
  assumes d: "db w = Some d"
  shows "(\<exists>d'. db (snd (runSync retry E cx w)) = Some d'
              \<and> same_keys (hosts d) (hosts d') \<and> same_keys (snippets d) (snippets d'))
     \<and> db (snd (runSync False E cx w)) = db (snd (attempt E cx w))
     \<and> (fst (attempt E cx w) = None \<longrightarrow>
          db (snd (runSync True E cx w)) = db (snd (attempt E cx w)))
     \<and> (\<forall>e. fst (attempt E cx w) = Some e \<longrightarrow>
          (\<not> corruption_signature e \<longrightarrow>
             db (snd (runSync True E cx w)) = db (snd (attempt E cx w)))
          \<and> (corruption_signature e \<longrightarrow>
               db (wiped e (snd (attempt E cx w))) = db (snd (attempt E cx w))
               \<and> db (snd (runSync True E cx w))
                   = db (snd (attempt E cx (wiped e (snd (attempt E cx w)))))))
     \<and> (fst (repo_init E w) \<noteq> None \<longrightarrow> db (snd (attempt E cx w)) = db w)
     \<and> (fst (repo_init E w) = None \<longrightarrow>
          db (import_point E cx w) = db w
          \<and> (\<exists>d1. db (snd (attempt E cx w)) = Some d1
               \<and> (\<forall>k. k \<notin> fst ` set (payload_rows E cx (import_point E cx w) ''hosts'') \<longrightarrow>
                     map_of (hosts d1) k = map_of (hosts d) k)
               \<and> (\<forall>k. k \<notin> fst ` set (payload_rows E cx (import_point E cx w) ''snippets'') \<longrightarrow>
                     map_of (snippets d1) k = map_of (snippets d) k)
               \<and> (imported E cx (import_point E cx w) \<longrightarrow>
                    (\<forall>k \<in> fst ` set (payload_rows E cx (import_point E cx w) ''hosts'').
                        \<exists>row. (k, row) \<in> set (payload_rows E cx (import_point E cx w) ''hosts'')
                               \<and> map_of (hosts d1) k = Some row)
                    \<and> (\<forall>k \<in> fst ` set (payload_rows E cx (import_point E cx w) ''snippets'').
                        \<exists>row. (k, row) \<in> set (payload_rows E cx (import_point E cx w) ''snippets'')
                               \<and> map_of (snippets d1) k = Some row))))"
proof -
  from runSync_grows [of w retry E cx] d
  have a: "\<exists>d'. db (snd (runSync retry E cx w)) = Some d'
              \<and> same_keys (hosts d) (hosts d') \<and> same_keys (snippets d) (snippets d')"
    by (auto simp: grows_def split: option.splits)
  have b: "db (snd (runSync False E cx w)) = db (snd (attempt E cx w))"
    by (rule runSync_False_db)
  have c: "fst (attempt E cx w) = None \<longrightarrow>
          db (snd (runSync True E cx w)) = db (snd (attempt E cx w))"
    by (simp add: runSync_True_db(1))
  have e: "\<forall>e. fst (attempt E cx w) = Some e \<longrightarrow>
          (\<not> corruption_signature e \<longrightarrow>
             db (snd (runSync True E cx w)) = db (snd (attempt E cx w)))
          \<and> (corruption_signature e \<longrightarrow>
               db (wiped e (snd (attempt E cx w))) = db (snd (attempt E cx w))
               \<and> db (snd (runSync True E cx w))
                   = db (snd (attempt E cx (wiped e (snd (attempt E cx w))))))"
    by (simp add: runSync_True_db)
  have f: "fst (repo_init E w) \<noteq> None \<longrightarrow> db (snd (attempt E cx w)) = db w"
    using attempt_init_throws_db [of E w _ cx] by auto
  have p: "db (import_point E cx w) = db w"
    using keeps_import_point [of w E cx] by (simp add: keeps_def)
  with d have dp: "db (import_point E cx w) = Some d"
    by simp
  have g: "fst (repo_init E w) = None \<longrightarrow>
          db (import_point E cx w) = db w
          \<and> (\<exists>d1. db (snd (attempt E cx w)) = Some d1
               \<and> (\<forall>k. k \<notin> fst ` set (payload_rows E cx (import_point E cx w) ''hosts'') \<longrightarrow>
                     map_of (hosts d1) k = map_of (hosts d) k)
               \<and> (\<forall>k. k \<notin> fst ` set (payload_rows E cx (import_point E cx w) ''snippets'') \<longrightarrow>
                     map_of (snippets d1) k = map_of (snippets d) k)
               \<and> (imported E cx (import_point E cx w) \<longrightarrow>
                    (\<forall>k \<in> fst ` set (payload_rows E cx (import_point E cx w) ''hosts'').
                        \<exists>row. (k, row) \<in> set (payload_rows E cx (import_point E cx w) ''hosts'')
                               \<and> map_of (hosts d1) k = Some row)
                    \<and> (\<forall>k \<in> fst ` set (payload_rows E cx (import_point E cx w) ''snippets'').
                        \<exists>row. (k, row) \<in> set (payload_rows E cx (import_point E cx w) ''snippets'')
                               \<and> map_of (snippets d1) k = Some row)))"
  proof
    assume i: "fst (repo_init E w) = None"
    from import_step_rows [OF dp, of E cx] attempt_db_import [OF i, of cx] p
    show "db (import_point E cx w) = db w
          \<and> (\<exists>d1. db (snd (attempt E cx w)) = Some d1
               \<and> (\<forall>k. k \<notin> fst ` set (payload_rows E cx (import_point E cx w) ''hosts'') \<longrightarrow>
                     map_of (hosts d1) k = map_of (hosts d) k)
               \<and> (\<forall>k. k \<notin> fst ` set (payload_rows E cx (import_point E cx w) ''snippets'') \<longrightarrow>
                     map_of (snippets d1) k = map_of (snippets d) k)
               \<and> (imported E cx (import_point E cx w) \<longrightarrow>
                    (\<forall>k \<in> fst ` set (payload_rows E cx (import_point E cx w) ''hosts'').
                        \<exists>row. (k, row) \<in> set (payload_rows E cx (import_point E cx w) ''hosts'')
                               \<and> map_of (hosts d1) k = Some row)
                    \<and> (\<forall>k \<in> fst ` set (payload_rows E cx (import_point E cx w) ''snippets'').
                        \<exists>row. (k, row) \<in> set (payload_rows E cx (import_point E cx w) ''snippets'')
                               \<and> map_of (snippets d1) k = Some row)))"
      by simp
  qed
  from a b c e f g show ?thesis
    by (intro conjI)
qed

lemma export8: "\<exists>x. exportData demo_env (Some merged_db) = Inr x"
proof -
  have "(case exportData demo_env (Some merged_db) of Inr x \<Rightarrow> True | Inl e \<Rightarrow> False)"
    by code_simp
  then show ?thesis
    by (simp split: sum.splits)
qed

lemma demo_calls:
  "push_calls_succeed demo_env" "git_fetched demo_env t f = None"
  "crypto_secretbox_easy demo_env m n k = Inr (key_tag k @ str_bytes m)"
  by (simp_all add: push_calls_succeed_def demo_env_def demo_easy_def)

text \<open>
  One local host, one remote host in the payload file: the sync succeeds and the
  record store holds both.
\<close>

theorem merge_keeps_local_records_witness:
  "fst (runSync True demo_env cx0 world8) = Success ()
   \<and> (\<exists>d'. db (snd (runSync True demo_env cx0 world8)) = Some d'
          \<and> map_of (hosts d') ''local-1'' = Some host_local
          \<and> map_of (hosts d') ''remote-1'' = Some row_remote)"
proof -
  define P where "P = import_point demo_env cx0 world8"
  have d: "db world8 = Some local_db"
    by (simp add: world8_def)
  have g: "has_dotgit world8"
    by (simp add: has_dotgit_def the_git_def world8_def)
  have i: "fst (repo_init demo_env world8) = None"
    using g by (simp add: repo_init_def)
  have k: "masterKey P = Some (key_of ''old'')" "db P = Some local_db"
    using keeps_import_point [of world8 demo_env cx0] world8_facts by (simp_all add: keeps_def P_def)
  have t: "tree_file P ENC_DB_FILE = Some (demo_stringify (sealed nonce0 (key_of ''old'') payload8))"
    using import_point_tree [OF g, of demo_env ENC_DB_FILE cx0] world8_facts(6)
    by (simp add: demo_calls P_def tree_file_def)
  have dp: "decrypted_payload demo_env cx0 P = Some payload8"
    by (rule decrypted8) (use k t in \<open>simp_all add: tree_file_def\<close>)
  note inc = incoming8 [OF dp]
  have rows: "payload_rows demo_env cx0 P ''hosts'' = [(''remote-1'', row_remote)]"
    by (simp add: payload_rows_def inc clock_demo db_remote_def items_def rows8)
  have imp: "imported demo_env cx0 P"
    by (simp add: imported_def inc clock_demo k import8)
  have l: "map_of (hosts local_db) ''local-1'' = Some host_local"
    by (simp add: local_db_def empty_db_def)
  have s: "import_step demo_env cx0 P = import_combined demo_env db_remote doc_remote P"
    using combined8 by (simp add: import_step_some [OF dp])
  have m: "db (import_step demo_env cx0 P) = Some merged_db"
    by (simp add: s import_combined_db clock_demo k import8 merged_db_def)
  from export8 obtain x where
    ex: "exportData demo_env (db (import_step demo_env cx0 (import_point demo_env cx0 world8))) = Inr x"
    by (auto simp: m P_def [symmetric])
  have ok: "fst (attempt demo_env cx0 world8) = None"
    by (rule attempt_succeeds [OF i world8_facts(1) _ _ ex])
       (simp_all add: cx0_def world8_facts demo_calls)
  then obtain w' where "attempt demo_env cx0 world8 = (None, w')"
    by (cases "attempt demo_env cx0 world8") simp
  then have r: "fst (runSync True demo_env cx0 world8) = Success ()"
    by (simp add: runSync_True)
  note kept = merge_keeps_local_records [OF d, of True demo_env cx0]
  from kept [THEN conjunct2, THEN conjunct2, THEN conjunct1] ok
  have same: "db (snd (runSync True demo_env cx0 world8)) = db (snd (attempt demo_env cx0 world8))"
    by simp
  from kept [THEN conjunct2, THEN conjunct2, THEN conjunct2, THEN conjunct2, THEN conjunct2,
      THEN mp, OF i, THEN conjunct2]
  obtain d1 where
    d1: "db (snd (attempt demo_env cx0 world8)) = Some d1
       \<and> (\<forall>k. k \<notin> fst ` set (payload_rows demo_env cx0 P ''hosts'') \<longrightarrow>
             map_of (hosts d1) k = map_of (hosts local_db) k)
       \<and> (\<forall>k. k \<notin> fst ` set (payload_rows demo_env cx0 P ''snippets'') \<longrightarrow>
             map_of (snippets d1) k = map_of (snippets local_db) k)
       \<and> (imported demo_env cx0 P \<longrightarrow>
            (\<forall>k \<in> fst ` set (payload_rows demo_env cx0 P ''hosts'').
                \<exists>row. (k, row) \<in> set (payload_rows demo_env cx0 P ''hosts'')
                       \<and> map_of (hosts d1) k = Some row)
            \<and> (\<forall>k \<in> fst ` set (payload_rows demo_env cx0 P ''snippets'').
                \<exists>row. (k, row) \<in> set (payload_rows demo_env cx0 P ''snippets'')
                       \<and> map_of (snippets d1) k = Some row))"
    unfolding P_def ..
  from d1 rows l have "map_of (hosts d1) ''local-1'' = Some host_local"
    by simp
  moreover from d1 imp rows have "map_of (hosts d1) ''remote-1'' = Some row_remote"
    by simp
  ultimately show ?thesis
    using r same d1 by simp
qed

end
